theory Spec2Isabelle
  imports Main "HOL-Library.Word"
begin

section \<open>JavaScript strings\<close>

text \<open>
  A JavaScript string is a sequence of 16-bit code units. The literals of the source are
  ASCII, written here with \<open>js\<close>.
\<close>

type_synonym code_unit = "16 word"
type_synonym jsstring = "code_unit list"

definition js :: "string \<Rightarrow> jsstring" where
  "js s = map (\<lambda>c. word_of_nat (of_char c)) s"

definition crlf :: jsstring where
  "crlf = [0x0D, 0x0A]"

text \<open>
  Interpolating a value into a template literal: \<open>undefined\<close> prints as the nine
  letters of its name.
\<close>

definition interp :: "jsstring option \<Rightarrow> jsstring" where
  "interp x = (case x of None \<Rightarrow> js ''undefined'' | Some s \<Rightarrow> s)"

text \<open>\<open>if (x)\<close> on an optional string: \<open>undefined\<close> and the empty string are falsy.\<close>

definition truthy :: "jsstring option \<Rightarrow> bool" where
  "truthy x = (case x of None \<Rightarrow> False | Some s \<Rightarrow> s \<noteq> [])"

section \<open>The regular expressions of the update block\<close>

text \<open>
  Without the \<open>s\<close> flag, \<open>.\<close> matches every code unit but the four line terminators
  LF, CR, U+2028 and U+2029.
\<close>

definition isLineTerminator :: "code_unit \<Rightarrow> bool" where
  "isLineTerminator u = (u = 0x0A \<or> u = 0x0D \<or> u = 0x2028 \<or> u = 0x2029)"

fun starts_with :: "jsstring \<Rightarrow> jsstring \<Rightarrow> bool" where
  "starts_with [] s = True"
| "starts_with (k # ks) [] = False"
| "starts_with (k # ks) (c # cs) = (k = c \<and> starts_with ks cs)"

text \<open>\<open>String.prototype.includes\<close>: the key occurs somewhere in the string.\<close>

fun includes_str :: "jsstring \<Rightarrow> jsstring \<Rightarrow> bool" where
  "includes_str key [] = starts_with key []"
| "includes_str key (c # cs) = (starts_with key (c # cs) \<or> includes_str key cs)"

text \<open>
  \<open>/KEY.*\r?\n/\<close> tried at the start of \<open>s\<close>: the key, then the greedy run of
  non-terminators, then CR LF or LF. Giving back part of the run never helps, since the
  next unit is then a non-terminator, which neither \<open>\r?\<close> nor \<open>\n\<close> accepts. The
  result is the length of the match.
\<close>

definition match_line_at :: "jsstring \<Rightarrow> jsstring \<Rightarrow> nat option" where
  "match_line_at key s =
     (if starts_with key s then
        (let rest = drop (length key) s;
             run = takeWhile (\<lambda>u. \<not> isLineTerminator u) rest;
             post = dropWhile (\<lambda>u. \<not> isLineTerminator u) rest
         in (case post of
               [] \<Rightarrow> None
             | a # as \<Rightarrow>
                 if a = 0x0A then Some (length key + length run + 1)
                 else if a = 0x0D then
                   (case as of
                      [] \<Rightarrow> None
                    | b # bs \<Rightarrow> if b = 0x0A then Some (length key + length run + 2) else None)
                 else None))
      else None)"

text \<open>
  The leftmost match of the expression in \<open>s\<close>, as the text in front of it, the matched
  text and the text behind it. The expressions have no \<open>g\<close> flag: only this match is replaced.
\<close>

fun exec_line :: "jsstring \<Rightarrow> jsstring \<Rightarrow> (jsstring \<times> jsstring \<times> jsstring) option" where
  "exec_line key [] = None"
| "exec_line key (c # cs) =
     (case match_line_at key (c # cs) of
        Some n \<Rightarrow> Some ([], take n (c # cs), drop n (c # cs))
      | None \<Rightarrow>
          (case exec_line key cs of
             None \<Rightarrow> None
           | Some (pre, matched, post) \<Rightarrow> Some (c # pre, matched, post)))"

text \<open>
  The replacement argument of \<open>String.prototype.replace\<close> is a template: \<open>$$\<close> stands
  for a dollar sign, \<open>$&\<close> for the matched text, \<open>$`\<close> for the text in front of the match and
  \<open>$'\<close> for the text behind it. The expressions have no capture group, so \<open>$1\<close> and
  \<open><\<close> behind a dollar stay as they are.
\<close>

fun get_substitution :: "jsstring \<Rightarrow> jsstring \<Rightarrow> jsstring \<Rightarrow> jsstring \<Rightarrow> jsstring" where
  "get_substitution pre matched post [] = []"
| "get_substitution pre matched post [c] = [c]"
| "get_substitution pre matched post (c # d # t) =
     (if c = 0x24 \<and> d = 0x24 then 0x24 # get_substitution pre matched post t
      else if c = 0x24 \<and> d = 0x60 then pre @ get_substitution pre matched post t
      else if c = 0x24 \<and> d = 0x26 then matched @ get_substitution pre matched post t
      else if c = 0x24 \<and> d = 0x27 then post @ get_substitution pre matched post t
      else c # get_substitution pre matched post (d # t))"

definition replace_line :: "jsstring \<Rightarrow> jsstring \<Rightarrow> jsstring \<Rightarrow> jsstring" where
  "replace_line key template s =
     (case exec_line key s of
        None \<Rightarrow> s
      | Some (pre, matched, post) \<Rightarrow>
          pre @ get_substitution pre matched post template @ post)"

section \<open>Dates\<close>

text \<open>
  A valid \<open>Date\<close> is its time value: the milliseconds since 1970-01-01T00:00:00Z, an
  integer. The functions below are the ones ECMAScript defines on time values. The year of
  a day is searched between the two bounds that years of 365 and of 366 days give.
\<close>

definition msPerDay :: int where
  "msPerDay = 86400000"

definition Day :: "int \<Rightarrow> int" where
  "Day t = t div msPerDay"

definition DaysInYear :: "int \<Rightarrow> int" where
  "DaysInYear y =
     (if y mod 4 \<noteq> 0 then 365 else if y mod 100 \<noteq> 0 then 366
      else if y mod 400 \<noteq> 0 then 365 else 366)"

definition DayFromYear :: "int \<Rightarrow> int" where
  "DayFromYear y =
     365 * (y - 1970) + (y - 1969) div 4 - (y - 1901) div 100 + (y - 1601) div 400"

definition year_of_day :: "int \<Rightarrow> int \<Rightarrow> bool" where
  "year_of_day d y = (DayFromYear y \<le> d \<and> d < DayFromYear (y + 1))"

definition YearFromTime :: "int \<Rightarrow> int" where
  "YearFromTime t =
     (let d = Day t;
          lo = 1970 + min (d div 365) (d div 366);
          hi = 1970 + max (d div 365) (d div 366)
      in (case find (year_of_day d) [lo..hi] of Some y \<Rightarrow> y | None \<Rightarrow> lo))"

definition InLeapYear :: "int \<Rightarrow> int" where
  "InLeapYear t = (if DaysInYear (YearFromTime t) = 366 then 1 else 0)"

definition DayWithinYear :: "int \<Rightarrow> int" where
  "DayWithinYear t = Day t - DayFromYear (YearFromTime t)"

definition MonthFromTime :: "int \<Rightarrow> int" where
  "MonthFromTime t =
     (let d = DayWithinYear t; l = InLeapYear t
      in if d < 31 then 0
         else if d < 59 + l then 1
         else if d < 90 + l then 2
         else if d < 120 + l then 3
         else if d < 151 + l then 4
         else if d < 181 + l then 5
         else if d < 212 + l then 6
         else if d < 243 + l then 7
         else if d < 273 + l then 8
         else if d < 304 + l then 9
         else if d < 334 + l then 10
         else 11)"

definition DateFromTime :: "int \<Rightarrow> int" where
  "DateFromTime t =
     (let d = DayWithinYear t; l = InLeapYear t; m = MonthFromTime t
      in if m = 0 then d + 1
         else if m = 1 then d - 30
         else if m = 2 then d - 58 - l
         else if m = 3 then d - 89 - l
         else if m = 4 then d - 119 - l
         else if m = 5 then d - 150 - l
         else if m = 6 then d - 180 - l
         else if m = 7 then d - 211 - l
         else if m = 8 then d - 242 - l
         else if m = 9 then d - 272 - l
         else if m = 10 then d - 303 - l
         else d - 333 - l)"

definition HourFromTime :: "int \<Rightarrow> int" where
  "HourFromTime t = (t div 3600000) mod 24"

definition MinFromTime :: "int \<Rightarrow> int" where
  "MinFromTime t = (t div 60000) mod 60"

definition SecFromTime :: "int \<Rightarrow> int" where
  "SecFromTime t = (t div 1000) mod 60"

definition msFromTime :: "int \<Rightarrow> int" where
  "msFromTime t = t mod 1000"

text \<open>Decimal digits, and \<open>padStart(n, "0")\<close> of a decimal numeral.\<close>

definition digit :: "nat \<Rightarrow> code_unit" where
  "digit n = word_of_nat (48 + n)"

fun to_digits :: "nat \<Rightarrow> jsstring" where
  "to_digits n = (if n < 10 then [digit n] else to_digits (n div 10) @ [digit (n mod 10)])"

declare to_digits.simps [simp del]

definition pad :: "nat \<Rightarrow> nat \<Rightarrow> jsstring" where
  "pad n k = replicate (n - length (to_digits k)) (digit 0) @ to_digits k"

text \<open>
  \<open>Date.prototype.toISOString\<close>: \<open>YYYY-MM-DDTHH:mm:ss.sssZ\<close>, and for a year outside
  0 to 9999 the expanded form, a sign and six digits.
\<close>

definition year_string :: "int \<Rightarrow> jsstring" where
  "year_string y =
     (if 0 \<le> y \<and> y \<le> 9999 then pad 4 (nat y)
      else (if y < 0 then js ''-'' else js ''+'') @ pad 6 (nat \<bar>y\<bar>))"

definition toISOString :: "int \<Rightarrow> jsstring" where
  "toISOString t =
     year_string (YearFromTime t) @ js ''-'' @ pad 2 (nat (MonthFromTime t + 1)) @ js ''-''
     @ pad 2 (nat (DateFromTime t)) @ js ''T'' @ pad 2 (nat (HourFromTime t)) @ js '':''
     @ pad 2 (nat (MinFromTime t)) @ js '':'' @ pad 2 (nat (SecFromTime t)) @ js ''.''
     @ pad 3 (nat (msFromTime t)) @ js ''Z''"

text \<open>\<open>replace(/[-:]/g, "")\<close> deletes every hyphen and colon.\<close>

definition strip_separators :: "jsstring \<Rightarrow> jsstring" where
  "strip_separators s = filter (\<lambda>u. u \<noteq> 0x2D \<and> u \<noteq> 0x3A) s"

definition isDigit :: "code_unit \<Rightarrow> bool" where
  "isDigit u = (0x30 \<le> u \<and> u \<le> 0x39)"

text \<open>\<open>replace(/\.\d{3}/, "")\<close> deletes the first full stop that three digits follow.\<close>

fun strip_millis :: "jsstring \<Rightarrow> jsstring" where
  "strip_millis (a # b # c # d # t) =
     (if a = 0x2E \<and> isDigit b \<and> isDigit c \<and> isDigit d then t
      else a # strip_millis (b # c # d # t))"
| "strip_millis s = s"

definition formatICalDate :: "int \<Rightarrow> jsstring" where
  "formatICalDate date = strip_millis (strip_separators (toISOString date))"

text \<open>The form \<open>YYYYMMDDTHHMMSSZ\<close>: eight digits, \<open>T\<close>, six digits, \<open>Z\<close>.\<close>

definition compact_form :: "jsstring \<Rightarrow> bool" where
  "compact_form s =
     (length s = 16 \<and> list_all isDigit (take 8 s) \<and> s ! 8 = 0x54
      \<and> list_all isDigit (take 6 (drop 9 s)) \<and> s ! 15 = 0x5A)"

section \<open>The patch block of \<open>update_event\<close>\<close>

datatype exn = Error jsstring | Thrown jsstring

text \<open>
  The argument bag of a tool call: every field is a string or absent. \<open>new Date(x)\<close> is
  the runtime's parser, a parameter; it gives no time value for a text it cannot read, and
  none for \<open>undefined\<close>.
\<close>

record tool_args =
  calendarUrl :: "jsstring option"
  eventUrl :: "jsstring option"
  etag :: "jsstring option"
  summary :: "jsstring option"
  description :: "jsstring option"
  startDate :: "jsstring option"
  endDate :: "jsstring option"
  location :: "jsstring option"

definition newDate :: "(jsstring \<Rightarrow> int option) \<Rightarrow> jsstring option \<Rightarrow> int option" where
  "newDate parseDate x = (case x of None \<Rightarrow> None | Some s \<Rightarrow> parseDate s)"

definition patch_summary :: "jsstring option \<Rightarrow> jsstring \<Rightarrow> jsstring" where
  "patch_summary s ical =
     (if truthy s
      then replace_line (js ''SUMMARY:'') (js ''SUMMARY:'' @ interp s @ crlf) ical
      else ical)"

definition patch_description :: "jsstring option \<Rightarrow> jsstring \<Rightarrow> jsstring" where
  "patch_description d ical =
     (if d \<noteq> None then
        (if includes_str (js ''DESCRIPTION:'') ical
         then replace_line (js ''DESCRIPTION:'') (js ''DESCRIPTION:'' @ interp d @ crlf) ical
         else replace_line (js ''SUMMARY:'') (js ''$&DESCRIPTION:'' @ interp d @ crlf) ical)
      else ical)"

definition patch_location :: "jsstring option \<Rightarrow> jsstring \<Rightarrow> jsstring" where
  "patch_location l ical =
     (if l \<noteq> None then
        (if includes_str (js ''LOCATION:'') ical
         then replace_line (js ''LOCATION:'') (js ''LOCATION:'' @ interp l @ crlf) ical
         else replace_line (js ''SUMMARY:'') (js ''$&LOCATION:'' @ interp l @ crlf) ical)
      else ical)"

definition patch_start :: "(jsstring \<Rightarrow> int option) \<Rightarrow> jsstring option \<Rightarrow> jsstring \<Rightarrow> exn + jsstring" where
  "patch_start parseDate sd ical =
     (if truthy sd then
        (case newDate parseDate sd of
           None \<Rightarrow> Inl (Error (js ''Invalid start date: '' @ interp sd))
         | Some start \<Rightarrow>
             Inr (replace_line (js ''DTSTART:'') (js ''DTSTART:'' @ formatICalDate start @ crlf) ical))
      else Inr ical)"

definition patch_end :: "(jsstring \<Rightarrow> int option) \<Rightarrow> jsstring option \<Rightarrow> jsstring \<Rightarrow> exn + jsstring" where
  "patch_end parseDate ed ical =
     (if truthy ed then
        (case newDate parseDate ed of
           None \<Rightarrow> Inl (Error (js ''Invalid end date: '' @ interp ed))
         | Some end \<Rightarrow>
             Inr (replace_line (js ''DTEND:'') (js ''DTEND:'' @ formatICalDate end @ crlf) ical))
      else Inr ical)"

text \<open>
  The block from \<open>let updatedIcal = existingEvent.data\<close> to the last date branch: the
  five branches in the order of the source, a malformed date raising where its branch stands.
\<close>

definition update_event_patch :: "(jsstring \<Rightarrow> int option) \<Rightarrow> tool_args \<Rightarrow> jsstring \<Rightarrow> exn + jsstring" where
  "update_event_patch parseDate args data =
     (let u1 = patch_summary (summary args) data;
          u2 = patch_description (description args) u1;
          u3 = patch_location (location args) u2
      in (case patch_start parseDate (startDate args) u3 of
            Inl e \<Rightarrow> Inl e
          | Inr u4 \<Rightarrow> patch_end parseDate (endDate args) u4))"

section \<open>The session and the CalDAV capability\<close>

text \<open>
  The calendars and calendar objects of the CalDAV client library, with the fields the
  source reads. The configuration carries the two credentials.
\<close>

record calendar =
  cal_displayName :: "jsstring option"
  cal_url :: jsstring
  cal_description :: "jsstring option"
  cal_timezone :: "jsstring option"

record cal_object =
  obj_url :: jsstring
  obj_etag :: jsstring
  obj_data :: jsstring

record config =
  username :: jsstring
  appPassword :: jsstring

text \<open>
  Every call into the CalDAV capability is a request on the wire, recorded in the order of
  issue: the handshake of \<open>createDAVClient\<close> with its credentials, the calendar listing,
  the fetch of a calendar's objects with an optional time range, and the three writes.
\<close>

datatype request =
    CreateDAVClient jsstring jsstring
  | FetchCalendars
  | FetchCalendarObjects calendar "(jsstring option \<times> jsstring option) option"
  | CreateCalendarObject calendar jsstring jsstring
  | UpdateCalendarObject "jsstring option" jsstring jsstring
  | DeleteCalendarObject "jsstring option" "jsstring option"

datatype dav_client = DAVClient

text \<open>
  The remote side is a parameter: what each call answers, or the value it throws, given
  all the requests issued before it.
\<close>

record dav =
  createDAVClient :: "request list \<Rightarrow> jsstring \<Rightarrow> jsstring \<Rightarrow> exn + dav_client"
  fetchCalendars :: "request list \<Rightarrow> exn + calendar list"
  fetchCalendarObjects ::
    "request list \<Rightarrow> calendar \<Rightarrow> (jsstring option \<times> jsstring option) option \<Rightarrow> exn + cal_object list"
  createCalendarObject :: "request list \<Rightarrow> calendar \<Rightarrow> jsstring \<Rightarrow> jsstring \<Rightarrow> exn + jsstring"
  updateCalendarObject :: "request list \<Rightarrow> jsstring option \<Rightarrow> jsstring \<Rightarrow> jsstring \<Rightarrow> exn + unit"
  deleteCalendarObject :: "request list \<Rightarrow> jsstring option \<Rightarrow> jsstring option \<Rightarrow> exn + unit"

text \<open>
  The two variables of the closure, \<open>davClient\<close> (\<open>null\<close> at first) and \<open>calendars\<close>
  (empty at first), and the requests issued so far.
\<close>

record state =
  davClient :: "dav_client option"
  calendars :: "calendar list"
  log :: "request list"

definition initial_state :: state where
  "initial_state = \<lparr>davClient = None, calendars = [], log = []\<rparr>"

definition issue :: "request \<Rightarrow> state \<Rightarrow> state" where
  "issue r st = st\<lparr>log := log st @ [r]\<rparr>"

definition initializeClient :: "config \<Rightarrow> dav \<Rightarrow> state \<Rightarrow> (exn + unit) \<times> state" where
  "initializeClient cfg srv st =
     (if davClient st = None then
        (case createDAVClient srv (log st) (username cfg) (appPassword cfg) of
           Inl e \<Rightarrow> (Inl e, issue (CreateDAVClient (username cfg) (appPassword cfg)) st)
         | Inr c \<Rightarrow>
             (let st1 = (issue (CreateDAVClient (username cfg) (appPassword cfg)) st)
                          \<lparr>davClient := Some c\<rparr>
              in (case fetchCalendars srv (log st1) of
                    Inl e \<Rightarrow> (Inl e, issue FetchCalendars st1)
                  | Inr cs \<Rightarrow> (Inr (), (issue FetchCalendars st1)\<lparr>calendars := cs\<rparr>))))
      else (Inr (), st))"

section \<open>The tool-call handler\<close>

text \<open>
  What the built-ins of the runtime give: the date parser, the two readings of the clock
  in \<open>create_event\<close>, and \<open>JSON.stringify\<close> on the two lists the handler prints.
\<close>

record calendar_view =
  view_displayName :: "jsstring option"
  view_url :: jsstring
  view_description :: jsstring
  view_timezone :: jsstring

record runtime =
  parseDate :: "jsstring \<Rightarrow> int option"
  dateNow :: int
  newDateNow :: int
  stringifyCalendars :: "calendar_view list \<Rightarrow> jsstring"
  stringifyEvents :: "cal_object list \<Rightarrow> jsstring"

text \<open>\<open>x || ""\<close> on an optional string.\<close>

definition or_empty :: "jsstring option \<Rightarrow> jsstring" where
  "or_empty x = (if truthy x then interp x else [])"

definition list_calendars :: "runtime \<Rightarrow> state \<Rightarrow> (exn + jsstring) \<times> state" where
  "list_calendars rt st =
     (let calendarList =
            map (\<lambda>cal. \<lparr>view_displayName = cal_displayName cal, view_url = cal_url cal,
                         view_description = or_empty (cal_description cal),
                         view_timezone = or_empty (cal_timezone cal)\<rparr>) (calendars st)
      in (Inr (stringifyCalendars rt calendarList), st))"

definition list_events :: "runtime \<Rightarrow> dav \<Rightarrow> tool_args \<Rightarrow> state \<Rightarrow> (exn + jsstring) \<times> state" where
  "list_events rt srv args st =
     (case find (\<lambda>cal. Some (cal_url cal) = calendarUrl args) (calendars st) of
        None \<Rightarrow> (Inl (Error (js ''Calendar not found: '' @ interp (calendarUrl args))), st)
      | Some cal \<Rightarrow>
          (case newDate (parseDate rt) (startDate args) of
             None \<Rightarrow> (Inl (Error (js ''Invalid start date: '' @ interp (startDate args))), st)
           | Some start \<Rightarrow>
               (case newDate (parseDate rt) (endDate args) of
                  None \<Rightarrow> (Inl (Error (js ''Invalid end date: '' @ interp (endDate args))), st)
                | Some end \<Rightarrow>
                    (let range = Some (startDate args, endDate args);
                         st1 = issue (FetchCalendarObjects cal range) st
                     in (case fetchCalendarObjects srv (log st) cal range of
                           Inl e \<Rightarrow> (Inl e, st1)
                         | Inr calendarObjects \<Rightarrow>
                             (Inr (stringifyEvents rt calendarObjects), st1))))))"

text \<open>\<open>String(n)\<close> of an integer, and \<open>Array.prototype.join\<close>.\<close>

definition num_string :: "int \<Rightarrow> jsstring" where
  "num_string n = (if n < 0 then js ''-'' @ to_digits (nat (- n)) else to_digits (nat n))"

fun join :: "jsstring \<Rightarrow> jsstring list \<Rightarrow> jsstring" where
  "join sep [] = []"
| "join sep [x] = x"
| "join sep (x # y # ys) = x @ sep @ join sep (y # ys)"

definition create_event :: "runtime \<Rightarrow> dav \<Rightarrow> tool_args \<Rightarrow> state \<Rightarrow> (exn + jsstring) \<times> state" where
  "create_event rt srv args st =
     (case find (\<lambda>cal. Some (cal_url cal) = calendarUrl args) (calendars st) of
        None \<Rightarrow> (Inl (Error (js ''Calendar not found: '' @ interp (calendarUrl args))), st)
      | Some cal \<Rightarrow>
          (case newDate (parseDate rt) (startDate args) of
             None \<Rightarrow> (Inl (Error (js ''Invalid start date: '' @ interp (startDate args))), st)
           | Some start \<Rightarrow>
               (case newDate (parseDate rt) (endDate args) of
                  None \<Rightarrow> (Inl (Error (js ''Invalid end date: '' @ interp (endDate args))), st)
                | Some end \<Rightarrow>
                    if end \<le> start
                    then (Inl (Error (js ''End date must be after start date'')), st)
                    else
                      (let uid = num_string (dateNow rt) @ js ''@fastmail-mcp'';
                           icalString = join crlf (filter (\<lambda>l. l \<noteq> [])
                             [js ''BEGIN:VCALENDAR'',
                              js ''VERSION:2.0'',
                              js ''PRODID:-//Fastmail Calendar MCP//EN'',
                              js ''BEGIN:VEVENT'',
                              js ''UID:'' @ uid,
                              js ''DTSTAMP:'' @ formatICalDate (newDateNow rt),
                              js ''DTSTART:'' @ formatICalDate start,
                              js ''DTEND:'' @ formatICalDate end,
                              js ''SUMMARY:'' @ interp (summary args),
                              if truthy (description args)
                              then js ''DESCRIPTION:'' @ interp (description args) else [],
                              if truthy (location args)
                              then js ''LOCATION:'' @ interp (location args) else [],
                              js ''END:VEVENT'',
                              js ''END:VCALENDAR'']);
                           filename = uid @ js ''.ics'';
                           st1 = issue (CreateCalendarObject cal filename icalString) st
                       in (case createCalendarObject srv (log st) cal filename icalString of
                             Inl e \<Rightarrow> (Inl e, st1)
                           | Inr result_url \<Rightarrow>
                               (Inr (js ''Event created successfully: '' @ interp (summary args)
                                     @ [0x0A] @ js ''URL: '' @ result_url), st1))))))"

text \<open>
  The loop over \<open>calendars\<close> in \<open>update_event\<close>: one unfiltered fetch per calendar, in
  the order of the list, left at the first calendar whose objects hold the address. The
  result is the object found, or \<open>None\<close> when the list is used up.
\<close>

fun locate :: "dav \<Rightarrow> jsstring option \<Rightarrow> calendar list \<Rightarrow> state \<Rightarrow> (exn + cal_object option) \<times> state" where
  "locate srv url [] st = (Inr None, st)"
| "locate srv url (cal # cals) st =
     (case fetchCalendarObjects srv (log st) cal None of
        Inl e \<Rightarrow> (Inl e, issue (FetchCalendarObjects cal None) st)
      | Inr events \<Rightarrow>
          (case find (\<lambda>e. Some (obj_url e) = url) events of
             Some existingEvent \<Rightarrow> (Inr (Some existingEvent), issue (FetchCalendarObjects cal None) st)
           | None \<Rightarrow> locate srv url cals (issue (FetchCalendarObjects cal None) st)))"

definition update_event :: "runtime \<Rightarrow> dav \<Rightarrow> tool_args \<Rightarrow> state \<Rightarrow> (exn + jsstring) \<times> state" where
  "update_event rt srv args st =
     (case locate srv (eventUrl args) (calendars st) st of
        (Inl e, st1) \<Rightarrow> (Inl e, st1)
      | (Inr None, st1) \<Rightarrow> (Inl (Error (js ''Event not found: '' @ interp (eventUrl args))), st1)
      | (Inr (Some existingEvent), st1) \<Rightarrow>
          (case update_event_patch (parseDate rt) args (obj_data existingEvent) of
             Inl e \<Rightarrow> (Inl e, st1)
           | Inr updatedIcal \<Rightarrow>
               (let st2 = issue (UpdateCalendarObject (eventUrl args) updatedIcal
                                   (obj_etag existingEvent)) st1
                in (case updateCalendarObject srv (log st1) (eventUrl args) updatedIcal
                           (obj_etag existingEvent) of
                      Inl e \<Rightarrow> (Inl e, st2)
                    | Inr _ \<Rightarrow>
                        (Inr (js ''Event updated successfully: '' @ interp (eventUrl args)), st2)))))"

definition delete_event :: "dav \<Rightarrow> tool_args \<Rightarrow> state \<Rightarrow> (exn + jsstring) \<times> state" where
  "delete_event srv args st =
     (let st1 = issue (DeleteCalendarObject (eventUrl args) (etag args)) st
      in (case deleteCalendarObject srv (log st) (eventUrl args) (etag args) of
            Inl e \<Rightarrow> (Inl e, st1)
          | Inr _ \<Rightarrow> (Inr (js ''Event deleted successfully: '' @ interp (eventUrl args)), st1)))"

text \<open>
  Destructuring the argument bag throws a \<open>TypeError\<close> when the request carries no
  \<open>arguments\<close> at all; the wording is V8's, with the first property of the pattern.
\<close>

definition destructure :: "string \<Rightarrow> tool_args option \<Rightarrow> exn + tool_args" where
  "destructure first args =
     (case args of
        None \<Rightarrow> Inl (Error (js ''Cannot destructure property '' @ [0x27] @ js first @ [0x27]
                              @ js '' of '' @ [0x27] @ js ''args'' @ [0x27]
                              @ js '' as it is undefined.''))
      | Some a \<Rightarrow> Inr a)"

text \<open>The \<open>try\<close> block: the initialization, then the \<open>switch\<close> on the name.\<close>

definition tool_switch :: "runtime \<Rightarrow> dav \<Rightarrow> jsstring \<Rightarrow> tool_args option \<Rightarrow> state \<Rightarrow> (exn + jsstring) \<times> state" where
  "tool_switch rt srv name args st =
     (if name = js ''list_calendars'' then list_calendars rt st
      else if name = js ''list_events'' then
        (case destructure ''calendarUrl'' args of
           Inl e \<Rightarrow> (Inl e, st) | Inr a \<Rightarrow> list_events rt srv a st)
      else if name = js ''create_event'' then
        (case destructure ''calendarUrl'' args of
           Inl e \<Rightarrow> (Inl e, st) | Inr a \<Rightarrow> create_event rt srv a st)
      else if name = js ''update_event'' then
        (case destructure ''eventUrl'' args of
           Inl e \<Rightarrow> (Inl e, st) | Inr a \<Rightarrow> update_event rt srv a st)
      else if name = js ''delete_event'' then
        (case destructure ''eventUrl'' args of
           Inl e \<Rightarrow> (Inl e, st) | Inr a \<Rightarrow> delete_event srv a st)
      else (Inl (Error (js ''Unknown tool: '' @ name)), st))"

definition try_block :: "config \<Rightarrow> runtime \<Rightarrow> dav \<Rightarrow> jsstring \<Rightarrow> tool_args option \<Rightarrow> state \<Rightarrow> (exn + jsstring) \<times> state" where
  "try_block cfg rt srv name args st =
     (case initializeClient cfg srv st of
        (Inl e, st1) \<Rightarrow> (Inl e, st1)
      | (Inr _, st1) \<Rightarrow> tool_switch rt srv name args st1)"

text \<open>
  The result of a tool call: its text, and the \<open>isError\<close> flag, which only the
  \<open>catch\<close> block sets. For a thrown \<open>Error\<close> the message is its \<open>message\<close>, for
  any other thrown value its \<open>String\<close> conversion.
\<close>

record tool_result =
  content_text :: jsstring
  isError :: bool

definition errorMessage :: "exn \<Rightarrow> jsstring" where
  "errorMessage e = (case e of Error m \<Rightarrow> m | Thrown s \<Rightarrow> s)"

definition handler :: "config \<Rightarrow> runtime \<Rightarrow> dav \<Rightarrow> jsstring \<Rightarrow> tool_args option \<Rightarrow> state \<Rightarrow> tool_result \<times> state" where
  "handler cfg rt srv name args st =
     (case try_block cfg rt srv name args st of
        (Inr t, st1) \<Rightarrow> (\<lparr>content_text = t, isError = False\<rparr>, st1)
      | (Inl e, st1) \<Rightarrow> (\<lparr>content_text = js ''Error: '' @ errorMessage e, isError = True\<rparr>, st1))"

section \<open>Interleaved initializations\<close>

text \<open>
  \<open>initializeClient\<close> suspends at its two \<open>await\<close>s, and the code between two
  suspensions runs without interruption. A call of it is therefore in one of five places:
  not yet entered, suspended on the handshake, suspended on the calendar listing (each with
  what its promise settles to), returned, or left by an exception. \<open>init_step\<close> runs one
  call up to its next suspension; \<open>run\<close> does so for several calls in the order a
  schedule gives, each number naming the call that is resumed.
\<close>

datatype init_task =
    Entry
  | AwaitCreate "exn + dav_client"
  | AwaitFetch "exn + calendar list"
  | Returned
  | Raised exn

definition init_step :: "config \<Rightarrow> dav \<Rightarrow> init_task \<Rightarrow> state \<Rightarrow> init_task \<times> state" where
  "init_step cfg srv task st =
     (case task of
        Entry \<Rightarrow>
          if davClient st = None
          then (AwaitCreate (createDAVClient srv (log st) (username cfg) (appPassword cfg)),
                issue (CreateDAVClient (username cfg) (appPassword cfg)) st)
          else (Returned, st)
      | AwaitCreate r \<Rightarrow>
          (case r of
             Inl e \<Rightarrow> (Raised e, st)
           | Inr c \<Rightarrow>
               (let st1 = st\<lparr>davClient := Some c\<rparr>
                in (AwaitFetch (fetchCalendars srv (log st1)), issue FetchCalendars st1)))
      | AwaitFetch r \<Rightarrow>
          (case r of
             Inl e \<Rightarrow> (Raised e, st)
           | Inr cs \<Rightarrow> (Returned, st\<lparr>calendars := cs\<rparr>))
      | Returned \<Rightarrow> (Returned, st)
      | Raised e \<Rightarrow> (Raised e, st))"

fun run :: "config \<Rightarrow> dav \<Rightarrow> nat list \<Rightarrow> init_task list \<times> state \<Rightarrow> init_task list \<times> state" where
  "run cfg srv [] ts = ts"
| "run cfg srv (i # sched) (tasks, st) =
     (if i < length tasks
      then (case init_step cfg srv (tasks ! i) st of
              (task1, st1) \<Rightarrow> run cfg srv sched (tasks[i := task1], st1))
      else run cfg srv sched (tasks, st))"

fun is_handshake :: "request \<Rightarrow> bool" where
  "is_handshake (CreateDAVClient u p) = True"
| "is_handshake r = False"

definition handshakes :: "state \<Rightarrow> nat" where
  "handshakes st = length (filter is_handshake (log st))"

text \<open>The requests that read or write calendar objects, as opposed to those of the initialization.\<close>

fun is_object_request :: "request \<Rightarrow> bool" where
  "is_object_request (CreateDAVClient u p) = False"
| "is_object_request FetchCalendars = False"
| "is_object_request r = True"

fun is_write :: "request \<Rightarrow> bool" where
  "is_write (CreateCalendarObject c f i) = True"
| "is_write (UpdateCalendarObject u d e) = True"
| "is_write (DeleteCalendarObject u e) = True"
| "is_write r = False"

text \<open>Concrete inputs for the examples below.\<close>

definition no_args :: tool_args where
  "no_args = \<lparr>calendarUrl = None, eventUrl = None, etag = None, summary = None,
               description = None, startDate = None, endDate = None, location = None\<rparr>"

section \<open>Vocabulary for the statements\<close>

text \<open>
  For the loop of \<open>update_event\<close> over a list of calendars, started in a given state:
  the request its step \<open>k\<close> issues, what the remote side answers to it after the steps
  before it, the first object of an answer with the address sought, and whether step
  \<open>k\<close> is answered without such an object.
\<close>

definition fetch_request :: "calendar \<Rightarrow> request" where
  "fetch_request cal = FetchCalendarObjects cal None"

definition fetched :: "dav \<Rightarrow> state \<Rightarrow> calendar list \<Rightarrow> nat \<Rightarrow> exn + cal_object list" where
  "fetched srv st cals k =
     fetchCalendarObjects srv (log st @ map fetch_request (take k cals)) (cals ! k) None"

definition matching :: "jsstring option \<Rightarrow> cal_object list \<Rightarrow> cal_object option" where
  "matching url events = find (\<lambda>e. Some (obj_url e) = url) events"

definition misses :: "dav \<Rightarrow> jsstring option \<Rightarrow> state \<Rightarrow> calendar list \<Rightarrow> nat \<Rightarrow> bool" where
  "misses srv url st cals k =
     (case fetched srv st cals k of Inl e \<Rightarrow> False | Inr events \<Rightarrow> matching url events = None)"

text \<open>
  The result a caller is to get when a value was thrown while its call was handled: the
  text \<open>Error:\<close> with the message of a thrown \<open>Error\<close>, or with the string form of any
  other thrown value, and the error flag.
\<close>

definition error_result :: "exn \<Rightarrow> tool_result" where
  "error_result e =
     \<lparr>content_text = js ''Error: '' @ (case e of Error m \<Rightarrow> m | Thrown s \<Rightarrow> s),
      isError = True\<rparr>"

text \<open>
  An account for the examples: four calendars A, B, C and D, one event, which is in C, and
  a remote side that accepts everything. The runtime reads two timestamps and rejects every
  other text; the examples print no list.
\<close>

definition cal_named :: "string \<Rightarrow> calendar" where
  "cal_named n = \<lparr>cal_displayName = Some (js n), cal_url = js ''/cal/'' @ js n,
                  cal_description = None, cal_timezone = None\<rparr>"

definition example_event :: cal_object where
  "example_event = \<lparr>obj_url = js ''/cal/C/1.ics'', obj_etag = js ''v1'',
                     obj_data = js ''SUMMARY:old'' @ crlf\<rparr>"

definition example_dav :: dav where
  "example_dav =
     \<lparr>createDAVClient = (\<lambda>h u p. Inr DAVClient),
      fetchCalendars = (\<lambda>h. Inr [cal_named ''A'', cal_named ''B'', cal_named ''C'', cal_named ''D'']),
      fetchCalendarObjects = (\<lambda>h cal range. if cal = cal_named ''C'' then Inr [example_event] else Inr []),
      createCalendarObject = (\<lambda>h cal filename ical. Inr (cal_url cal @ filename)),
      updateCalendarObject = (\<lambda>h u d e. Inr ()),
      deleteCalendarObject = (\<lambda>h u e. Inr ())\<rparr>"

definition example_runtime :: runtime where
  "example_runtime =
     \<lparr>parseDate = (\<lambda>s. if s = js ''2024-12-15T10:00:00Z'' then Some 1734256800000
                        else if s = js ''2024-12-15T11:00:00Z'' then Some 1734260400000
                        else None),
      dateNow = 1734000000000,
      newDateNow = 1734000000000,
      stringifyCalendars = (\<lambda>l. []),
      stringifyEvents = (\<lambda>l. [])\<rparr>"

definition example_config :: config where
  "example_config = \<lparr>username = js ''user@fastmail.com'', appPassword = js ''0123456789abcdef''\<rparr>"

definition connected_state :: state where
  "connected_state =
     \<lparr>davClient = Some DAVClient,
      calendars = [cal_named ''A'', cal_named ''B'', cal_named ''C'', cal_named ''D''],
      log = []\<rparr>"

section \<open>The patch block on concrete bodies\<close>

lemmas patch_eval = js_def crlf_def match_line_at_def isLineTerminator_def update_event_patch_def
  patch_summary_def patch_description_def patch_location_def patch_start_def patch_end_def
  truthy_def interp_def replace_line_def no_args_def

text \<open>
  Claim C1 says that patching twice with the same patch gives the text that patching once
  gives, for every body and patch. The code does not do so for a description of two lines,
  \<open>a\<close> LF \<open>b\<close>: the first pass writes \<open>DESCRIPTION:a\<close> LF \<open>b\<close> CR LF over the old
  line; in the second pass the expression matches only up to the LF inside the value, so the
  whole replacement is written over \<open>DESCRIPTION:a\<close> LF and the old tail \<open>b\<close> CR LF
  stays behind it. The tool list of the same file declares \<open>idempotentHint: true\<close> for
  \<open>update_event\<close>.
\<close>

theorem update_event_patch_not_idempotent:
  "update_event_patch parse (no_args\<lparr>description := Some (js ''a'' @ [0x0A] @ js ''b'')\<rparr>)
     (js ''SUMMARY:s'' @ crlf @ js ''DESCRIPTION:old'' @ crlf)
   = Inr (js ''SUMMARY:s'' @ crlf @ js ''DESCRIPTION:a'' @ [0x0A] @ js ''b'' @ crlf)
   \<and> update_event_patch parse (no_args\<lparr>description := Some (js ''a'' @ [0x0A] @ js ''b'')\<rparr>)
     (js ''SUMMARY:s'' @ crlf @ js ''DESCRIPTION:a'' @ [0x0A] @ js ''b'' @ crlf)
   = Inr (js ''SUMMARY:s'' @ crlf @ js ''DESCRIPTION:a'' @ [0x0A] @ js ''b'' @ crlf
          @ js ''b'' @ crlf)"
  by (simp add: patch_eval)

text \<open>
  The replacement text is a template, so a value with a dollar pattern is not written as it
  stands either: a summary \<open>$&\<close> puts the old line into the new one.
\<close>

lemma update_event_patch_dollar:
  "update_event_patch parse (no_args\<lparr>summary := Some (js ''$&'')\<rparr>) (js ''SUMMARY:old'' @ crlf)
   = Inr (js ''SUMMARY:SUMMARY:old'' @ crlf @ crlf)"
  by (simp add: patch_eval)

text \<open>
  Claim C2 says that a line the patch does not touch is the same before and after, also
  where a value holds a text such as \<open>DESCRIPTION:\<close>. The expressions are not anchored at
  the start of a line: with a summary that mentions \<open>DESCRIPTION:\<close> and no description
  line, a patch of the description alone rewrites the tail of the summary line, and adds no
  description line. The tool list says of \<open>update_event\<close> that omitted fields stay the
  same.
\<close>

theorem update_event_patch_rewrites_summary_line:
  "update_event_patch parse (no_args\<lparr>description := Some (js ''new'')\<rparr>)
     (js ''BEGIN:VEVENT'' @ crlf @ js ''SUMMARY:Read DESCRIPTION: field'' @ crlf
      @ js ''END:VEVENT'' @ crlf)
   = Inr (js ''BEGIN:VEVENT'' @ crlf @ js ''SUMMARY:Read DESCRIPTION:new'' @ crlf
          @ js ''END:VEVENT'' @ crlf)"
  by (simp add: patch_eval)

text \<open>
  Claim C3 says that a field present in the patch is applied, a summary of the empty string
  included. The summary branch tests \<open>if (summary)\<close>, which the empty string fails, so the
  body comes back unchanged; the description branch tests \<open>description !== undefined\<close>
  and does write the empty value.
\<close>

theorem update_event_patch_empty_summary:
  "update_event_patch parse (no_args\<lparr>summary := Some []\<rparr>)
     (js ''SUMMARY:old'' @ crlf @ js ''DESCRIPTION:d'' @ crlf)
   = Inr (js ''SUMMARY:old'' @ crlf @ js ''DESCRIPTION:d'' @ crlf)
   \<and> update_event_patch parse (no_args\<lparr>description := Some []\<rparr>)
     (js ''SUMMARY:old'' @ crlf @ js ''DESCRIPTION:d'' @ crlf)
   = Inr (js ''SUMMARY:old'' @ crlf @ js ''DESCRIPTION:'' @ crlf)"
  by (simp add: patch_eval)

section \<open>The locator loop\<close>

lemma log_issue: "log (issue r st) = log st @ [r]"
  by (simp add: issue_def)

lemma fetched_0: "fetched srv st (c # cs) 0 = fetchCalendarObjects srv (log st) c None"
  by (simp add: fetched_def)

lemma fetched_Suc: "fetched srv st (c # cs) (Suc k) = fetched srv (issue (fetch_request c) st) cs k"
  by (simp add: fetched_def log_issue)

lemma misses_0:
  "misses srv url st (c # cs) 0 =
     (case fetchCalendarObjects srv (log st) c None of
        Inl e \<Rightarrow> False | Inr events \<Rightarrow> matching url events = None)"
  by (simp add: misses_def fetched_0)

lemma misses_Suc: "misses srv url st (c # cs) (Suc k) = misses srv url (issue (fetch_request c) st) cs k"
  by (simp add: misses_def fetched_Suc)

lemma issue_log_append:
  "(issue r st)\<lparr>log := log (issue r st) @ rs\<rparr> = st\<lparr>log := log st @ r # rs\<rparr>"
  by (simp add: issue_def)

lemma all_less_Suc_shift: "(\<forall>j<Suc n. P j) = (P 0 \<and> (\<forall>j<n. P (Suc j)))"
  by (metis less_Suc_eq_0_disj)

lemma locate_found:
  "k < length cals \<Longrightarrow> \<forall>j<k. misses srv url st cals j \<Longrightarrow> fetched srv st cals k = Inr events
   \<Longrightarrow> matching url events = Some e
   \<Longrightarrow> locate srv url cals st
       = (Inr (Some e), st\<lparr>log := log st @ map fetch_request (take (Suc k) cals)\<rparr>)"
proof (induction cals arbitrary: st k)
  case Nil
  then show ?case by simp
next
  case (Cons c cs)
  show ?case
  proof (cases k)
    case 0
    with Cons.prems show ?thesis
      by (simp add: fetched_0 matching_def issue_def fetch_request_def)
  next
    case (Suc k')
    from Cons.prems(2) Suc have m0: "misses srv url st (c # cs) 0" by simp
    from Cons.prems(2) Suc have rest: "\<forall>j<k'. misses srv url (issue (fetch_request c) st) cs j"
      by (auto simp: misses_Suc[symmetric])
    from Cons.prems Suc have k': "k' < length cs" by simp
    from Cons.prems(3) Suc have f: "fetched srv (issue (fetch_request c) st) cs k' = Inr events"
      by (simp add: fetched_Suc)
    have ih: "locate srv url cs (issue (fetch_request c) st)
        = (Inr (Some e), (issue (fetch_request c) st)\<lparr>log := log (issue (fetch_request c) st)
             @ map fetch_request (take (Suc k') cs)\<rparr>)"
      by (rule Cons.IH[OF k' rest f Cons.prems(4)])
    from m0 obtain evs where ev: "fetchCalendarObjects srv (log st) c None = Inr evs"
      and nomatch: "find (\<lambda>e. Some (obj_url e) = url) evs = None"
      by (auto simp: misses_0 matching_def split: sum.splits)
    show ?thesis
      using ev nomatch ih Suc
      by (simp add: issue_log_append fetch_request_def[symmetric])
  qed
qed

lemma locate_none_iff:
  "(fst (locate srv url cals st) = Inr None) = (\<forall>j<length cals. misses srv url st cals j)"
proof (induction cals arbitrary: st)
  case Nil
  then show ?case by simp
next
  case (Cons c cs)
  show ?case
    by (simp add: all_less_Suc_shift misses_0 misses_Suc Cons.IH[symmetric] matching_def
          fetch_request_def split: sum.splits option.splits)
qed

lemma locate_none_state:
  "\<forall>j<length cals. misses srv url st cals j
   \<Longrightarrow> locate srv url cals st = (Inr None, st\<lparr>log := log st @ map fetch_request cals\<rparr>)"
proof (induction cals arbitrary: st)
  case Nil
  then show ?case by simp
next
  case (Cons c cs)
  from Cons.prems have m0: "misses srv url st (c # cs) 0" by auto
  from Cons.prems have rest: "\<forall>j<length cs. misses srv url (issue (fetch_request c) st) cs j"
    by (auto simp: misses_Suc[symmetric])
  from m0 obtain evs where ev: "fetchCalendarObjects srv (log st) c None = Inr evs"
      and nomatch: "find (\<lambda>e. Some (obj_url e) = url) evs = None"
      by (auto simp: misses_0 matching_def split: sum.splits)
  show ?case using ev nomatch Cons.IH[OF rest]
    by (simp add: issue_log_append fetch_request_def[symmetric])
qed

lemma all_less_2: "(\<forall>j<2::nat. P j) = (P 0 \<and> P 1)"
  by (auto simp: less_Suc_eq numeral_2_eq_2)

lemma all_less_4: "(\<forall>j<4::nat. P j) = (P 0 \<and> P 1 \<and> P 2 \<and> P 3)"
proof -
  have "\<And>j::nat. j < 4 \<longleftrightarrow> j = 0 \<or> j = 1 \<or> j = 2 \<or> j = 3" by arith
  then show ?thesis by auto
qed

lemmas example_eval = example_dav_def connected_state_def cal_named_def example_event_def
  misses_def fetched_def matching_def fetch_request_def js_def crlf_def

section \<open>The handler\<close>

lemma tool_names_distinct:
  "js ''list_events'' \<noteq> js ''list_calendars''"
  "js ''create_event'' \<noteq> js ''list_calendars''"
  "js ''create_event'' \<noteq> js ''list_events''"
  "js ''update_event'' \<noteq> js ''list_calendars''"
  "js ''update_event'' \<noteq> js ''list_events''"
  "js ''update_event'' \<noteq> js ''create_event''"
  "js ''delete_event'' \<noteq> js ''list_calendars''"
  "js ''delete_event'' \<noteq> js ''list_events''"
  "js ''delete_event'' \<noteq> js ''create_event''"
  "js ''delete_event'' \<noteq> js ''update_event''"
  by (simp_all add: js_def)

lemma initializeClient_objects:
  "initializeClient cfg srv st = (r, st1)
   \<Longrightarrow> filter is_object_request (log st1) = filter is_object_request (log st)"
  by (auto simp: initializeClient_def issue_def Let_def split: if_splits sum.splits)

text \<open>
  Claim C6: for a \<open>calendarUrl\<close> that is the address of no calendar of the cached list,
  \<open>list_events\<close> fails with the not-found error and issues no fetch of events, and
  \<open>create_event\<close> makes the same check before any create request. The cached list is the
  one the initialization at the head of the call leaves; the call ends in the state the
  initialization left, so no request on calendar objects was added.
\<close>

theorem unknown_calendar_not_found:
  assumes init: "initializeClient cfg srv st = (Inr (), st1)"
    and unknown: "\<forall>cal\<in>set (calendars st1). Some (cal_url cal) \<noteq> calendarUrl args"
  shows "handler cfg rt srv (js ''list_events'') (Some args) st
           = (\<lparr>content_text = js ''Error: Calendar not found: '' @ interp (calendarUrl args),
               isError = True\<rparr>, st1)
         \<and> handler cfg rt srv (js ''create_event'') (Some args) st
           = (\<lparr>content_text = js ''Error: Calendar not found: '' @ interp (calendarUrl args),
               isError = True\<rparr>, st1)
         \<and> filter is_object_request (log st1) = filter is_object_request (log st)"
proof -
  have f: "find (\<lambda>cal. Some (cal_url cal) = calendarUrl args) (calendars st1) = None"
    using unknown by (simp add: find_None_iff)
  have a: "handler cfg rt srv (js ''list_events'') (Some args) st
           = (\<lparr>content_text = js ''Error: Calendar not found: '' @ interp (calendarUrl args),
               isError = True\<rparr>, st1)"
    using init f
    by (simp add: handler_def try_block_def tool_switch_def tool_names_distinct destructure_def
          list_events_def errorMessage_def js_def)
  have b: "handler cfg rt srv (js ''create_event'') (Some args) st
           = (\<lparr>content_text = js ''Error: Calendar not found: '' @ interp (calendarUrl args),
               isError = True\<rparr>, st1)"
    using init f
    by (simp add: handler_def try_block_def tool_switch_def tool_names_distinct destructure_def
          create_event_def errorMessage_def js_def)
  from a b initializeClient_objects[OF init] show ?thesis by simp
qed

theorem unknown_calendar_not_found_witness:
  "handler example_config example_runtime example_dav (js ''list_events'')
      (Some (no_args\<lparr>calendarUrl := Some (js ''/cal/Z'')\<rparr>)) initial_state
     = (\<lparr>content_text = js ''Error: Calendar not found: /cal/Z'', isError = True\<rparr>,
        connected_state\<lparr>log := [CreateDAVClient (js ''user@fastmail.com'') (js ''0123456789abcdef''),
                                  FetchCalendars]\<rparr>)
   \<and> handler example_config example_runtime example_dav (js ''create_event'')
      (Some (no_args\<lparr>calendarUrl := Some (js ''/cal/Z'')\<rparr>)) initial_state
     = (\<lparr>content_text = js ''Error: Calendar not found: /cal/Z'', isError = True\<rparr>,
        connected_state\<lparr>log := [CreateDAVClient (js ''user@fastmail.com'') (js ''0123456789abcdef''),
                                  FetchCalendars]\<rparr>)"
proof -
  let ?st1 = "connected_state\<lparr>log := [CreateDAVClient (js ''user@fastmail.com'') (js ''0123456789abcdef''),
                                  FetchCalendars]\<rparr>"
  have init: "initializeClient example_config example_dav initial_state = (Inr (), ?st1)"
    by (simp add: initializeClient_def issue_def example_config_def example_dav_def
          initial_state_def connected_state_def)
  have unknown: "\<forall>cal\<in>set (calendars ?st1).
      Some (cal_url cal) \<noteq> calendarUrl (no_args\<lparr>calendarUrl := Some (js ''/cal/Z'')\<rparr>)"
    by (simp add: connected_state_def cal_named_def js_def)
  show ?thesis
    using unknown_calendar_not_found[OF init unknown, of example_runtime]
    by (simp add: interp_def js_def)
qed

lemma locate_some:
  "locate srv url cals st = (Inr (Some e), st1)
   \<Longrightarrow> \<exists>rs cal events.
         st1 = st\<lparr>log := log st @ rs @ [FetchCalendarObjects cal None]\<rparr>
       \<and> fetchCalendarObjects srv (log st @ rs) cal None = Inr events
       \<and> find (\<lambda>e. Some (obj_url e) = url) events = Some e
       \<and> (\<forall>q\<in>set rs. \<not> is_write q)"
proof (induction cals arbitrary: st)
  case Nil
  then show ?case by simp
next
  case (Cons c cs)
  show ?case
  proof (cases "fetchCalendarObjects srv (log st) c None")
    case (Inl x)
    with Cons.prems show ?thesis by simp
  next
    case (Inr events)
    show ?thesis
    proof (cases "find (\<lambda>e. Some (obj_url e) = url) events")
      case (Some e')
      with Inr Cons.prems have "e' = e" and "st1 = issue (FetchCalendarObjects c None) st"
        by simp_all
      with Inr Some have
        "st1 = st\<lparr>log := log st @ [] @ [FetchCalendarObjects c None]\<rparr>
         \<and> fetchCalendarObjects srv (log st @ []) c None = Inr events
         \<and> find (\<lambda>e. Some (obj_url e) = url) events = Some e
         \<and> (\<forall>q\<in>set []. \<not> is_write q)"
        by (simp add: issue_def)
      then show ?thesis by blast
    next
      case None
      with Inr Cons.prems
      have "locate srv url cs (issue (FetchCalendarObjects c None) st) = (Inr (Some e), st1)"
        by simp
      from Cons.IH[OF this] obtain rs cal evs where
        a: "st1 = (issue (FetchCalendarObjects c None) st)
              \<lparr>log := log (issue (FetchCalendarObjects c None) st) @ rs @ [FetchCalendarObjects cal None]\<rparr>"
        and b: "fetchCalendarObjects srv (log (issue (FetchCalendarObjects c None) st) @ rs) cal None = Inr evs"
        and c: "find (\<lambda>e. Some (obj_url e) = url) evs = Some e"
        and d: "\<forall>q\<in>set rs. \<not> is_write q"
        by blast
      have "st1 = st\<lparr>log := log st @ (FetchCalendarObjects c None # rs) @ [FetchCalendarObjects cal None]\<rparr>
         \<and> fetchCalendarObjects srv (log st @ (FetchCalendarObjects c None # rs)) cal None = Inr evs
         \<and> find (\<lambda>e. Some (obj_url e) = url) evs = Some e
         \<and> (\<forall>q\<in>set (FetchCalendarObjects c None # rs). \<not> is_write q)"
        using a b c d by (simp add: issue_def)
      then show ?thesis by blast
    qed
  qed
qed

lemma locate_log:
  "locate srv url cals st = (r, st1)
   \<Longrightarrow> \<exists>rs. st1 = st\<lparr>log := log st @ rs\<rparr> \<and> (\<forall>q\<in>set rs. \<not> is_write q)"
proof (induction cals arbitrary: st)
  case Nil
  then have "st1 = st\<lparr>log := log st @ []\<rparr> \<and> (\<forall>q\<in>set []. \<not> is_write q)" by simp
  then show ?case by blast
next
  case (Cons c cs)
  let ?q = "FetchCalendarObjects c None"
  have one: "issue ?q st = st\<lparr>log := log st @ [?q]\<rparr> \<and> (\<forall>q\<in>set [?q]. \<not> is_write q)"
    by (simp add: issue_def)
  show ?case
  proof (cases "fetchCalendarObjects srv (log st) c None")
    case (Inl x)
    with Cons.prems have "st1 = issue ?q st" by simp
    with one show ?thesis by blast
  next
    case (Inr events)
    show ?thesis
    proof (cases "find (\<lambda>e. Some (obj_url e) = url) events")
      case (Some e')
      with Inr Cons.prems have "st1 = issue ?q st" by simp
      with one show ?thesis by blast
    next
      case None
      with Inr Cons.prems have "locate srv url cs (issue ?q st) = (r, st1)" by simp
      from Cons.IH[OF this] obtain rs where
        a: "st1 = (issue ?q st)\<lparr>log := log (issue ?q st) @ rs\<rparr>" and d: "\<forall>q\<in>set rs. \<not> is_write q"
        by blast
      have "st1 = st\<lparr>log := log st @ (?q # rs)\<rparr> \<and> (\<forall>q\<in>set (?q # rs). \<not> is_write q)"
        using a d by (simp add: issue_def)
      then show ?thesis by blast
    qed
  qed
qed

lemma update_event_etag:
  assumes run: "update_event rt srv args st = (r, st2)"
    and upd: "UpdateCalendarObject u d t \<in> set (drop (length (log st)) (log st2))"
  shows "\<exists>rs cal events e.
           log st2 = log st @ rs @ [FetchCalendarObjects cal None, UpdateCalendarObject u d t]
         \<and> fetchCalendarObjects srv (log st @ rs) cal None = Inr events
         \<and> find (\<lambda>e. Some (obj_url e) = eventUrl args) events = Some e
         \<and> t = obj_etag e \<and> u = eventUrl args \<and> (\<forall>q\<in>set rs. \<not> is_write q)"
proof -
  obtain lr st1 where loc: "locate srv (eventUrl args) (calendars st) st = (lr, st1)"
    by (cases "locate srv (eventUrl args) (calendars st) st") auto
  from locate_log[OF loc] obtain rs0 where
    st1: "st1 = st\<lparr>log := log st @ rs0\<rparr>" and nw: "\<forall>q\<in>set rs0. \<not> is_write q"
    by blast
  have nomem: "UpdateCalendarObject u d t \<notin> set rs0"
    using nw by auto
  show ?thesis
  proof (cases lr)
    case (Inl x)
    with run loc have "st2 = st1" by (simp add: update_event_def)
    with upd st1 nomem show ?thesis by simp
  next
    case (Inr found)
    show ?thesis
    proof (cases found)
      case None
      with Inr run loc have "st2 = st1" by (simp add: update_event_def)
      with upd st1 nomem show ?thesis by simp
    next
      case (Some e)
      with Inr loc have loc': "locate srv (eventUrl args) (calendars st) st = (Inr (Some e), st1)"
        by simp
      from locate_some[OF loc'] obtain rs cal events where
        a: "st1 = st\<lparr>log := log st @ rs @ [FetchCalendarObjects cal None]\<rparr>"
        and b: "fetchCalendarObjects srv (log st @ rs) cal None = Inr events"
        and c: "find (\<lambda>e. Some (obj_url e) = eventUrl args) events = Some e"
        and dd: "\<forall>q\<in>set rs. \<not> is_write q"
        by blast
      show ?thesis
      proof (cases "update_event_patch (parseDate rt) args (obj_data e)")
        case (Inl x)
        with run loc' have "st2 = st1" by (simp add: update_event_def)
        with upd st1 nomem show ?thesis by simp
      next
        case (Inr updatedIcal)
        with run loc' have st2: "st2 = issue (UpdateCalendarObject (eventUrl args) updatedIcal (obj_etag e)) st1"
          by (auto simp: update_event_def Let_def split: sum.splits)
        with a have lg: "log st2 = log st @ rs @ [FetchCalendarObjects cal None,
              UpdateCalendarObject (eventUrl args) updatedIcal (obj_etag e)]"
          by (simp add: issue_def)
        with upd dd have "UpdateCalendarObject u d t = UpdateCalendarObject (eventUrl args) updatedIcal (obj_etag e)"
          by auto
        with lg b c dd show ?thesis by auto
      qed
    qed
  qed
qed

lemma update_event_patch_ignores_etag:
  "update_event_patch parse (args\<lparr>etag := x\<rparr>) data = update_event_patch parse args data"
  by (simp add: update_event_patch_def split: sum.splits)

lemma update_event_ignores_etag:
  "update_event rt srv (args\<lparr>etag := x\<rparr>) st = update_event rt srv args st"
  by (simp add: update_event_def update_event_patch_ignores_etag Let_def
        split: prod.splits sum.splits option.splits)

lemma initializeClient_log:
  "initializeClient cfg srv st = (r, st1)
   \<Longrightarrow> \<exists>rs. log st1 = log st @ rs \<and> (\<forall>q\<in>set rs. \<not> is_object_request q)"
proof (cases "davClient st = None")
  case False
  assume "initializeClient cfg srv st = (r, st1)"
  with False have "log st1 = log st @ [] \<and> (\<forall>q\<in>set []. \<not> is_object_request q)"
    by (auto simp: initializeClient_def split: if_splits)
  then show ?thesis by blast
next
  case True
  assume run: "initializeClient cfg srv st = (r, st1)"
  let ?h = "CreateDAVClient (username cfg) (appPassword cfg)"
  show ?thesis
  proof (cases "createDAVClient srv (log st) (username cfg) (appPassword cfg)")
    case (Inl e)
    with True run have "log st1 = log st @ [?h] \<and> (\<forall>q\<in>set [?h]. \<not> is_object_request q)"
      by (auto simp: initializeClient_def issue_def)
    then show ?thesis by blast
  next
    case (Inr c)
    with True run
    have "log st1 = log st @ [?h, FetchCalendars]
          \<and> (\<forall>q\<in>set [?h, FetchCalendars]. \<not> is_object_request q)"
      by (auto simp: initializeClient_def issue_def Let_def split: sum.splits)
    then show ?thesis by blast
  qed
qed

text \<open>
  Claim C10: \<open>update_event\<close> takes no etag from the caller; the token sent with the
  update is the etag of the object that the locator's own fetch returned in the same call.
  Here, for a whole tool call: an update request added to the log by the call is its last
  request, it follows directly the fetch whose answer held the object with the requested
  address, and it carries the address of the arguments and the etag of that object; and
  the \<open>etag\<close> field of the argument bag has no influence on the call.
\<close>

theorem update_event_etag_from_locator:
  "(handler cfg rt srv (js ''update_event'') (Some args) st = (res, st2)
      \<and> UpdateCalendarObject u d t \<in> set (drop (length (log st)) (log st2))
    \<longrightarrow> (\<exists>rs cal events e.
           log st2 = log st @ rs @ [FetchCalendarObjects cal None, UpdateCalendarObject u d t]
         \<and> fetchCalendarObjects srv (log st @ rs) cal None = Inr events
         \<and> find (\<lambda>e. Some (obj_url e) = eventUrl args) events = Some e
         \<and> t = obj_etag e \<and> u = eventUrl args \<and> (\<forall>q\<in>set rs. \<not> is_write q)))
   \<and> handler cfg rt srv (js ''update_event'') (Some (args\<lparr>etag := x\<rparr>)) st
     = handler cfg rt srv (js ''update_event'') (Some args) st"
proof (intro conjI impI)
  assume asm: "handler cfg rt srv (js ''update_event'') (Some args) st = (res, st2)
      \<and> UpdateCalendarObject u d t \<in> set (drop (length (log st)) (log st2))"
  obtain ir st1 where init: "initializeClient cfg srv st = (ir, st1)"
    by (cases "initializeClient cfg srv st") auto
  from initializeClient_log[OF init] obtain ini where
    lg1: "log st1 = log st @ ini" and nobj: "\<forall>q\<in>set ini. \<not> is_object_request q"
    by blast
  have notin: "UpdateCalendarObject u d t \<notin> set ini"
    using nobj by auto
  have nw: "\<forall>q\<in>set ini. \<not> is_write q"
  proof
    fix q assume "q \<in> set ini"
    with nobj have "\<not> is_object_request q" by blast
    then show "\<not> is_write q" by (cases q) auto
  qed
  show "\<exists>rs cal events e.
           log st2 = log st @ rs @ [FetchCalendarObjects cal None, UpdateCalendarObject u d t]
         \<and> fetchCalendarObjects srv (log st @ rs) cal None = Inr events
         \<and> find (\<lambda>e. Some (obj_url e) = eventUrl args) events = Some e
         \<and> t = obj_etag e \<and> u = eventUrl args \<and> (\<forall>q\<in>set rs. \<not> is_write q)"
  proof (cases ir)
    case (Inl e)
    with asm init have "st2 = st1"
      by (auto simp: handler_def try_block_def)
    with asm lg1 notin show ?thesis by simp
  next
    case (Inr unit)
    obtain r where upd: "update_event rt srv args st1 = (r, st2)"
      using asm init Inr
      by (auto simp: handler_def try_block_def tool_switch_def tool_names_distinct destructure_def
            split: prod.splits sum.splits)
    from asm lg1 notin
    have mem: "UpdateCalendarObject u d t \<in> set (drop (length (log st1)) (log st2))"
    proof -
      have ext: "\<exists>rs. log st2 = log st1 @ rs"
        using upd locate_log[of srv "eventUrl args" "calendars st1" st1]
        by (auto simp: update_event_def issue_def Let_def split: prod.splits sum.splits option.splits)
      then obtain rs where rs: "log st2 = log st1 @ rs" by blast
      with lg1 asm have "UpdateCalendarObject u d t \<in> set (ini @ rs)" by simp
      with notin have "UpdateCalendarObject u d t \<in> set rs" by simp
      with rs show ?thesis by simp
    qed
    from update_event_etag[OF upd mem] obtain rs cal events e where
      a: "log st2 = log st1 @ rs @ [FetchCalendarObjects cal None, UpdateCalendarObject u d t]"
      and b: "fetchCalendarObjects srv (log st1 @ rs) cal None = Inr events"
      and c: "find (\<lambda>e. Some (obj_url e) = eventUrl args) events = Some e"
      and dd: "t = obj_etag e" "u = eventUrl args" "\<forall>q\<in>set rs. \<not> is_write q"
      by blast
    have "log st2 = log st @ (ini @ rs) @ [FetchCalendarObjects cal None, UpdateCalendarObject u d t]
         \<and> fetchCalendarObjects srv (log st @ (ini @ rs)) cal None = Inr events
         \<and> find (\<lambda>e. Some (obj_url e) = eventUrl args) events = Some e
         \<and> t = obj_etag e \<and> u = eventUrl args \<and> (\<forall>q\<in>set (ini @ rs). \<not> is_write q)"
      using a b c dd lg1 nw by auto
    then show ?thesis by blast
  qed
next
  have sw: "\<And>s. tool_switch rt srv (js ''update_event'') (Some (args\<lparr>etag := x\<rparr>)) s
      = tool_switch rt srv (js ''update_event'') (Some args) s"
    by (simp add: tool_switch_def tool_names_distinct destructure_def update_event_ignores_etag)
  show "handler cfg rt srv (js ''update_event'') (Some (args\<lparr>etag := x\<rparr>)) st
     = handler cfg rt srv (js ''update_event'') (Some args) st"
    unfolding handler_def try_block_def sw by (rule refl)
qed

lemmas run_eval = handler_def try_block_def tool_switch_def initializeClient_def issue_def
  destructure_def update_event_def list_events_def create_event_def delete_event_def
  list_calendars_def errorMessage_def newDate_def example_dav_def example_runtime_def
  example_config_def connected_state_def initial_state_def cal_named_def example_event_def
  patch_eval

theorem update_event_etag_from_locator_witness:
  "handler example_config example_runtime example_dav (js ''update_event'')
     (Some (no_args\<lparr>eventUrl := Some (js ''/cal/C/1.ics''), summary := Some (js ''new''),
                     etag := Some (js ''mine'')\<rparr>)) connected_state
   = (\<lparr>content_text = js ''Event updated successfully: /cal/C/1.ics'', isError = False\<rparr>,
      connected_state\<lparr>log := [fetch_request (cal_named ''A''), fetch_request (cal_named ''B''),
         fetch_request (cal_named ''C''),
         UpdateCalendarObject (Some (js ''/cal/C/1.ics'')) (js ''SUMMARY:new'' @ crlf) (js ''v1'')]\<rparr>)
   \<and> obj_etag example_event = js ''v1''"
proof -
  let ?args = "no_args\<lparr>eventUrl := Some (js ''/cal/C/1.ics''), summary := Some (js ''new'')\<rparr>"
  let ?st2 = "connected_state\<lparr>log := [fetch_request (cal_named ''A''), fetch_request (cal_named ''B''),
         fetch_request (cal_named ''C''),
         UpdateCalendarObject (Some (js ''/cal/C/1.ics'')) (js ''SUMMARY:new'' @ crlf) (js ''v1'')]\<rparr>"
  have run: "handler example_config example_runtime example_dav (js ''update_event'') (Some ?args)
        connected_state
      = (\<lparr>content_text = js ''Event updated successfully: /cal/C/1.ics'', isError = False\<rparr>, ?st2)"
    by (simp add: run_eval fetch_request_def)
  have mem: "UpdateCalendarObject (Some (js ''/cal/C/1.ics'')) (js ''SUMMARY:new'' @ crlf) (js ''v1'')
      \<in> set (drop (length (log connected_state)) (log ?st2))"
    by (simp add: connected_state_def)
  from update_event_etag_from_locator[of example_config example_runtime example_dav ?args
      connected_state _ ?st2 "Some (js ''/cal/C/1.ics'')" "js ''SUMMARY:new'' @ crlf" "js ''v1''"
      "Some (js ''mine'')"] run mem
  show ?thesis
    by (simp add: example_event_def)
qed

lemma handler_of_try_block:
  "handler cfg rt srv name args st =
     (case fst (try_block cfg rt srv name args st) of
        Inl e \<Rightarrow> \<lparr>content_text = js ''Error: '' @ errorMessage e, isError = True\<rparr>
      | Inr t \<Rightarrow> \<lparr>content_text = t, isError = False\<rparr>,
      snd (try_block cfg rt srv name args st))"
  by (simp add: handler_def split: prod.splits sum.splits)

lemma tool_switch_unknown:
  "name \<notin> {js ''list_calendars'', js ''list_events'', js ''create_event'', js ''update_event'',
            js ''delete_event''}
   \<Longrightarrow> tool_switch rt srv name args st = (Inl (Error (js ''Unknown tool: '' @ name)), st)"
  by (simp add: tool_switch_def)

lemma try_block_init_failure:
  "davClient st = None \<Longrightarrow> createDAVClient srv (log st) (username cfg) (appPassword cfg) = Inl e
   \<Longrightarrow> try_block cfg rt srv name args st
       = (Inl e, issue (CreateDAVClient (username cfg) (appPassword cfg)) st)"
  by (simp add: try_block_def initializeClient_def)

lemma update_event_patch_raises:
  "(truthy (startDate args) \<and> newDate parse (startDate args) = None)
   \<or> (truthy (endDate args) \<and> newDate parse (endDate args) = None)
   \<Longrightarrow> isl (update_event_patch parse args data)"
  by (auto simp: update_event_patch_def patch_start_def patch_end_def Let_def
        split: sum.splits option.splits)

lemma update_event_invalid_date:
  assumes bad: "(truthy (startDate args) \<and> newDate (parseDate rt) (startDate args) = None)
     \<or> (truthy (endDate args) \<and> newDate (parseDate rt) (endDate args) = None)"
    and run: "update_event rt srv args st = (r, st2)"
  shows "isl r \<and> filter is_write (log st2) = filter is_write (log st)"
proof -
  obtain lr st1 where loc: "locate srv (eventUrl args) (calendars st) st = (lr, st1)"
    by (cases "locate srv (eventUrl args) (calendars st) st") auto
  from locate_log[OF loc] obtain rs0 where
    st1: "st1 = st\<lparr>log := log st @ rs0\<rparr>" and nw: "\<forall>q\<in>set rs0. \<not> is_write q"
    by blast
  from nw have "filter is_write rs0 = []" by (simp add: filter_empty_conv)
  with st1 have keep: "filter is_write (log st1) = filter is_write (log st)" by simp
  have "isl r \<and> st2 = st1"
  proof (cases lr)
    case (Inl x)
    with run loc show ?thesis by (auto simp: update_event_def)
  next
    case (Inr found)
    show ?thesis
    proof (cases found)
      case None
      with Inr run loc show ?thesis by (auto simp: update_event_def)
    next
      case (Some e)
      from update_event_patch_raises[OF bad, of "obj_data e"]
      obtain x where "update_event_patch (parseDate rt) args (obj_data e) = Inl x"
        by (cases "update_event_patch (parseDate rt) args (obj_data e)") auto
      with Some Inr run loc have "r = Inl x \<and> st2 = st1" by (simp add: update_event_def)
      then show ?thesis by simp
    qed
  qed
  with keep show ?thesis by simp
qed

lemma initializeClient_writes:
  "initializeClient cfg srv st = (r, st1) \<Longrightarrow> filter is_write (log st1) = filter is_write (log st)"
  by (auto simp: initializeClient_def issue_def Let_def split: if_splits sum.splits)

lemma handler_list_events:
  "initializeClient cfg srv st = (Inr (), st1)
   \<Longrightarrow> handler cfg rt srv (js ''list_events'') (Some args) st
       = (case list_events rt srv args st1 of
            (Inl e, s) \<Rightarrow> (\<lparr>content_text = js ''Error: '' @ errorMessage e, isError = True\<rparr>, s)
          | (Inr t, s) \<Rightarrow> (\<lparr>content_text = t, isError = False\<rparr>, s))"
  by (simp add: handler_def try_block_def tool_switch_def tool_names_distinct destructure_def
        split: prod.splits sum.splits)

lemma handler_create_event:
  "initializeClient cfg srv st = (Inr (), st1)
   \<Longrightarrow> handler cfg rt srv (js ''create_event'') (Some args) st
       = (case create_event rt srv args st1 of
            (Inl e, s) \<Rightarrow> (\<lparr>content_text = js ''Error: '' @ errorMessage e, isError = True\<rparr>, s)
          | (Inr t, s) \<Rightarrow> (\<lparr>content_text = t, isError = False\<rparr>, s))"
  by (simp add: handler_def try_block_def tool_switch_def tool_names_distinct destructure_def
        split: prod.splits sum.splits)

lemma list_events_invalid:
  "newDate (parseDate rt) (startDate args) = None \<or> newDate (parseDate rt) (endDate args) = None
   \<Longrightarrow> isl (fst (list_events rt srv args st)) \<and> snd (list_events rt srv args st) = st"
  by (auto simp: list_events_def split: option.splits)

lemma create_event_invalid:
  "newDate (parseDate rt) (startDate args) = None \<or> newDate (parseDate rt) (endDate args) = None
   \<or> (\<exists>s e. newDate (parseDate rt) (startDate args) = Some s
          \<and> newDate (parseDate rt) (endDate args) = Some e \<and> e \<le> s)
   \<Longrightarrow> isl (fst (create_event rt srv args st)) \<and> snd (create_event rt srv args st) = st"
  by (auto simp: create_event_def split: option.splits)

lemma create_event_end_before_start:
  "find (\<lambda>cal. Some (cal_url cal) = calendarUrl args) (calendars st) = Some cal
   \<Longrightarrow> newDate (parseDate rt) (startDate args) = Some s
   \<Longrightarrow> newDate (parseDate rt) (endDate args) = Some e \<Longrightarrow> e \<le> s
   \<Longrightarrow> create_event rt srv args st = (Inl (Error (js ''End date must be after start date'')), st)"
  by (simp add: create_event_def)

section \<open>Initialization, alone and interleaved\<close>

lemma handshakes_issue:
  "handshakes (issue r st) = (if is_handshake r then Suc (handshakes st) else handshakes st)"
  by (simp add: handshakes_def issue_def)

lemma init_step_later:
  "task \<noteq> Entry
   \<Longrightarrow> handshakes (snd (init_step cfg srv task st)) = handshakes st
       \<and> fst (init_step cfg srv task st) \<noteq> Entry"
  by (cases task)
     (auto simp: init_step_def handshakes_def issue_def Let_def split: sum.splits)

lemma run_later:
  "\<forall>t\<in>set tasks. t \<noteq> Entry
   \<Longrightarrow> handshakes (snd (run cfg srv sched (tasks, st))) = handshakes st"
proof (induction sched arbitrary: tasks st)
  case Nil
  then show ?case by simp
next
  case (Cons i sched)
  show ?case
  proof (cases "i < length tasks")
    case False
    with Cons show ?thesis by simp
  next
    case True
    obtain task1 st1 where step: "init_step cfg srv (tasks ! i) st = (task1, st1)"
      by (cases "init_step cfg srv (tasks ! i) st") auto
    from True Cons.prems have "tasks ! i \<noteq> Entry" by simp
    from init_step_later[OF this, of cfg srv st] step
    have h: "handshakes st1 = handshakes st" and t1: "task1 \<noteq> Entry" by simp_all
    have "\<forall>t\<in>set (tasks[i := task1]). t \<noteq> Entry"
      using Cons.prems t1 set_update_subset_insert[of tasks i task1] by auto
    from Cons.IH[OF this, of st1] h True step show ?thesis by simp
  qed
qed

lemma run_both_enter:
  assumes "davClient st = None"
  shows "handshakes (snd (run cfg srv (0 # 1 # sched) ([Entry, Entry], st))) = handshakes st + 2"
proof -
  let ?h = "CreateDAVClient (username cfg) (appPassword cfg)"
  let ?t0 = "AwaitCreate (createDAVClient srv (log st) (username cfg) (appPassword cfg))"
  let ?t1 = "AwaitCreate (createDAVClient srv (log (issue ?h st)) (username cfg) (appPassword cfg))"
  have d1: "davClient (issue ?h st) = None"
    using assms by (simp add: issue_def)
  have two: "run cfg srv (0 # 1 # sched) ([Entry, Entry], st)
      = run cfg srv sched ([?t0, ?t1], issue ?h (issue ?h st))"
    using assms d1 by (simp add: init_step_def)
  have "handshakes (snd (run cfg srv sched ([?t0, ?t1], issue ?h (issue ?h st))))
      = handshakes (issue ?h (issue ?h st))"
    by (rule run_later) simp
  with two show ?thesis by (simp add: handshakes_issue)
qed

lemma run_alone:
  "snd (run cfg srv [0, 0, 0] ([Entry], st)) = snd (initializeClient cfg srv st)
   \<and> (fst (run cfg srv [0, 0, 0] ([Entry], st)) = [Returned])
     = (fst (initializeClient cfg srv st) = Inr ())"
  by (auto simp: init_step_def initializeClient_def issue_def Let_def split: sum.splits)

lemma initializeClient_first:
  "davClient st = None \<Longrightarrow> initializeClient cfg srv st = (Inr (), st1)
   \<Longrightarrow> handshakes st1 = Suc (handshakes st) \<and> davClient st1 \<noteq> None"
  by (auto simp: initializeClient_def issue_def handshakes_def Let_def split: sum.splits)

lemma initializeClient_again:
  "davClient st \<noteq> None \<Longrightarrow> initializeClient cfg srv st = (Inr (), st)"
  by (auto simp: initializeClient_def)

section \<open>The calendar arithmetic\<close>

lemma div_step:
  fixes z n :: int
  assumes "0 < n"
  shows "(z + 1) div n = z div n + (if (z + 1) mod n = 0 then 1 else 0)"
proof -
  have nz: "n \<noteq> 0" using assms by simp
  have r: "0 \<le> z mod n" "z mod n < n" using assms by simp_all
  have e: "z + 1 = (z mod n + 1) + n * (z div n)" by simp
  have "(z + 1) div n = ((z mod n + 1) + n * (z div n)) div n"
    by (rule arg_cong[where f = "\<lambda>x. x div n", OF e])
  also have "\<dots> = z div n + (z mod n + 1) div n"
    by (rule div_mult_self2[OF nz])
  finally have d: "(z + 1) div n = z div n + (z mod n + 1) div n" .
  have "(z + 1) mod n = ((z mod n + 1) + n * (z div n)) mod n"
    by (rule arg_cong[where f = "\<lambda>x. x mod n", OF e])
  also have "\<dots> = (z mod n + 1) mod n"
    by (rule mod_mult_self2)
  finally have m: "(z + 1) mod n = (z mod n + 1) mod n" .
  show ?thesis
  proof (cases "z mod n + 1 = n")
    case True
    with d m assms show ?thesis by simp
  next
    case False
    with r have lt: "z mod n + 1 < n" by simp
    with r have "(z mod n + 1) div n = 0" "(z mod n + 1) mod n = z mod n + 1" by simp_all
    with d m r show ?thesis by simp
  qed
qed

lemma mod_shift:
  fixes y :: int
  shows "(y - n * k) mod n = 0 \<longleftrightarrow> y mod n = 0"
proof -
  have "y - n * k = y + n * (- k)" by simp
  then have "(y - n * k) mod n = (y + n * (- k)) mod n" by simp
  also have "\<dots> = y mod n" by (rule mod_mult_self2)
  finally show ?thesis by simp
qed

lemma mod_shift_4: "((y::int) - 1968) mod 4 = 0 \<longleftrightarrow> y mod 4 = 0"
  using mod_shift[of y 4 492] by simp

lemma mod_shift_100: "((y::int) - 1900) mod 100 = 0 \<longleftrightarrow> y mod 100 = 0"
  using mod_shift[of y 100 19] by simp

lemma mod_shift_400: "((y::int) - 1600) mod 400 = 0 \<longleftrightarrow> y mod 400 = 0"
  using mod_shift[of y 400 4] by simp

lemma mod_100_4: "(y::int) mod 100 = 0 \<Longrightarrow> y mod 4 = 0"
proof -
  assume "y mod 100 = 0"
  then have "100 dvd y" by (simp add: mod_eq_0_iff_dvd)
  moreover have "(4::int) dvd 100" by simp
  ultimately have "4 dvd y" using dvd_trans by blast
  then show ?thesis by (simp add: mod_eq_0_iff_dvd)
qed

lemma mod_400_100: "(y::int) mod 400 = 0 \<Longrightarrow> y mod 100 = 0"
proof -
  assume "y mod 400 = 0"
  then have "400 dvd y" by (simp add: mod_eq_0_iff_dvd)
  moreover have "(100::int) dvd 400" by simp
  ultimately have "100 dvd y" using dvd_trans by blast
  then show ?thesis by (simp add: mod_eq_0_iff_dvd)
qed

lemma DayFromYear_step: "DayFromYear (y + 1) = DayFromYear y + DaysInYear y"
proof -
  have a: "(y + 1 - 1969) div 4 = (y - 1969) div 4 + (if y mod 4 = 0 then 1 else 0)"
    using div_step[of 4 "y - 1969"] mod_shift_4[of y] by (simp add: algebra_simps)
  have b: "(y + 1 - 1901) div 100 = (y - 1901) div 100 + (if y mod 100 = 0 then 1 else 0)"
    using div_step[of 100 "y - 1901"] mod_shift_100[of y] by (simp add: algebra_simps)
  have c: "(y + 1 - 1601) div 400 = (y - 1601) div 400 + (if y mod 400 = 0 then 1 else 0)"
    using div_step[of 400 "y - 1601"] mod_shift_400[of y] by (simp add: algebra_simps)
  show ?thesis
    unfolding DayFromYear_def DaysInYear_def a b c
    using mod_100_4[of y] mod_400_100[of y] by auto
qed


lemma DaysInYear_bounds: "365 \<le> DaysInYear y \<and> DaysInYear y \<le> 366"
  by (simp add: DaysInYear_def)

lemma DayFromYear_1970: "DayFromYear 1970 = 0"
  by (simp add: DayFromYear_def)

lemma DayFromYear_after_nat:
  "365 * int n \<le> DayFromYear (1970 + int n) \<and> DayFromYear (1970 + int n) \<le> 366 * int n"
proof (induction n)
  case 0
  then show ?case by (simp add: DayFromYear_1970)
next
  case (Suc n)
  have "DayFromYear (1970 + int (Suc n)) = DayFromYear (1970 + int n) + DaysInYear (1970 + int n)"
    using DayFromYear_step[of "1970 + int n"] by (simp add: algebra_simps)
  with Suc DaysInYear_bounds[of "1970 + int n"] show ?case by simp
qed

lemma DayFromYear_before_nat:
  "- 366 * int n \<le> DayFromYear (1970 - int n) \<and> DayFromYear (1970 - int n) \<le> - 365 * int n"
proof (induction n)
  case 0
  then show ?case by (simp add: DayFromYear_1970)
next
  case (Suc n)
  have "DayFromYear (1970 - int n) = DayFromYear (1970 - int (Suc n)) + DaysInYear (1970 - int (Suc n))"
    using DayFromYear_step[of "1970 - int (Suc n)"] by (simp add: algebra_simps)
  with Suc DaysInYear_bounds[of "1970 - int (Suc n)"] show ?case by simp
qed

lemma DayFromYear_after:
  "0 \<le> x \<Longrightarrow> 365 * x \<le> DayFromYear (1970 + x) \<and> DayFromYear (1970 + x) \<le> 366 * x"
  using DayFromYear_after_nat[of "nat x"] by simp

lemma DayFromYear_before:
  "x \<le> 0 \<Longrightarrow> 366 * x \<le> DayFromYear (1970 + x) \<and> DayFromYear (1970 + x) \<le> 365 * x"
  using DayFromYear_before_nat[of "nat (- x)"] by simp

text \<open>Between a year that begins on or before the day and one that begins after it.\<close>

lemma year_between:
  "DayFromYear lo \<le> d \<Longrightarrow> d < DayFromYear (lo + int n) \<Longrightarrow>
   \<exists>y. lo \<le> y \<and> y < lo + int n \<and> year_of_day d y"
proof (induction n)
  case 0
  then show ?case by simp
next
  case (Suc n)
  show ?case
  proof (cases "d < DayFromYear (lo + int n)")
    case True
    from Suc.IH[OF Suc.prems(1) True] show ?thesis by auto
  next
    case False
    with Suc.prems have "year_of_day d (lo + int n)"
      by (simp add: year_of_day_def algebra_simps)
    then show ?thesis by (intro exI[of _ "lo + int n"]) simp
  qed
qed

lemma div_bounds:
  fixes d n :: int
  assumes "0 < n"
  shows "n * (d div n) \<le> d \<and> d < n * (d div n + 1)"
proof -
  define q where "q = d div n"
  define r where "r = d mod n"
  have e: "d = n * q + r" by (simp add: q_def r_def)
  have r: "0 \<le> r" "r < n" using assms by (simp_all add: r_def)
  have "n * (q + 1) = n * q + n" by (simp add: algebra_simps)
  with e r show ?thesis unfolding q_def[symmetric] by linarith
qed

lemma year_range:
  fixes d :: int
  defines "lo \<equiv> 1970 + min (d div 365) (d div 366)"
    and "hi \<equiv> 1970 + max (d div 365) (d div 366)"
  shows "DayFromYear lo \<le> d \<and> d < DayFromYear (hi + 1) \<and> lo \<le> hi + 1"
proof (cases "0 \<le> d")
  case True
  then have a: "0 \<le> d div 366" "0 \<le> d div 365 + 1" by simp_all
  from True have le: "d div 366 \<le> d div 365"
    by (simp add: zdiv_mono2)
  from le have lo: "lo = 1970 + d div 366" and hi: "hi = 1970 + d div 365"
    by (simp_all add: lo_def hi_def)
  have "DayFromYear lo \<le> 366 * (d div 366)"
    using DayFromYear_after[OF a(1)] lo by simp
  also have "\<dots> \<le> d" using div_bounds[of 366 d] by simp
  finally have one: "DayFromYear lo \<le> d" .
  have "d < 365 * (d div 365 + 1)" using div_bounds[of 365 d] by simp
  also have "\<dots> \<le> DayFromYear (1970 + (d div 365 + 1))"
    using DayFromYear_after[OF a(2)] by simp
  finally have two: "d < DayFromYear (hi + 1)" by (simp add: hi algebra_simps)
  from one two le lo hi show ?thesis by simp
next
  case False
  then have neg: "d < 0" by simp
  then have a: "d div 365 \<le> 0" "d div 366 + 1 \<le> 0"
    by (simp_all add: div_neg_pos_less0 neg_imp_zdiv_neg_iff)
  have le: "d div 365 \<le> d div 366"
    using neg by (simp add: zdiv_mono2_neg)
  from le have lo: "lo = 1970 + d div 365" and hi: "hi = 1970 + d div 366"
    by (simp_all add: lo_def hi_def)
  have "DayFromYear lo \<le> 365 * (d div 365)"
    using DayFromYear_before[OF a(1)] lo by simp
  also have "\<dots> \<le> d" using div_bounds[of 365 d] by simp
  finally have one: "DayFromYear lo \<le> d" .
  have "d < 366 * (d div 366 + 1)" using div_bounds[of 366 d] by simp
  also have "\<dots> \<le> DayFromYear (1970 + (d div 366 + 1))"
    using DayFromYear_before[OF a(2)] by simp
  finally have two: "d < DayFromYear (hi + 1)" by (simp add: hi algebra_simps)
  from one two le lo hi show ?thesis by simp
qed

lemma YearFromTime_correct: "year_of_day (Day t) (YearFromTime t)"
proof -
  define d where "d = Day t"
  define lo where "lo = 1970 + min (d div 365) (d div 366)"
  define hi where "hi = 1970 + max (d div 365) (d div 366)"
  from year_range[of d] have r: "DayFromYear lo \<le> d" "d < DayFromYear (hi + 1)" "lo \<le> hi + 1"
    by (simp_all add: lo_def hi_def)
  have "hi + 1 = lo + int (nat (hi + 1 - lo))" using r(3) by simp
  with r(2) have "d < DayFromYear (lo + int (nat (hi + 1 - lo)))" by simp
  from year_between[OF r(1) this] obtain y where
    y: "lo \<le> y" "y \<le> hi" "year_of_day d y" using r(3) by auto
  then have "y \<in> set [lo..hi]" by simp
  with y(3) have "find (year_of_day d) [lo..hi] \<noteq> None"
    by (auto simp: find_None_iff)
  then obtain y' where f: "find (year_of_day d) [lo..hi] = Some y'" by auto
  then have "year_of_day d y'" by (auto simp: find_Some_iff)
  moreover have "YearFromTime t = y'"
    using f by (simp add: YearFromTime_def Let_def d_def lo_def hi_def)
  ultimately show ?thesis by (simp add: d_def)
qed

lemma DayWithinYear_bounds:
  "0 \<le> DayWithinYear t \<and> DayWithinYear t < 365 + InLeapYear t"
proof -
  from YearFromTime_correct[of t]
  have a: "DayFromYear (YearFromTime t) \<le> Day t" "Day t < DayFromYear (YearFromTime t + 1)"
    by (simp_all add: year_of_day_def)
  have "DaysInYear (YearFromTime t) = 365 + InLeapYear t"
    using DaysInYear_bounds[of "YearFromTime t"] by (auto simp: InLeapYear_def DaysInYear_def)
  with a DayFromYear_step[of "YearFromTime t"] show ?thesis
    by (simp add: DayWithinYear_def)
qed

lemma InLeapYear_cases: "InLeapYear t = 0 \<or> InLeapYear t = 1"
  by (simp add: InLeapYear_def)

lemma MonthFromTime_bounds: "0 \<le> MonthFromTime t \<and> MonthFromTime t \<le> 11"
  by (simp add: MonthFromTime_def Let_def)

lemma DateFromTime_bounds: "1 \<le> DateFromTime t \<and> DateFromTime t \<le> 31"
  using DayWithinYear_bounds[of t] InLeapYear_cases[of t]
  by (auto simp: DateFromTime_def MonthFromTime_def Let_def)


lemma DayFromYear_mono_nat: "DayFromYear y \<le> DayFromYear (y + int n)"
proof (induction n)
  case 0
  then show ?case by simp
next
  case (Suc n)
  have "DayFromYear (y + int (Suc n)) = DayFromYear (y + int n) + DaysInYear (y + int n)"
    using DayFromYear_step[of "y + int n"] by (simp add: algebra_simps)
  with Suc DaysInYear_bounds[of "y + int n"] show ?case by simp
qed

lemma DayFromYear_mono: "y \<le> y' \<Longrightarrow> DayFromYear y \<le> DayFromYear y'"
  using DayFromYear_mono_nat[of y "nat (y' - y)"] by simp

lemma year_of_day_unique: "year_of_day d y \<Longrightarrow> year_of_day d y' \<Longrightarrow> y = y'"
proof (rule ccontr)
  assume a: "year_of_day d y" and b: "year_of_day d y'" and ne: "y \<noteq> y'"
  show False
  proof (cases "y < y'")
    case True
    then have "DayFromYear (y + 1) \<le> DayFromYear y'" by (simp add: DayFromYear_mono)
    with a b show False by (simp add: year_of_day_def)
  next
    case False
    with ne have "DayFromYear (y' + 1) \<le> DayFromYear y" by (simp add: DayFromYear_mono)
    with a b show False by (simp add: year_of_day_def)
  qed
qed

lemma YearFromTime_eq: "year_of_day (Day t) y \<Longrightarrow> YearFromTime t = y"
  using YearFromTime_correct year_of_day_unique by blast

lemma ex_year_10000: "YearFromTime 253402300800000 = 10000"
  by (rule YearFromTime_eq) (simp add: year_of_day_def Day_def msPerDay_def DayFromYear_def)

lemma replicate_small:
  "replicate 2 x = [x, x]"
  "replicate 3 x = [x, x, x]"
  "replicate 4 x = [x, x, x, x]"
  "replicate 5 x = [x, x, x, x, x]"
  by (simp_all add: numeral_2_eq_2 numeral_3_eq_3 eval_nat_numeral)

lemma ex_format_10000: "formatICalDate 253402300800000 = js ''+0100000101T000000Z''"
  by (simp add: formatICalDate_def toISOString_def ex_year_10000 MonthFromTime_def DateFromTime_def
        DayWithinYear_def InLeapYear_def DaysInYear_def DayFromYear_def Day_def msPerDay_def
        HourFromTime_def MinFromTime_def SecFromTime_def msFromTime_def year_string_def
        pad_def to_digits.simps digit_def js_def strip_separators_def isDigit_def replicate_small)


section \<open>The shape of the compact timestamp\<close>

lemma isDigit_digit: "n < 10 \<Longrightarrow> isDigit (digit n)"
proof -
  assume n: "n < 10"
  have "unat (digit n) = (48 + n) mod 2 ^ LENGTH(16)"
    unfolding digit_def by (rule unat_of_nat)
  with n have u: "unat (digit n) = 48 + n" by simp
  have "unat (0x30 :: code_unit) = 48" "unat (0x39 :: code_unit) = 57" by simp_all
  with u n show ?thesis
    by (simp add: isDigit_def word_le_nat_alt)
qed

lemma isDigit_not_separator: "isDigit u \<Longrightarrow> u \<noteq> 0x2D \<and> u \<noteq> 0x3A \<and> u \<noteq> 0x2E \<and> u \<noteq> 0x2B"
  by (auto simp: isDigit_def)

lemma to_digits_all: "list_all isDigit (to_digits n)"
proof (induction n rule: to_digits.induct)
  case (1 n)
  show ?case
  proof (cases "n < 10")
    case True
    then show ?thesis by (subst to_digits.simps) (simp add: isDigit_digit)
  next
    case False
    with 1 show ?thesis by (subst to_digits.simps) (simp add: isDigit_digit)
  qed
qed

lemma pad_all: "list_all isDigit (pad k n)"
proof -
  have "isDigit (digit 0)" by (rule isDigit_digit) simp
  then have "list_all isDigit (replicate (k - length (to_digits n)) (digit 0))"
    by (simp add: list_all_iff)
  with to_digits_all[of n] show ?thesis by (simp add: pad_def)
qed

lemma length_to_digits_10: "n < 10 \<Longrightarrow> length (to_digits n) = 1"
  by (subst to_digits.simps) simp

lemma length_to_digits_100: "n < 100 \<Longrightarrow> length (to_digits n) \<le> 2"
  by (subst to_digits.simps) (simp add: length_to_digits_10)

lemma length_to_digits_1000: "n < 1000 \<Longrightarrow> length (to_digits n) \<le> 3"
proof -
  assume "n < 1000"
  then have "n div 10 < 100" by simp
  from length_to_digits_100[OF this] show ?thesis
    by (subst to_digits.simps) simp
qed

lemma length_to_digits_10000: "n < 10000 \<Longrightarrow> length (to_digits n) \<le> 4"
proof -
  assume "n < 10000"
  then have "n div 10 < 1000" by simp
  from length_to_digits_1000[OF this] show ?thesis
    by (subst to_digits.simps) simp
qed

lemma length_pad: "length (to_digits n) \<le> k \<Longrightarrow> length (pad k n) = k"
  by (simp add: pad_def)

lemma strip_separators_append: "strip_separators (a @ b) = strip_separators a @ strip_separators b"
  by (simp add: strip_separators_def)

lemma strip_separators_digits: "list_all isDigit s \<Longrightarrow> strip_separators s = s"
  unfolding strip_separators_def
  by (rule filter_True) (auto simp: list_all_iff dest: isDigit_not_separator)

lemma strip_separators_pad: "strip_separators (pad k n) = pad k n"
  by (rule strip_separators_digits) (rule pad_all)

lemma strip_separators_literals:
  "strip_separators (js ''-'') = []" "strip_separators (js '':'') = []"
  "strip_separators (js ''T'') = js ''T''" "strip_separators (js ''.'') = js ''.''"
  "strip_separators (js ''Z'') = js ''Z''" "strip_separators (js ''+'') = js ''+''"
  by (simp_all add: strip_separators_def js_def)

lemma strip_separators_year:
  "strip_separators (year_string y) =
     (if 0 \<le> y \<and> y \<le> 9999 then pad 4 (nat y)
      else if y < 0 then pad 6 (nat \<bar>y\<bar>) else js ''+'' @ pad 6 (nat \<bar>y\<bar>))"
  by (simp add: year_string_def strip_separators_append strip_separators_pad
        strip_separators_literals)

lemma strip_millis_Cons:
  "strip_millis (a # s) =
     (if a = 0x2E \<and> 3 \<le> length s \<and> isDigit (s ! 0) \<and> isDigit (s ! 1) \<and> isDigit (s ! 2)
      then drop 3 s else a # strip_millis s)"
proof (cases s)
  case Nil
  then show ?thesis by simp
next
  case s1: (Cons b s1)
  show ?thesis
  proof (cases s1)
    case Nil
    with s1 show ?thesis by simp
  next
    case s2: (Cons c s2)
    show ?thesis
    proof (cases s2)
      case Nil
      with s1 s2 show ?thesis by simp
    next
      case (Cons d t)
      with s1 s2 show ?thesis by (simp add: numeral_3_eq_3)
    qed
  qed
qed

lemma strip_millis_at:
  "0x2E \<notin> set xs \<Longrightarrow> isDigit a \<Longrightarrow> isDigit b \<Longrightarrow> isDigit c
   \<Longrightarrow> strip_millis (xs @ 0x2E # a # b # c # rest) = xs @ rest"
proof (induction xs)
  case Nil
  then show ?case by simp
next
  case (Cons x xs)
  then have "x \<noteq> 0x2E" by auto
  with Cons show ?case by (simp only: append_Cons strip_millis_Cons) simp
qed

lemma three_digits:
  "length s = 3 \<Longrightarrow> list_all isDigit s
   \<Longrightarrow> \<exists>a b c. s = [a, b, c] \<and> isDigit a \<and> isDigit b \<and> isDigit c"
  by (cases s; cases "tl s"; cases "tl (tl s)") auto

lemma no_dot_digits: "list_all isDigit s \<Longrightarrow> 0x2E \<notin> set s"
  by (auto simp: list_all_iff dest: isDigit_not_separator)

lemma time_field_bounds:
  "0 \<le> HourFromTime t \<and> HourFromTime t < 24"
  "0 \<le> MinFromTime t \<and> MinFromTime t < 60"
  "0 \<le> SecFromTime t \<and> SecFromTime t < 60"
  "0 \<le> msFromTime t \<and> msFromTime t < 1000"
  by (simp_all add: HourFromTime_def MinFromTime_def SecFromTime_def msFromTime_def)

lemma formatICalDate_fields:
  "formatICalDate t =
     strip_separators (year_string (YearFromTime t)) @ pad 2 (nat (MonthFromTime t + 1))
     @ pad 2 (nat (DateFromTime t)) @ js ''T'' @ pad 2 (nat (HourFromTime t))
     @ pad 2 (nat (MinFromTime t)) @ pad 2 (nat (SecFromTime t)) @ js ''Z''"
proof -
  let ?P = "strip_separators (year_string (YearFromTime t)) @ pad 2 (nat (MonthFromTime t + 1))
     @ pad 2 (nat (DateFromTime t)) @ js ''T'' @ pad 2 (nat (HourFromTime t))
     @ pad 2 (nat (MinFromTime t)) @ pad 2 (nat (SecFromTime t))"
  have sep: "strip_separators (toISOString t) = ?P @ js ''.'' @ pad 3 (nat (msFromTime t)) @ js ''Z''"
    by (simp add: toISOString_def strip_separators_append strip_separators_pad
          strip_separators_literals)
  have "nat (msFromTime t) < 1000" using time_field_bounds(4)[of t] by linarith
  then have "length (pad 3 (nat (msFromTime t))) = 3"
    by (simp add: length_pad length_to_digits_1000)
  from three_digits[OF this pad_all] obtain a b c where
    ms: "pad 3 (nat (msFromTime t)) = [a, b, c]" and d: "isDigit a" "isDigit b" "isDigit c"
    by blast
  have yr: "0x2E \<notin> set (strip_separators (year_string (YearFromTime t)))"
    using no_dot_digits[OF pad_all]
    by (auto simp: strip_separators_year js_def)
  have nodot: "0x2E \<notin> set ?P"
    using yr no_dot_digits[OF pad_all] by (auto simp: js_def)
  have "strip_millis (?P @ 0x2E # a # b # c # js ''Z'') = ?P @ js ''Z''"
    by (rule strip_millis_at[OF nodot d])
  moreover have "?P @ js ''.'' @ pad 3 (nat (msFromTime t)) @ js ''Z'' = ?P @ 0x2E # a # b # c # js ''Z''"
    by (simp add: ms js_def)
  ultimately show ?thesis
    by (simp only: formatICalDate_def sep) simp
qed


lemma compact_form_parts:
  "length a = 8 \<Longrightarrow> length b = 6 \<Longrightarrow> list_all isDigit a \<Longrightarrow> list_all isDigit b
   \<Longrightarrow> compact_form (a @ js ''T'' @ b @ js ''Z'')"
  by (simp add: compact_form_def js_def nth_append)

lemma formatICalDate_four_digit_year:
  assumes "0 \<le> YearFromTime t" and "YearFromTime t \<le> 9999"
  shows "formatICalDate t =
           (pad 4 (nat (YearFromTime t)) @ pad 2 (nat (MonthFromTime t + 1))
            @ pad 2 (nat (DateFromTime t))) @ js ''T''
           @ (pad 2 (nat (HourFromTime t)) @ pad 2 (nat (MinFromTime t))
              @ pad 2 (nat (SecFromTime t))) @ js ''Z''"
    and "compact_form (formatICalDate t)"
proof -
  let ?a = "pad 4 (nat (YearFromTime t)) @ pad 2 (nat (MonthFromTime t + 1))
            @ pad 2 (nat (DateFromTime t))"
  let ?b = "pad 2 (nat (HourFromTime t)) @ pad 2 (nat (MinFromTime t))
              @ pad 2 (nat (SecFromTime t))"
  show eq: "formatICalDate t = ?a @ js ''T'' @ ?b @ js ''Z''"
    using assms by (simp add: formatICalDate_fields strip_separators_year)
  have y: "nat (YearFromTime t) < 10000" using assms by linarith
  have m: "nat (MonthFromTime t + 1) < 100" using MonthFromTime_bounds[of t] by linarith
  have d: "nat (DateFromTime t) < 100" using DateFromTime_bounds[of t] by linarith
  have h: "nat (HourFromTime t) < 100" using time_field_bounds(1)[of t] by linarith
  have mi: "nat (MinFromTime t) < 100" using time_field_bounds(2)[of t] by linarith
  have s: "nat (SecFromTime t) < 100" using time_field_bounds(3)[of t] by linarith
  have la: "length ?a = 8"
    using y m d by (simp add: length_pad length_to_digits_10000 length_to_digits_100)
  have lb: "length ?b = 6"
    using h mi s by (simp add: length_pad length_to_digits_100)
  have da: "list_all isDigit ?a" by (simp add: pad_all)
  have db: "list_all isDigit ?b" by (simp add: pad_all)
  from compact_form_parts[OF la lb da db] eq show "compact_form (formatICalDate t)"
    by simp
qed

lemma ex_not_compact: "\<not> compact_form (js ''+0100000101T000000Z'')"
  by (simp add: compact_form_def js_def)

section \<open>The compact timestamp in the calendar text\<close>

lemma create_event_request:
  assumes "find (\<lambda>cal. Some (cal_url cal) = calendarUrl args) (calendars st) = Some cal"
    and "newDate (parseDate rt) (startDate args) = Some s"
    and "newDate (parseDate rt) (endDate args) = Some e"
    and "s < e"
  shows "log (snd (create_event rt srv args st)) = log st @
     [CreateCalendarObject cal (num_string (dateNow rt) @ js ''@fastmail-mcp'' @ js ''.ics'')
        (js ''BEGIN:VCALENDAR'' @ crlf @ js ''VERSION:2.0'' @ crlf
         @ js ''PRODID:-//Fastmail Calendar MCP//EN'' @ crlf @ js ''BEGIN:VEVENT'' @ crlf
         @ js ''UID:'' @ num_string (dateNow rt) @ js ''@fastmail-mcp'' @ crlf
         @ js ''DTSTAMP:'' @ formatICalDate (newDateNow rt) @ crlf
         @ js ''DTSTART:'' @ formatICalDate s @ crlf
         @ js ''DTEND:'' @ formatICalDate e @ crlf
         @ js ''SUMMARY:'' @ interp (summary args) @ crlf
         @ (if truthy (description args)
            then js ''DESCRIPTION:'' @ interp (description args) @ crlf else [])
         @ (if truthy (location args)
            then js ''LOCATION:'' @ interp (location args) @ crlf else [])
         @ js ''END:VEVENT'' @ crlf @ js ''END:VCALENDAR'')]"
  using assms
  by (simp add: create_event_def Let_def issue_def js_def split: sum.splits)

lemma patch_start_valid:
  "truthy sd \<Longrightarrow> newDate parse sd = Some s
   \<Longrightarrow> patch_start parse sd ical
       = Inr (replace_line (js ''DTSTART:'') (js ''DTSTART:'' @ formatICalDate s @ crlf) ical)"
  by (simp add: patch_start_def)

lemma patch_end_valid:
  "truthy ed \<Longrightarrow> newDate parse ed = Some e
   \<Longrightarrow> patch_end parse ed ical
       = Inr (replace_line (js ''DTEND:'') (js ''DTEND:'' @ formatICalDate e @ crlf) ical)"
  by (simp add: patch_end_def)

lemmas date_eval = formatICalDate_def toISOString_def MonthFromTime_def DateFromTime_def
  DayWithinYear_def InLeapYear_def DaysInYear_def DayFromYear_def Day_def msPerDay_def
  HourFromTime_def MinFromTime_def SecFromTime_def msFromTime_def year_string_def
  pad_def to_digits.simps digit_def js_def strip_separators_def isDigit_def replicate_small

lemma ex_years:
  "YearFromTime 1734256800000 = 2024" "YearFromTime 1734260400000 = 2024"
  "YearFromTime 1734000000000 = 2024" "YearFromTime 1734256859999 = 2024"
  by (rule YearFromTime_eq, simp add: year_of_day_def Day_def msPerDay_def DayFromYear_def)+

lemma ex_formats:
  "formatICalDate 1734256800000 = js ''20241215T100000Z''"
  "formatICalDate 1734260400000 = js ''20241215T110000Z''"
  "formatICalDate 1734000000000 = js ''20241212T104000Z''"
  "formatICalDate 1734256859999 = js ''20241215T100059Z''"
  by (simp_all add: date_eval ex_years)

text \<open>
  Claim C8 says that for every valid date the encoder returns the ISO string of the instant
  without hyphens, colons and fraction, which gives the form \<open>YYYYMMDDTHHMMSSZ\<close>. For
  a year beyond 9999 the ISO string has the expanded year, a sign and six digits: the first
  instant of the year 10000 is encoded with a plus sign and nineteen units.
\<close>

theorem formatICalDate_expanded_year:
  "formatICalDate 253402300800000 = js ''+0100000101T000000Z''
   \<and> \<not> compact_form (formatICalDate 253402300800000)"
  by (simp add: ex_format_10000 ex_not_compact)

text \<open>
  Claim C8 as amended. For every time value the encoder gives the fields of the ISO string
  in its order, without the hyphens and colons (so also without the minus sign of a year
  before 0) and without the full stop and the three digits of the milliseconds, which are
  cut off, not rounded; the year is the one whose first day is the last on or before the
  day of the instant. For a year from 0 to 9999 the result has the form
  \<open>YYYYMMDDTHHMMSSZ\<close>. \<open>create_event\<close> writes its \<open>DTSTART\<close> and \<open>DTEND\<close> lines,
  and the two date branches of \<open>update_event\<close> their replacement lines, with this encoder.
\<close>

theorem formatICalDate_compact_timestamp:
  "formatICalDate t =
     strip_separators (year_string (YearFromTime t)) @ pad 2 (nat (MonthFromTime t + 1))
     @ pad 2 (nat (DateFromTime t)) @ js ''T'' @ pad 2 (nat (HourFromTime t))
     @ pad 2 (nat (MinFromTime t)) @ pad 2 (nat (SecFromTime t)) @ js ''Z''
   \<and> DayFromYear (YearFromTime t) \<le> Day t \<and> Day t < DayFromYear (YearFromTime t + 1)
   \<and> (0 \<le> YearFromTime t \<and> YearFromTime t \<le> 9999 \<longrightarrow> compact_form (formatICalDate t))
   \<and> (find (\<lambda>cal. Some (cal_url cal) = calendarUrl args) (calendars st) = Some cal
      \<and> newDate (parseDate rt) (startDate args) = Some s
      \<and> newDate (parseDate rt) (endDate args) = Some e \<and> s < e
      \<longrightarrow> log (snd (create_event rt srv args st)) = log st @
     [CreateCalendarObject cal (num_string (dateNow rt) @ js ''@fastmail-mcp'' @ js ''.ics'')
        (js ''BEGIN:VCALENDAR'' @ crlf @ js ''VERSION:2.0'' @ crlf
         @ js ''PRODID:-//Fastmail Calendar MCP//EN'' @ crlf @ js ''BEGIN:VEVENT'' @ crlf
         @ js ''UID:'' @ num_string (dateNow rt) @ js ''@fastmail-mcp'' @ crlf
         @ js ''DTSTAMP:'' @ formatICalDate (newDateNow rt) @ crlf
         @ js ''DTSTART:'' @ formatICalDate s @ crlf
         @ js ''DTEND:'' @ formatICalDate e @ crlf
         @ js ''SUMMARY:'' @ interp (summary args) @ crlf
         @ (if truthy (description args)
            then js ''DESCRIPTION:'' @ interp (description args) @ crlf else [])
         @ (if truthy (location args)
            then js ''LOCATION:'' @ interp (location args) @ crlf else [])
         @ js ''END:VEVENT'' @ crlf @ js ''END:VCALENDAR'')])
   \<and> (truthy sd \<and> newDate parse sd = Some s'
      \<longrightarrow> patch_start parse sd ical
          = Inr (replace_line (js ''DTSTART:'') (js ''DTSTART:'' @ formatICalDate s' @ crlf) ical))
   \<and> (truthy ed \<and> newDate parse ed = Some e'
      \<longrightarrow> patch_end parse ed ical
          = Inr (replace_line (js ''DTEND:'') (js ''DTEND:'' @ formatICalDate e' @ crlf) ical))"
proof (intro conjI impI)
  show "formatICalDate t =
     strip_separators (year_string (YearFromTime t)) @ pad 2 (nat (MonthFromTime t + 1))
     @ pad 2 (nat (DateFromTime t)) @ js ''T'' @ pad 2 (nat (HourFromTime t))
     @ pad 2 (nat (MinFromTime t)) @ pad 2 (nat (SecFromTime t)) @ js ''Z''"
    by (rule formatICalDate_fields)
next
  from YearFromTime_correct[of t]
  show "DayFromYear (YearFromTime t) \<le> Day t" and "Day t < DayFromYear (YearFromTime t + 1)"
    by (simp_all add: year_of_day_def)
next
  assume "0 \<le> YearFromTime t \<and> YearFromTime t \<le> 9999"
  then show "compact_form (formatICalDate t)"
    using formatICalDate_four_digit_year(2) by blast
next
  assume a: "find (\<lambda>cal. Some (cal_url cal) = calendarUrl args) (calendars st) = Some cal
      \<and> newDate (parseDate rt) (startDate args) = Some s
      \<and> newDate (parseDate rt) (endDate args) = Some e \<and> s < e"
  then have 1: "find (\<lambda>cal. Some (cal_url cal) = calendarUrl args) (calendars st) = Some cal"
    and 2: "newDate (parseDate rt) (startDate args) = Some s"
    and 3: "newDate (parseDate rt) (endDate args) = Some e" and 4: "s < e"
    by simp_all
  show "log (snd (create_event rt srv args st)) = log st @
     [CreateCalendarObject cal (num_string (dateNow rt) @ js ''@fastmail-mcp'' @ js ''.ics'')
        (js ''BEGIN:VCALENDAR'' @ crlf @ js ''VERSION:2.0'' @ crlf
         @ js ''PRODID:-//Fastmail Calendar MCP//EN'' @ crlf @ js ''BEGIN:VEVENT'' @ crlf
         @ js ''UID:'' @ num_string (dateNow rt) @ js ''@fastmail-mcp'' @ crlf
         @ js ''DTSTAMP:'' @ formatICalDate (newDateNow rt) @ crlf
         @ js ''DTSTART:'' @ formatICalDate s @ crlf
         @ js ''DTEND:'' @ formatICalDate e @ crlf
         @ js ''SUMMARY:'' @ interp (summary args) @ crlf
         @ (if truthy (description args)
            then js ''DESCRIPTION:'' @ interp (description args) @ crlf else [])
         @ (if truthy (location args)
            then js ''LOCATION:'' @ interp (location args) @ crlf else [])
         @ js ''END:VEVENT'' @ crlf @ js ''END:VCALENDAR'')]"
    by (rule create_event_request[OF 1 2 3 4])
next
  assume "truthy sd \<and> newDate parse sd = Some s'"
  then show "patch_start parse sd ical
          = Inr (replace_line (js ''DTSTART:'') (js ''DTSTART:'' @ formatICalDate s' @ crlf) ical)"
    by (simp add: patch_start_valid)
next
  assume "truthy ed \<and> newDate parse ed = Some e'"
  then show "patch_end parse ed ical
          = Inr (replace_line (js ''DTEND:'') (js ''DTEND:'' @ formatICalDate e' @ crlf) ical)"
    by (simp add: patch_end_valid)
qed

text \<open>
  The last millisecond of 2024-12-15T10:00:59Z is encoded as \<open>20241215T100059Z\<close>;
  an event from 10:00 to 11:00 of that day is created in calendar A with these two instants
  in its \<open>DTSTART\<close> and \<open>DTEND\<close> lines; and the two date branches rewrite the lines of
  an event.
\<close>

theorem formatICalDate_compact_timestamp_witness:
  "formatICalDate 1734256859999 = js ''20241215T100059Z''
   \<and> compact_form (formatICalDate 1734256859999)
   \<and> log (snd (create_event example_runtime example_dav
        (no_args\<lparr>calendarUrl := Some (js ''/cal/A''), summary := Some (js ''Lunch''),
                  startDate := Some (js ''2024-12-15T10:00:00Z''),
                  endDate := Some (js ''2024-12-15T11:00:00Z'')\<rparr>) connected_state))
     = [CreateCalendarObject (cal_named ''A'') (js ''1734000000000@fastmail-mcp.ics'')
         (js ''BEGIN:VCALENDAR'' @ crlf @ js ''VERSION:2.0'' @ crlf
          @ js ''PRODID:-//Fastmail Calendar MCP//EN'' @ crlf @ js ''BEGIN:VEVENT'' @ crlf
          @ js ''UID:1734000000000@fastmail-mcp'' @ crlf
          @ js ''DTSTAMP:20241212T104000Z'' @ crlf
          @ js ''DTSTART:20241215T100000Z'' @ crlf
          @ js ''DTEND:20241215T110000Z'' @ crlf
          @ js ''SUMMARY:Lunch'' @ crlf
          @ js ''END:VEVENT'' @ crlf @ js ''END:VCALENDAR'')]
   \<and> patch_start (parseDate example_runtime) (Some (js ''2024-12-15T10:00:00Z''))
        (js ''DTSTART:20200101T000000Z'' @ crlf @ js ''DTEND:20200101T010000Z'' @ crlf)
     = Inr (js ''DTSTART:20241215T100000Z'' @ crlf @ js ''DTEND:20200101T010000Z'' @ crlf)
   \<and> patch_end (parseDate example_runtime) (Some (js ''2024-12-15T11:00:00Z''))
        (js ''DTSTART:20200101T000000Z'' @ crlf @ js ''DTEND:20200101T010000Z'' @ crlf)
     = Inr (js ''DTSTART:20200101T000000Z'' @ crlf @ js ''DTEND:20241215T110000Z'' @ crlf)"
proof -
  let ?args = "no_args\<lparr>calendarUrl := Some (js ''/cal/A''), summary := Some (js ''Lunch''),
                  startDate := Some (js ''2024-12-15T10:00:00Z''),
                  endDate := Some (js ''2024-12-15T11:00:00Z'')\<rparr>"
  let ?ical = "js ''DTSTART:20200101T000000Z'' @ crlf @ js ''DTEND:20200101T010000Z'' @ crlf"
  have yr: "0 \<le> YearFromTime 1734256859999 \<and> YearFromTime 1734256859999 \<le> 9999"
    by (simp add: ex_years)
  have cal: "find (\<lambda>cal. Some (cal_url cal) = calendarUrl ?args) (calendars connected_state)
      = Some (cal_named ''A'')"
    by (simp add: no_args_def connected_state_def cal_named_def js_def)
  have s: "newDate (parseDate example_runtime) (startDate ?args) = Some 1734256800000"
    by (simp add: no_args_def newDate_def example_runtime_def js_def)
  have e: "newDate (parseDate example_runtime) (endDate ?args) = Some 1734260400000"
    by (simp add: no_args_def newDate_def example_runtime_def js_def)
  have lt: "(1734256800000::int) < 1734260400000" by simp
  have ts: "truthy (Some (js ''2024-12-15T10:00:00Z''))" "truthy (Some (js ''2024-12-15T11:00:00Z''))"
    by (simp_all add: truthy_def js_def)
  have ps: "newDate (parseDate example_runtime) (Some (js ''2024-12-15T10:00:00Z'')) = Some 1734256800000"
    by (simp add: newDate_def example_runtime_def js_def)
  have pe: "newDate (parseDate example_runtime) (Some (js ''2024-12-15T11:00:00Z'')) = Some 1734260400000"
    by (simp add: newDate_def example_runtime_def js_def)
  from formatICalDate_compact_timestamp[of 1734256859999 ?args connected_state "cal_named ''A''"
      example_runtime 1734256800000 1734260400000 example_dav
      "Some (js ''2024-12-15T10:00:00Z'')" "parseDate example_runtime" 1734256800000 ?ical
      "Some (js ''2024-12-15T11:00:00Z'')" 1734260400000]
    yr cal s e lt ts ps pe
  have all: "compact_form (formatICalDate 1734256859999)
     \<and> log (snd (create_event example_runtime example_dav ?args connected_state)) = log connected_state @
     [CreateCalendarObject (cal_named ''A'') (num_string (dateNow example_runtime) @ js ''@fastmail-mcp'' @ js ''.ics'')
        (js ''BEGIN:VCALENDAR'' @ crlf @ js ''VERSION:2.0'' @ crlf
         @ js ''PRODID:-//Fastmail Calendar MCP//EN'' @ crlf @ js ''BEGIN:VEVENT'' @ crlf
         @ js ''UID:'' @ num_string (dateNow example_runtime) @ js ''@fastmail-mcp'' @ crlf
         @ js ''DTSTAMP:'' @ formatICalDate (newDateNow example_runtime) @ crlf
         @ js ''DTSTART:'' @ formatICalDate 1734256800000 @ crlf
         @ js ''DTEND:'' @ formatICalDate 1734260400000 @ crlf
         @ js ''SUMMARY:'' @ interp (summary ?args) @ crlf
         @ (if truthy (description ?args)
            then js ''DESCRIPTION:'' @ interp (description ?args) @ crlf else [])
         @ (if truthy (location ?args)
            then js ''LOCATION:'' @ interp (location ?args) @ crlf else [])
         @ js ''END:VEVENT'' @ crlf @ js ''END:VCALENDAR'')]
     \<and> patch_start (parseDate example_runtime) (Some (js ''2024-12-15T10:00:00Z'')) ?ical
          = Inr (replace_line (js ''DTSTART:'') (js ''DTSTART:'' @ formatICalDate 1734256800000 @ crlf) ?ical)
     \<and> patch_end (parseDate example_runtime) (Some (js ''2024-12-15T11:00:00Z'')) ?ical
          = Inr (replace_line (js ''DTEND:'') (js ''DTEND:'' @ formatICalDate 1734260400000 @ crlf) ?ical)"
    by blast
  have num: "num_string (dateNow example_runtime) = js ''1734000000000''"
    by (simp add: num_string_def example_runtime_def to_digits.simps digit_def js_def)
  have now: "formatICalDate (newDateNow example_runtime) = js ''20241212T104000Z''"
    by (simp add: example_runtime_def ex_formats)
  have r1: "replace_line (js ''DTSTART:'') (js ''DTSTART:'' @ js ''20241215T100000Z'' @ crlf) ?ical
      = js ''DTSTART:20241215T100000Z'' @ crlf @ js ''DTEND:20200101T010000Z'' @ crlf"
    by (simp add: replace_line_def match_line_at_def isLineTerminator_def js_def crlf_def)
  have r2: "replace_line (js ''DTEND:'') (js ''DTEND:'' @ js ''20241215T110000Z'' @ crlf) ?ical
      = js ''DTSTART:20200101T000000Z'' @ crlf @ js ''DTEND:20241215T110000Z'' @ crlf"
    by (simp add: replace_line_def match_line_at_def isLineTerminator_def js_def crlf_def)
  have plain: "log connected_state = []" "interp (summary ?args) = js ''Lunch''"
    "\<not> truthy (description ?args)" "\<not> truthy (location ?args)"
    by (simp_all add: connected_state_def no_args_def interp_def truthy_def)
  from all show ?thesis
    by (simp only: ex_formats num now r1 r2 plain if_False append_Nil append_Nil2)
       (simp add: js_def)
qed

section \<open>What \<open>update_event\<close> answers after its loop\<close>

lemma locate_throws:
  "k < length cals \<Longrightarrow> \<forall>j<k. misses srv url st cals j \<Longrightarrow> fetched srv st cals k = Inl x
   \<Longrightarrow> locate srv url cals st
       = (Inl x, st\<lparr>log := log st @ map fetch_request (take (Suc k) cals)\<rparr>)"
proof (induction cals arbitrary: st k)
  case Nil
  then show ?case by simp
next
  case (Cons c cs)
  show ?case
  proof (cases k)
    case 0
    with Cons.prems show ?thesis
      by (simp add: fetched_0 issue_def fetch_request_def)
  next
    case (Suc k')
    from Cons.prems(2) Suc have m0: "misses srv url st (c # cs) 0" by simp
    from Cons.prems(2) Suc have rest: "\<forall>j<k'. misses srv url (issue (fetch_request c) st) cs j"
      by (auto simp: misses_Suc[symmetric])
    from Cons.prems Suc have k': "k' < length cs" by simp
    from Cons.prems(3) Suc have f: "fetched srv (issue (fetch_request c) st) cs k' = Inl x"
      by (simp add: fetched_Suc)
    have ih: "locate srv url cs (issue (fetch_request c) st)
        = (Inl x, (issue (fetch_request c) st)\<lparr>log := log (issue (fetch_request c) st)
             @ map fetch_request (take (Suc k') cs)\<rparr>)"
      by (rule Cons.IH[OF k' rest f])
    from m0 obtain evs where ev: "fetchCalendarObjects srv (log st) c None = Inr evs"
      and nomatch: "find (\<lambda>e. Some (obj_url e) = url) evs = None"
      by (auto simp: misses_0 matching_def split: sum.splits)
    show ?thesis
      using ev nomatch ih Suc
      by (simp add: issue_log_append fetch_request_def[symmetric])
  qed
qed

lemma locate_thrown_by_fetch:
  "locate srv url cals st = (Inl x, st1) \<Longrightarrow> \<exists>h c. fetchCalendarObjects srv h c None = Inl x"
proof (induction cals arbitrary: st)
  case Nil
  then show ?case by simp
next
  case (Cons c cs)
  show ?case
  proof (cases "fetchCalendarObjects srv (log st) c None")
    case (Inl y)
    with Cons.prems have "y = x" by simp
    with Inl show ?thesis by blast
  next
    case (Inr events)
    show ?thesis
    proof (cases "find (\<lambda>e. Some (obj_url e) = url) events")
      case (Some e)
      with Inr Cons.prems show ?thesis by simp
    next
      case None
      with Inr Cons.prems
      have "locate srv url cs (issue (FetchCalendarObjects c None) st) = (Inl x, st1)" by simp
      from Cons.IH[OF this] show ?thesis .
    qed
  qed
qed

lemma update_event_patch_thrown:
  "update_event_patch parse args data = Inl x
   \<Longrightarrow> x = Error (js ''Invalid start date: '' @ interp (startDate args))
     \<or> x = Error (js ''Invalid end date: '' @ interp (endDate args))"
  by (auto simp: update_event_patch_def patch_start_def patch_end_def Let_def
        split: sum.splits option.splits if_splits)

lemma update_event_found:
  assumes "k < length (calendars st)"
    and "\<forall>j<k. misses srv (eventUrl args) st (calendars st) j"
    and "fetched srv st (calendars st) k = Inr events"
    and "matching (eventUrl args) events = Some e"
  shows "update_event rt srv args st =
     (let st1 = st\<lparr>log := log st @ map fetch_request (take (Suc k) (calendars st))\<rparr>
      in (case update_event_patch (parseDate rt) args (obj_data e) of
            Inl x \<Rightarrow> (Inl x, st1)
          | Inr updatedIcal \<Rightarrow>
              (case updateCalendarObject srv (log st1) (eventUrl args) updatedIcal (obj_etag e) of
                 Inl x \<Rightarrow>
                   (Inl x, issue (UpdateCalendarObject (eventUrl args) updatedIcal (obj_etag e)) st1)
               | Inr u \<Rightarrow>
                   (Inr (js ''Event updated successfully: '' @ interp (eventUrl args)),
                    issue (UpdateCalendarObject (eventUrl args) updatedIcal (obj_etag e)) st1))))"
  using locate_found[OF assms]
  by (simp add: update_event_def Let_def split: sum.splits)

lemma update_event_fetch_throws:
  assumes "k < length (calendars st)"
    and "\<forall>j<k. misses srv (eventUrl args) st (calendars st) j"
    and "fetched srv st (calendars st) k = Inl x"
  shows "update_event rt srv args st
     = (Inl x, st\<lparr>log := log st @ map fetch_request (take (Suc k) (calendars st))\<rparr>)"
  using locate_throws[OF assms]
  by (simp add: update_event_def)

lemma update_event_not_found_iff:
  assumes f: "\<forall>h c r. fetchCalendarObjects srv h c r
                \<noteq> Inl (Error (js ''Event not found: '' @ interp (eventUrl args)))"
    and u: "\<forall>h a d t. updateCalendarObject srv h a d t
                \<noteq> Inl (Error (js ''Event not found: '' @ interp (eventUrl args)))"
  shows "(fst (update_event rt srv args st)
            = Inl (Error (js ''Event not found: '' @ interp (eventUrl args))))
         = (\<forall>j<length (calendars st). misses srv (eventUrl args) st (calendars st) j)"
proof
  assume "\<forall>j<length (calendars st). misses srv (eventUrl args) st (calendars st) j"
  then have "locate srv (eventUrl args) (calendars st) st
      = (Inr None, st\<lparr>log := log st @ map fetch_request (calendars st)\<rparr>)"
    by (rule locate_none_state)
  then show "fst (update_event rt srv args st)
            = Inl (Error (js ''Event not found: '' @ interp (eventUrl args)))"
    by (simp add: update_event_def)
next
  assume nf: "fst (update_event rt srv args st)
            = Inl (Error (js ''Event not found: '' @ interp (eventUrl args)))"
  obtain lr st1 where loc: "locate srv (eventUrl args) (calendars st) st = (lr, st1)"
    by (cases "locate srv (eventUrl args) (calendars st) st") auto
  have "lr = Inr None"
  proof (cases lr)
    case (Inl x)
    with loc nf have "x = Error (js ''Event not found: '' @ interp (eventUrl args))"
      by (simp add: update_event_def)
    with locate_thrown_by_fetch[of srv "eventUrl args" "calendars st" st x st1] loc Inl f
    show ?thesis by auto
  next
    case (Inr found)
    show ?thesis
    proof (cases found)
      case None
      with Inr show ?thesis by simp
    next
      case (Some e)
      show ?thesis
      proof (cases "update_event_patch (parseDate rt) args (obj_data e)")
        case (Inl x)
        with Some Inr loc nf have "x = Error (js ''Event not found: '' @ interp (eventUrl args))"
          by (simp add: update_event_def)
        moreover have "x \<noteq> Error (js ''Event not found: '' @ interp (eventUrl args))"
          using update_event_patch_thrown[OF Inl] by (auto simp: js_def)
        ultimately show ?thesis by simp
      next
        case p: (Inr updatedIcal)
        show ?thesis
        proof (cases "updateCalendarObject srv (log st1) (eventUrl args) updatedIcal (obj_etag e)")
          case (Inl x)
          with p Some Inr loc nf have "x = Error (js ''Event not found: '' @ interp (eventUrl args))"
            by (simp add: update_event_def Let_def)
          with Inl u show ?thesis by auto
        next
          case r: (Inr un)
          with p Some Inr loc nf show ?thesis by (simp add: update_event_def Let_def)
        qed
      qed
    qed
  qed
  with loc have "fst (locate srv (eventUrl args) (calendars st) st) = Inr None" by simp
  then show "\<forall>j<length (calendars st). misses srv (eventUrl args) st (calendars st) j"
    by (simp add: locate_none_iff)
qed

text \<open>
  Claim C4: the locator of \<open>update_event\<close> goes through the cached calendar list in its
  order, fetches the whole object set of each calendar and looks for an object with the
  requested address; it stops at the first calendar that has one, with no fetch against a
  later calendar, and the call fails with the not-found error exactly when no calendar has
  one. Here: when the answers to the steps before \<open>k\<close> hold no such object and the answer
  to step \<open>k\<close> does, the loop returns the first such object of that answer, having issued
  the fetches of the first \<open>k + 1\<close> calendars and nothing else, and \<open>update_event\<close> goes
  on with that object: it ends with the error of the patch block, or with what the update
  request threw, or with the confirmation. The loop ends without an object exactly when
  every step is answered without one, after one fetch per calendar, and \<open>update_event\<close>
  then raises \<open>Event not found\<close>. A fetch that throws ends the loop and the call with
  what it threw, after the fetches up to it. So, unless the remote side itself throws an
  error of that very text, \<open>update_event\<close> ends with \<open>Event not found\<close> if and only if
  every calendar of the list is answered without a matching object.
\<close>

theorem locate_scans_in_order:
  "(k < length cals \<and> (\<forall>j<k. misses srv url st cals j) \<and> fetched srv st cals k = Inr events
      \<and> matching url events = Some e
    \<longrightarrow> locate srv url cals st
        = (Inr (Some e), st\<lparr>log := log st @ map fetch_request (take (Suc k) cals)\<rparr>))
   \<and> ((fst (locate srv url cals st) = Inr None) = (\<forall>j<length cals. misses srv url st cals j))
   \<and> ((\<forall>j<length cals. misses srv url st cals j)
    \<longrightarrow> locate srv url cals st = (Inr None, st\<lparr>log := log st @ map fetch_request cals\<rparr>))
   \<and> ((\<forall>j<length (calendars st). misses srv (eventUrl args) st (calendars st) j)
    \<longrightarrow> update_event rt srv args st
        = (Inl (Error (js ''Event not found: '' @ interp (eventUrl args))),
           st\<lparr>log := log st @ map fetch_request (calendars st)\<rparr>))
   \<and> (k < length (calendars st)
      \<and> (\<forall>j<k. misses srv (eventUrl args) st (calendars st) j)
      \<and> fetched srv st (calendars st) k = Inr events
      \<and> matching (eventUrl args) events = Some e
    \<longrightarrow> update_event rt srv args st =
     (let st1 = st\<lparr>log := log st @ map fetch_request (take (Suc k) (calendars st))\<rparr>
      in (case update_event_patch (parseDate rt) args (obj_data e) of
            Inl x \<Rightarrow> (Inl x, st1)
          | Inr updatedIcal \<Rightarrow>
              (case updateCalendarObject srv (log st1) (eventUrl args) updatedIcal (obj_etag e) of
                 Inl x \<Rightarrow>
                   (Inl x, issue (UpdateCalendarObject (eventUrl args) updatedIcal (obj_etag e)) st1)
               | Inr u \<Rightarrow>
                   (Inr (js ''Event updated successfully: '' @ interp (eventUrl args)),
                    issue (UpdateCalendarObject (eventUrl args) updatedIcal (obj_etag e)) st1)))))
   \<and> (k < length (calendars st)
      \<and> (\<forall>j<k. misses srv (eventUrl args) st (calendars st) j)
      \<and> fetched srv st (calendars st) k = Inl thrown
    \<longrightarrow> update_event rt srv args st
        = (Inl thrown, st\<lparr>log := log st @ map fetch_request (take (Suc k) (calendars st))\<rparr>))
   \<and> ((\<forall>h c r. fetchCalendarObjects srv h c r
                \<noteq> Inl (Error (js ''Event not found: '' @ interp (eventUrl args))))
      \<and> (\<forall>h a d t. updateCalendarObject srv h a d t
                \<noteq> Inl (Error (js ''Event not found: '' @ interp (eventUrl args))))
    \<longrightarrow> (fst (update_event rt srv args st)
            = Inl (Error (js ''Event not found: '' @ interp (eventUrl args))))
        = (\<forall>j<length (calendars st). misses srv (eventUrl args) st (calendars st) j))"
proof (intro conjI impI)
  assume "k < length cals \<and> (\<forall>j<k. misses srv url st cals j) \<and> fetched srv st cals k = Inr events
      \<and> matching url events = Some e"
  then show "locate srv url cals st
        = (Inr (Some e), st\<lparr>log := log st @ map fetch_request (take (Suc k) cals)\<rparr>)"
    using locate_found by blast
next
  show "(fst (locate srv url cals st) = Inr None) = (\<forall>j<length cals. misses srv url st cals j)"
    by (rule locate_none_iff)
next
  assume "\<forall>j<length cals. misses srv url st cals j"
  then show "locate srv url cals st = (Inr None, st\<lparr>log := log st @ map fetch_request cals\<rparr>)"
    by (rule locate_none_state)
next
  assume "\<forall>j<length (calendars st). misses srv (eventUrl args) st (calendars st) j"
  then have "locate srv (eventUrl args) (calendars st) st
      = (Inr None, st\<lparr>log := log st @ map fetch_request (calendars st)\<rparr>)"
    by (rule locate_none_state)
  then show "update_event rt srv args st
        = (Inl (Error (js ''Event not found: '' @ interp (eventUrl args))),
           st\<lparr>log := log st @ map fetch_request (calendars st)\<rparr>)"
    by (simp add: update_event_def)
next
  assume a: "k < length (calendars st)
      \<and> (\<forall>j<k. misses srv (eventUrl args) st (calendars st) j)
      \<and> fetched srv st (calendars st) k = Inr events
      \<and> matching (eventUrl args) events = Some e"
  then have 1: "k < length (calendars st)"
    and 2: "\<forall>j<k. misses srv (eventUrl args) st (calendars st) j"
    and 3: "fetched srv st (calendars st) k = Inr events"
    and 4: "matching (eventUrl args) events = Some e" by simp_all
  show "update_event rt srv args st =
     (let st1 = st\<lparr>log := log st @ map fetch_request (take (Suc k) (calendars st))\<rparr>
      in (case update_event_patch (parseDate rt) args (obj_data e) of
            Inl x \<Rightarrow> (Inl x, st1)
          | Inr updatedIcal \<Rightarrow>
              (case updateCalendarObject srv (log st1) (eventUrl args) updatedIcal (obj_etag e) of
                 Inl x \<Rightarrow>
                   (Inl x, issue (UpdateCalendarObject (eventUrl args) updatedIcal (obj_etag e)) st1)
               | Inr u \<Rightarrow>
                   (Inr (js ''Event updated successfully: '' @ interp (eventUrl args)),
                    issue (UpdateCalendarObject (eventUrl args) updatedIcal (obj_etag e)) st1))))"
    by (rule update_event_found[OF 1 2 3 4])
next
  assume a: "k < length (calendars st)
      \<and> (\<forall>j<k. misses srv (eventUrl args) st (calendars st) j)
      \<and> fetched srv st (calendars st) k = Inl thrown"
  then have 1: "k < length (calendars st)"
    and 2: "\<forall>j<k. misses srv (eventUrl args) st (calendars st) j"
    and 3: "fetched srv st (calendars st) k = Inl thrown" by simp_all
  show "update_event rt srv args st
        = (Inl thrown, st\<lparr>log := log st @ map fetch_request (take (Suc k) (calendars st))\<rparr>)"
    by (rule update_event_fetch_throws[OF 1 2 3])
next
  assume a: "(\<forall>h c r. fetchCalendarObjects srv h c r
                \<noteq> Inl (Error (js ''Event not found: '' @ interp (eventUrl args))))
      \<and> (\<forall>h a d t. updateCalendarObject srv h a d t
                \<noteq> Inl (Error (js ''Event not found: '' @ interp (eventUrl args))))"
  then have 1: "\<forall>h c r. fetchCalendarObjects srv h c r
                \<noteq> Inl (Error (js ''Event not found: '' @ interp (eventUrl args)))"
    and 2: "\<forall>h a d t. updateCalendarObject srv h a d t
                \<noteq> Inl (Error (js ''Event not found: '' @ interp (eventUrl args)))" by simp_all
  show "(fst (update_event rt srv args st)
            = Inl (Error (js ''Event not found: '' @ interp (eventUrl args))))
        = (\<forall>j<length (calendars st). misses srv (eventUrl args) st (calendars st) j)"
    by (rule update_event_not_found_iff[OF 1 2])
qed

text \<open>
  The scenario of the specification: calendars A, B, C and D, the event in C only. The loop
  fetches A, B and C and returns the event of C without a fetch against D, and the update
  of its summary goes out after these three fetches and is not answered with
  \<open>Event not found\<close>; for an address no calendar has, all four are fetched and the call
  fails with \<open>Event not found\<close>; and when the fetch of B throws, the call ends with what it
  threw after the fetches of A and B.
\<close>

theorem locate_scans_in_order_witness:
  "locate example_dav (Some (js ''/cal/C/1.ics'')) (calendars connected_state) connected_state
     = (Inr (Some example_event),
        connected_state\<lparr>log := [fetch_request (cal_named ''A''), fetch_request (cal_named ''B''),
                                  fetch_request (cal_named ''C'')]\<rparr>)
   \<and> update_event example_runtime example_dav
        (no_args\<lparr>eventUrl := Some (js ''/cal/C/1.ics''), summary := Some (js ''new'')\<rparr>)
        connected_state
     = (Inr (js ''Event updated successfully: /cal/C/1.ics''),
        connected_state\<lparr>log := [fetch_request (cal_named ''A''), fetch_request (cal_named ''B''),
                                  fetch_request (cal_named ''C''),
                                  UpdateCalendarObject (Some (js ''/cal/C/1.ics''))
                                    (js ''SUMMARY:new'' @ crlf) (js ''v1'')]\<rparr>)
   \<and> fst (update_event example_runtime example_dav
        (no_args\<lparr>eventUrl := Some (js ''/cal/C/1.ics''), summary := Some (js ''new'')\<rparr>)
        connected_state) \<noteq> Inl (Error (js ''Event not found: /cal/C/1.ics''))
   \<and> update_event example_runtime example_dav (no_args\<lparr>eventUrl := Some (js ''/cal/Z/9.ics'')\<rparr>)
        connected_state
     = (Inl (Error (js ''Event not found: /cal/Z/9.ics'')),
        connected_state\<lparr>log := [fetch_request (cal_named ''A''), fetch_request (cal_named ''B''),
                                  fetch_request (cal_named ''C''), fetch_request (cal_named ''D'')]\<rparr>)
   \<and> update_event example_runtime
        (example_dav\<lparr>fetchCalendarObjects := (\<lambda>h cal range.
           if cal = cal_named ''B'' then Inl (Error (js ''503'')) else Inr [])\<rparr>)
        (no_args\<lparr>eventUrl := Some (js ''/cal/C/1.ics'')\<rparr>) connected_state
     = (Inl (Error (js ''503'')),
        connected_state\<lparr>log := [fetch_request (cal_named ''A''), fetch_request (cal_named ''B'')]\<rparr>)"
proof -
  let ?cals = "calendars connected_state"
  let ?c = "Some (js ''/cal/C/1.ics'')"
  let ?ac = "no_args\<lparr>eventUrl := Some (js ''/cal/C/1.ics''), summary := Some (js ''new'')\<rparr>"
  let ?az = "no_args\<lparr>eventUrl := Some (js ''/cal/Z/9.ics'')\<rparr>"
  let ?ab = "no_args\<lparr>eventUrl := Some (js ''/cal/C/1.ics'')\<rparr>"
  let ?down = "example_dav\<lparr>fetchCalendarObjects := (\<lambda>h cal range.
           if cal = cal_named ''B'' then Inl (Error (js ''503'')) else Inr [])\<rparr>"
  have len: "(2::nat) < length ?cals" "(1::nat) < length ?cals"
    by (simp_all add: connected_state_def)
  have url: "eventUrl ?ac = ?c" "eventUrl ?ab = ?c"
    by (simp_all add: no_args_def)
  have before: "\<forall>j<2. misses example_dav ?c connected_state ?cals j"
    by (simp add: all_less_2 example_eval)
  have at: "fetched example_dav connected_state ?cals 2 = Inr [example_event]"
    by (simp add: example_eval)
  have hit: "matching ?c [example_event] = Some example_event"
    by (simp add: example_eval)
  have none: "\<forall>j<length ?cals. misses example_dav (eventUrl ?az) connected_state ?cals j"
    by (simp add: all_less_4 example_eval no_args_def)
  have quiet: "(\<forall>h c r. fetchCalendarObjects example_dav h c r
                \<noteq> Inl (Error (js ''Event not found: '' @ interp (eventUrl ?ac))))
      \<and> (\<forall>h a d t. updateCalendarObject example_dav h a d t
                \<noteq> Inl (Error (js ''Event not found: '' @ interp (eventUrl ?ac))))"
    by (simp add: example_dav_def)
  have third: "\<not> misses example_dav (eventUrl ?ac) connected_state ?cals 2"
    by (simp add: example_eval no_args_def)
  have some: "\<not> (\<forall>j<length ?cals. misses example_dav (eventUrl ?ac) connected_state ?cals j)"
    using third len(1) by blast
  have before_b: "\<forall>j<1. misses ?down ?c connected_state ?cals j"
    by (simp add: example_eval)
  have at_b: "fetched ?down connected_state ?cals 1 = Inl (Error (js ''503''))"
    by (simp add: example_eval)
  note found = locate_scans_in_order[of 2 ?cals example_dav ?c connected_state "[example_event]"
      example_event ?ac example_runtime]
  note absent = locate_scans_in_order[of 2 ?cals example_dav ?c connected_state "[example_event]"
      example_event ?az example_runtime]
  note broken = locate_scans_in_order[of 1 ?cals ?down ?c connected_state _ _ ?ab example_runtime
      "Error (js ''503'')"]
  have lg: "log connected_state = []"
    by (simp add: connected_state_def)
  have three_fetches: "map fetch_request (take (Suc 2) ?cals)
      = [fetch_request (cal_named ''A''), fetch_request (cal_named ''B''),
         fetch_request (cal_named ''C'')]"
    by (simp add: connected_state_def)
  have two_fetches: "map fetch_request (take (Suc 1) ?cals)
      = [fetch_request (cal_named ''A''), fetch_request (cal_named ''B'')]"
    by (simp add: connected_state_def)
  have four_fetches: "map fetch_request ?cals
      = [fetch_request (cal_named ''A''), fetch_request (cal_named ''B''),
         fetch_request (cal_named ''C''), fetch_request (cal_named ''D'')]"
    by (simp add: connected_state_def)
  have msg_c: "js ''Event not found: '' @ interp (eventUrl ?ac) = js ''Event not found: /cal/C/1.ics''"
    by (simp add: no_args_def interp_def js_def)
  have msg_z: "js ''Event not found: '' @ interp (eventUrl ?az) = js ''Event not found: /cal/Z/9.ics''"
    by (simp add: no_args_def interp_def js_def)
  have patched: "update_event_patch (parseDate example_runtime) ?ac (obj_data example_event)
      = Inr (js ''SUMMARY:new'' @ crlf)"
    by (simp add: patch_eval example_event_def)
  have accepted: "\<And>h a d t. updateCalendarObject example_dav h a d t = Inr ()"
    by (simp add: example_dav_def)
  from found len before at hit
  have "locate example_dav ?c ?cals connected_state
      = (Inr (Some example_event), connected_state\<lparr>log := log connected_state
           @ map fetch_request (take (Suc 2) ?cals)\<rparr>)"
    by blast
  then have one: "locate example_dav ?c ?cals connected_state
      = (Inr (Some example_event),
         connected_state\<lparr>log := [fetch_request (cal_named ''A''), fetch_request (cal_named ''B''),
                                   fetch_request (cal_named ''C'')]\<rparr>)"
    by (simp only: lg three_fetches append_Nil)
  from found len before at hit url
  have "update_event example_runtime example_dav ?ac connected_state =
     (let st1 = connected_state\<lparr>log := log connected_state
                  @ map fetch_request (take (Suc 2) (calendars connected_state))\<rparr>
      in (case update_event_patch (parseDate example_runtime) ?ac (obj_data example_event) of
            Inl x \<Rightarrow> (Inl x, st1)
          | Inr updatedIcal \<Rightarrow>
              (case updateCalendarObject example_dav (log st1) (eventUrl ?ac) updatedIcal
                      (obj_etag example_event) of
                 Inl x \<Rightarrow>
                   (Inl x, issue (UpdateCalendarObject (eventUrl ?ac) updatedIcal
                                    (obj_etag example_event)) st1)
               | Inr u \<Rightarrow>
                   (Inr (js ''Event updated successfully: '' @ interp (eventUrl ?ac)),
                    issue (UpdateCalendarObject (eventUrl ?ac) updatedIcal
                             (obj_etag example_event)) st1))))"
    by simp
  also have "\<dots> = (Inr (js ''Event updated successfully: /cal/C/1.ics''),
        connected_state\<lparr>log := [fetch_request (cal_named ''A''), fetch_request (cal_named ''B''),
                                  fetch_request (cal_named ''C''),
                                  UpdateCalendarObject (Some (js ''/cal/C/1.ics''))
                                    (js ''SUMMARY:new'' @ crlf) (js ''v1'')]\<rparr>)"
    by (simp only: patched accepted lg three_fetches append_Nil Let_def sum.case)
       (simp add: issue_def url interp_def example_event_def js_def)
  finally have two: "update_event example_runtime example_dav ?ac connected_state
      = (Inr (js ''Event updated successfully: /cal/C/1.ics''),
        connected_state\<lparr>log := [fetch_request (cal_named ''A''), fetch_request (cal_named ''B''),
                                  fetch_request (cal_named ''C''),
                                  UpdateCalendarObject (Some (js ''/cal/C/1.ics''))
                                    (js ''SUMMARY:new'' @ crlf) (js ''v1'')]\<rparr>)" .
  from found quiet some
  have "fst (update_event example_runtime example_dav ?ac connected_state)
      \<noteq> Inl (Error (js ''Event not found: '' @ interp (eventUrl ?ac)))"
    by blast
  then have three: "fst (update_event example_runtime example_dav ?ac connected_state)
      \<noteq> Inl (Error (js ''Event not found: /cal/C/1.ics''))"
    by (simp only: msg_c not_False_eq_True)
  from absent none
  have "update_event example_runtime example_dav ?az connected_state
      = (Inl (Error (js ''Event not found: '' @ interp (eventUrl ?az))),
         connected_state\<lparr>log := log connected_state @ map fetch_request ?cals\<rparr>)"
    by blast
  then have four: "update_event example_runtime example_dav ?az connected_state
      = (Inl (Error (js ''Event not found: /cal/Z/9.ics'')),
         connected_state\<lparr>log := [fetch_request (cal_named ''A''), fetch_request (cal_named ''B''),
                                  fetch_request (cal_named ''C''), fetch_request (cal_named ''D'')]\<rparr>)"
    by (simp only: msg_z lg four_fetches append_Nil)
  from broken len before_b at_b url
  have "update_event example_runtime ?down ?ab connected_state
      = (Inl (Error (js ''503'')), connected_state\<lparr>log := log connected_state
           @ map fetch_request (take (Suc 1) ?cals)\<rparr>)"
    by simp
  then have five: "update_event example_runtime ?down ?ab connected_state
      = (Inl (Error (js ''503'')),
         connected_state\<lparr>log := [fetch_request (cal_named ''A''), fetch_request (cal_named ''B'')]\<rparr>)"
    by (simp only: lg two_fetches append_Nil)
  from one two three four five show ?thesis
    by (intro conjI)
qed

section \<open>Every way a call can fail\<close>

lemma handler_after_init:
  "initializeClient cfg srv st = (Inr (), st1)
   \<Longrightarrow> handler cfg rt srv name args st
       = (case tool_switch rt srv name args st1 of
            (Inl e, s) \<Rightarrow> (error_result e, s)
          | (Inr t, s) \<Rightarrow> (\<lparr>content_text = t, isError = False\<rparr>, s))"
  by (simp add: handler_def try_block_def error_result_def errorMessage_def
        split: prod.splits sum.splits exn.splits)

lemma handler_init_throws:
  "initializeClient cfg srv st = (Inl e, st1)
   \<Longrightarrow> handler cfg rt srv name args st = (error_result e, st1)"
  by (simp add: handler_def try_block_def error_result_def errorMessage_def split: exn.splits)

lemma tool_switch_known:
  "tool_switch rt srv (js ''list_events'') (Some a) st = list_events rt srv a st"
  "tool_switch rt srv (js ''create_event'') (Some a) st = create_event rt srv a st"
  "tool_switch rt srv (js ''update_event'') (Some a) st = update_event rt srv a st"
  "tool_switch rt srv (js ''delete_event'') (Some a) st = delete_event srv a st"
  by (simp_all add: tool_switch_def tool_names_distinct destructure_def)

lemma tool_switch_no_arguments:
  "name \<in> {js ''list_events'', js ''create_event'', js ''update_event'', js ''delete_event''}
   \<Longrightarrow> isl (fst (tool_switch rt srv name None st)) \<and> snd (tool_switch rt srv name None st) = st"
  by (auto simp: tool_switch_def tool_names_distinct destructure_def)

lemma initializeClient_listing_throws:
  "davClient st = None
   \<Longrightarrow> createDAVClient srv (log st) (username cfg) (appPassword cfg) = Inr c
   \<Longrightarrow> fetchCalendars srv (log st @ [CreateDAVClient (username cfg) (appPassword cfg)]) = Inl e
   \<Longrightarrow> initializeClient cfg srv st
       = (Inl e, st\<lparr>davClient := Some c,
                     log := log st @ [CreateDAVClient (username cfg) (appPassword cfg),
                                      FetchCalendars]\<rparr>)"
  by (simp add: initializeClient_def issue_def Let_def)

lemma initializeClient_handshake_throws:
  "davClient st = None
   \<Longrightarrow> createDAVClient srv (log st) (username cfg) (appPassword cfg) = Inl e
   \<Longrightarrow> initializeClient cfg srv st
       = (Inl e, st\<lparr>log := log st @ [CreateDAVClient (username cfg) (appPassword cfg)]\<rparr>)"
  by (simp add: initializeClient_def issue_def)

lemma list_events_start_invalid:
  "find (\<lambda>cal. Some (cal_url cal) = calendarUrl args) (calendars st) = Some cal
   \<Longrightarrow> newDate (parseDate rt) (startDate args) = None
   \<Longrightarrow> list_events rt srv args st
       = (Inl (Error (js ''Invalid start date: '' @ interp (startDate args))), st)"
  by (simp add: list_events_def)

lemma list_events_end_invalid:
  "find (\<lambda>cal. Some (cal_url cal) = calendarUrl args) (calendars st) = Some cal
   \<Longrightarrow> newDate (parseDate rt) (startDate args) = Some s
   \<Longrightarrow> newDate (parseDate rt) (endDate args) = None
   \<Longrightarrow> list_events rt srv args st
       = (Inl (Error (js ''Invalid end date: '' @ interp (endDate args))), st)"
  by (simp add: list_events_def)

lemma list_events_fetch_throws:
  "find (\<lambda>cal. Some (cal_url cal) = calendarUrl args) (calendars st) = Some cal
   \<Longrightarrow> newDate (parseDate rt) (startDate args) = Some s
   \<Longrightarrow> newDate (parseDate rt) (endDate args) = Some e
   \<Longrightarrow> fetchCalendarObjects srv (log st) cal (Some (startDate args, endDate args)) = Inl x
   \<Longrightarrow> list_events rt srv args st
       = (Inl x, issue (FetchCalendarObjects cal (Some (startDate args, endDate args))) st)"
  by (simp add: list_events_def Let_def)

lemma create_event_start_invalid:
  "find (\<lambda>cal. Some (cal_url cal) = calendarUrl args) (calendars st) = Some cal
   \<Longrightarrow> newDate (parseDate rt) (startDate args) = None
   \<Longrightarrow> create_event rt srv args st
       = (Inl (Error (js ''Invalid start date: '' @ interp (startDate args))), st)"
  by (simp add: create_event_def)

lemma create_event_end_invalid:
  "find (\<lambda>cal. Some (cal_url cal) = calendarUrl args) (calendars st) = Some cal
   \<Longrightarrow> newDate (parseDate rt) (startDate args) = Some s
   \<Longrightarrow> newDate (parseDate rt) (endDate args) = None
   \<Longrightarrow> create_event rt srv args st
       = (Inl (Error (js ''Invalid end date: '' @ interp (endDate args))), st)"
  by (simp add: create_event_def)

lemma create_event_throws:
  "find (\<lambda>cal. Some (cal_url cal) = calendarUrl args) (calendars st) = Some cal
   \<Longrightarrow> newDate (parseDate rt) (startDate args) = Some s
   \<Longrightarrow> newDate (parseDate rt) (endDate args) = Some e \<Longrightarrow> s < e
   \<Longrightarrow> \<forall>h c f i. createCalendarObject srv h c f i = Inl x
   \<Longrightarrow> fst (create_event rt srv args st) = Inl x"
  by (simp add: create_event_def Let_def)

lemma delete_event_throws:
  "deleteCalendarObject srv (log st) (eventUrl args) (etag args) = Inl x
   \<Longrightarrow> delete_event srv args st
       = (Inl x, issue (DeleteCalendarObject (eventUrl args) (etag args)) st)"
  by (simp add: delete_event_def Let_def)

lemma delete_event_done:
  "deleteCalendarObject srv (log st) (eventUrl args) (etag args) = Inr u
   \<Longrightarrow> delete_event srv args st
       = (Inr (js ''Event deleted successfully: '' @ interp (eventUrl args)),
          issue (DeleteCalendarObject (eventUrl args) (etag args)) st)"
  by (simp add: delete_event_def Let_def)

lemma update_event_patch_throws:
  assumes "k < length (calendars st)"
    and "\<forall>j<k. misses srv (eventUrl args) st (calendars st) j"
    and "fetched srv st (calendars st) k = Inr events"
    and "matching (eventUrl args) events = Some e"
    and "update_event_patch (parseDate rt) args (obj_data e) = Inl x"
  shows "update_event rt srv args st
     = (Inl x, st\<lparr>log := log st @ map fetch_request (take (Suc k) (calendars st))\<rparr>)"
  using update_event_found[OF assms(1-4), of rt] assms(5) by (simp add: Let_def)

lemma update_event_request_throws:
  assumes "k < length (calendars st)"
    and "\<forall>j<k. misses srv (eventUrl args) st (calendars st) j"
    and "fetched srv st (calendars st) k = Inr events"
    and "matching (eventUrl args) events = Some e"
    and "update_event_patch (parseDate rt) args (obj_data e) = Inr ical"
    and "updateCalendarObject srv (log st @ map fetch_request (take (Suc k) (calendars st)))
           (eventUrl args) ical (obj_etag e) = Inl x"
  shows "update_event rt srv args st
     = (Inl x, st\<lparr>log := log st @ map fetch_request (take (Suc k) (calendars st))
                              @ [UpdateCalendarObject (eventUrl args) ical (obj_etag e)]\<rparr>)"
  using update_event_found[OF assms(1-4), of rt] assms(5,6) by (simp add: Let_def issue_def)

lemma update_event_start_invalid:
  "truthy (startDate args) \<Longrightarrow> newDate parse (startDate args) = None
   \<Longrightarrow> update_event_patch parse args data
       = Inl (Error (js ''Invalid start date: '' @ interp (startDate args)))"
  by (simp add: update_event_patch_def patch_start_def Let_def)

lemma update_event_end_invalid:
  "\<not> (truthy (startDate args) \<and> newDate parse (startDate args) = None)
   \<Longrightarrow> truthy (endDate args) \<Longrightarrow> newDate parse (endDate args) = None
   \<Longrightarrow> update_event_patch parse args data
       = Inl (Error (js ''Invalid end date: '' @ interp (endDate args)))"
  by (auto simp: update_event_patch_def patch_start_def patch_end_def Let_def
        split: option.splits)

text \<open>
  Claim C7: for every operation name and argument bag the handler lets no exception out:
  whatever is thrown while the call is handled, by the initialization, the validation, the
  locator, the patch block or the CalDAV capability, becomes a result with a readable
  message and the error flag, and an unknown name gives such a result. The handler is a
  total function into results; its flag is set exactly when the \<open>try\<close> block threw, the
  result is then the error result of what was thrown, and the state is the one the block
  left. Source by source: a rejected handshake and a failed calendar listing; an unknown
  name; a known operation called without arguments; in \<open>list_events\<close> and
  \<open>create_event\<close> an unreadable start or end date, and a fetch or a create request that
  throws; in \<open>update_event\<close> a fetch of the locator that throws, the event not found, an
  error of the patch block, and an update request that throws; in \<open>delete_event\<close> a
  delete request that throws. Each gives the error result of exactly that failure, in the
  state reached when it occurred; a delete request that is accepted gives the confirmation
  without the flag.
\<close>

theorem handler_catches_every_failure:
  "isError (fst (handler cfg rt srv name args st)) = isl (fst (try_block cfg rt srv name args st))
   \<and> snd (handler cfg rt srv name args st) = snd (try_block cfg rt srv name args st)
   \<and> (\<forall>e. fst (try_block cfg rt srv name args st) = Inl e
        \<longrightarrow> fst (handler cfg rt srv name args st) = error_result e)
   \<and> (name \<notin> {js ''list_calendars'', js ''list_events'', js ''create_event'', js ''update_event'',
                js ''delete_event''}
        \<longrightarrow> isError (fst (handler cfg rt srv name args st)))
   \<and> (name \<notin> {js ''list_calendars'', js ''list_events'', js ''create_event'', js ''update_event'',
                js ''delete_event''}
        \<and> initializeClient cfg srv st = (Inr (), st1)
        \<longrightarrow> handler cfg rt srv name args st
            = (\<lparr>content_text = js ''Error: Unknown tool: '' @ name, isError = True\<rparr>, st1))
   \<and> (davClient st = None
        \<and> createDAVClient srv (log st) (username cfg) (appPassword cfg) = Inl x
        \<longrightarrow> handler cfg rt srv name args st
            = (error_result x,
               st\<lparr>log := log st @ [CreateDAVClient (username cfg) (appPassword cfg)]\<rparr>))
   \<and> (davClient st = None
        \<and> createDAVClient srv (log st) (username cfg) (appPassword cfg) = Inr c
        \<and> fetchCalendars srv (log st @ [CreateDAVClient (username cfg) (appPassword cfg)]) = Inl x
        \<longrightarrow> handler cfg rt srv name args st
            = (error_result x,
               st\<lparr>davClient := Some c,
                   log := log st @ [CreateDAVClient (username cfg) (appPassword cfg),
                                    FetchCalendars]\<rparr>))
   \<and> (initializeClient cfg srv st = (Inr (), st1)
        \<and> name \<in> {js ''list_events'', js ''create_event'', js ''update_event'', js ''delete_event''}
        \<longrightarrow> isError (fst (handler cfg rt srv name None st))
            \<and> snd (handler cfg rt srv name None st) = st1)
   \<and> (initializeClient cfg srv st = (Inr (), st1)
        \<and> find (\<lambda>cal. Some (cal_url cal) = calendarUrl a) (calendars st1) = Some cal
        \<and> newDate (parseDate rt) (startDate a) = None
        \<longrightarrow> handler cfg rt srv (js ''list_events'') (Some a) st
              = (error_result (Error (js ''Invalid start date: '' @ interp (startDate a))), st1)
            \<and> handler cfg rt srv (js ''create_event'') (Some a) st
              = (error_result (Error (js ''Invalid start date: '' @ interp (startDate a))), st1))
   \<and> (initializeClient cfg srv st = (Inr (), st1)
        \<and> find (\<lambda>cal. Some (cal_url cal) = calendarUrl a) (calendars st1) = Some cal
        \<and> newDate (parseDate rt) (startDate a) = Some s
        \<and> newDate (parseDate rt) (endDate a) = None
        \<longrightarrow> handler cfg rt srv (js ''list_events'') (Some a) st
              = (error_result (Error (js ''Invalid end date: '' @ interp (endDate a))), st1)
            \<and> handler cfg rt srv (js ''create_event'') (Some a) st
              = (error_result (Error (js ''Invalid end date: '' @ interp (endDate a))), st1))
   \<and> (initializeClient cfg srv st = (Inr (), st1)
        \<and> find (\<lambda>cal. Some (cal_url cal) = calendarUrl a) (calendars st1) = Some cal
        \<and> newDate (parseDate rt) (startDate a) = Some s
        \<and> newDate (parseDate rt) (endDate a) = Some e
        \<and> fetchCalendarObjects srv (log st1) cal (Some (startDate a, endDate a)) = Inl x
        \<longrightarrow> handler cfg rt srv (js ''list_events'') (Some a) st
            = (error_result x,
               issue (FetchCalendarObjects cal (Some (startDate a, endDate a))) st1))
   \<and> (initializeClient cfg srv st = (Inr (), st1)
        \<and> find (\<lambda>cal. Some (cal_url cal) = calendarUrl a) (calendars st1) = Some cal
        \<and> newDate (parseDate rt) (startDate a) = Some s
        \<and> newDate (parseDate rt) (endDate a) = Some e \<and> s < e
        \<and> (\<forall>h c f i. createCalendarObject srv h c f i = Inl x)
        \<longrightarrow> fst (handler cfg rt srv (js ''create_event'') (Some a) st) = error_result x)
   \<and> (initializeClient cfg srv st = (Inr (), st1)
        \<and> k < length (calendars st1)
        \<and> (\<forall>j<k. misses srv (eventUrl a) st1 (calendars st1) j)
        \<and> fetched srv st1 (calendars st1) k = Inl x
        \<longrightarrow> handler cfg rt srv (js ''update_event'') (Some a) st
            = (error_result x,
               st1\<lparr>log := log st1 @ map fetch_request (take (Suc k) (calendars st1))\<rparr>))
   \<and> (initializeClient cfg srv st = (Inr (), st1)
        \<and> (\<forall>j<length (calendars st1). misses srv (eventUrl a) st1 (calendars st1) j)
        \<longrightarrow> handler cfg rt srv (js ''update_event'') (Some a) st
            = (error_result (Error (js ''Event not found: '' @ interp (eventUrl a))),
               st1\<lparr>log := log st1 @ map fetch_request (calendars st1)\<rparr>))
   \<and> (initializeClient cfg srv st = (Inr (), st1)
        \<and> k < length (calendars st1)
        \<and> (\<forall>j<k. misses srv (eventUrl a) st1 (calendars st1) j)
        \<and> fetched srv st1 (calendars st1) k = Inr events
        \<and> matching (eventUrl a) events = Some ev
        \<and> update_event_patch (parseDate rt) a (obj_data ev) = Inl x
        \<longrightarrow> handler cfg rt srv (js ''update_event'') (Some a) st
            = (error_result x,
               st1\<lparr>log := log st1 @ map fetch_request (take (Suc k) (calendars st1))\<rparr>))
   \<and> (initializeClient cfg srv st = (Inr (), st1)
        \<and> k < length (calendars st1)
        \<and> (\<forall>j<k. misses srv (eventUrl a) st1 (calendars st1) j)
        \<and> fetched srv st1 (calendars st1) k = Inr events
        \<and> matching (eventUrl a) events = Some ev
        \<and> update_event_patch (parseDate rt) a (obj_data ev) = Inr ical
        \<and> updateCalendarObject srv (log st1 @ map fetch_request (take (Suc k) (calendars st1)))
             (eventUrl a) ical (obj_etag ev) = Inl x
        \<longrightarrow> handler cfg rt srv (js ''update_event'') (Some a) st
            = (error_result x,
               st1\<lparr>log := log st1 @ map fetch_request (take (Suc k) (calendars st1))
                                 @ [UpdateCalendarObject (eventUrl a) ical (obj_etag ev)]\<rparr>))
   \<and> (initializeClient cfg srv st = (Inr (), st1)
        \<and> deleteCalendarObject srv (log st1) (eventUrl a) (etag a) = Inl x
        \<longrightarrow> handler cfg rt srv (js ''delete_event'') (Some a) st
            = (error_result x, issue (DeleteCalendarObject (eventUrl a) (etag a)) st1))
   \<and> (initializeClient cfg srv st = (Inr (), st1)
        \<and> deleteCalendarObject srv (log st1) (eventUrl a) (etag a) = Inr u
        \<longrightarrow> handler cfg rt srv (js ''delete_event'') (Some a) st
            = (\<lparr>content_text = js ''Event deleted successfully: '' @ interp (eventUrl a),
                isError = False\<rparr>,
               issue (DeleteCalendarObject (eventUrl a) (etag a)) st1))"
proof -
  let ?known = "{js ''list_calendars'', js ''list_events'', js ''create_event'', js ''update_event'',
                js ''delete_event''}"
  have c1: "isError (fst (handler cfg rt srv name args st))
      = isl (fst (try_block cfg rt srv name args st))"
    by (auto simp: handler_of_try_block split: sum.splits)
  have c2: "snd (handler cfg rt srv name args st) = snd (try_block cfg rt srv name args st)"
    by (simp add: handler_of_try_block)
  have c3: "\<forall>e. fst (try_block cfg rt srv name args st) = Inl e
        \<longrightarrow> fst (handler cfg rt srv name args st) = error_result e"
    by (simp add: handler_of_try_block error_result_def errorMessage_def split: exn.splits)
  have c4: "name \<notin> ?known \<longrightarrow> isError (fst (handler cfg rt srv name args st))"
  proof
    assume unk: "name \<notin> ?known"
    have "isl (fst (try_block cfg rt srv name args st))"
      by (simp add: try_block_def tool_switch_unknown[OF unk] split: prod.splits sum.splits)
    with c1 show "isError (fst (handler cfg rt srv name args st))" by simp
  qed
  have c5: "name \<notin> ?known \<and> initializeClient cfg srv st = (Inr (), st1)
        \<longrightarrow> handler cfg rt srv name args st
            = (\<lparr>content_text = js ''Error: Unknown tool: '' @ name, isError = True\<rparr>, st1)"
  proof
    assume "name \<notin> ?known \<and> initializeClient cfg srv st = (Inr (), st1)"
    then have unk: "name \<notin> ?known" and init: "initializeClient cfg srv st = (Inr (), st1)"
      by simp_all
    show "handler cfg rt srv name args st
            = (\<lparr>content_text = js ''Error: Unknown tool: '' @ name, isError = True\<rparr>, st1)"
      by (simp add: handler_after_init[OF init] tool_switch_unknown[OF unk] error_result_def js_def)
  qed
  have c6: "davClient st = None
        \<and> createDAVClient srv (log st) (username cfg) (appPassword cfg) = Inl x
        \<longrightarrow> handler cfg rt srv name args st
            = (error_result x,
               st\<lparr>log := log st @ [CreateDAVClient (username cfg) (appPassword cfg)]\<rparr>)"
    using initializeClient_handshake_throws handler_init_throws by blast
  have c7: "davClient st = None
        \<and> createDAVClient srv (log st) (username cfg) (appPassword cfg) = Inr c
        \<and> fetchCalendars srv (log st @ [CreateDAVClient (username cfg) (appPassword cfg)]) = Inl x
        \<longrightarrow> handler cfg rt srv name args st
            = (error_result x,
               st\<lparr>davClient := Some c,
                   log := log st @ [CreateDAVClient (username cfg) (appPassword cfg),
                                    FetchCalendars]\<rparr>)"
    using initializeClient_listing_throws handler_init_throws by blast
  have c8: "initializeClient cfg srv st = (Inr (), st1)
        \<and> name \<in> {js ''list_events'', js ''create_event'', js ''update_event'', js ''delete_event''}
        \<longrightarrow> isError (fst (handler cfg rt srv name None st))
            \<and> snd (handler cfg rt srv name None st) = st1"
  proof
    assume "initializeClient cfg srv st = (Inr (), st1)
        \<and> name \<in> {js ''list_events'', js ''create_event'', js ''update_event'', js ''delete_event''}"
    then have init: "initializeClient cfg srv st = (Inr (), st1)"
      and nm: "name \<in> {js ''list_events'', js ''create_event'', js ''update_event'', js ''delete_event''}"
      by simp_all
    from tool_switch_no_arguments[OF nm, of rt srv st1]
    show "isError (fst (handler cfg rt srv name None st))
            \<and> snd (handler cfg rt srv name None st) = st1"
      by (auto simp: handler_after_init[OF init] error_result_def split: prod.splits sum.splits)
  qed
  have c9: "initializeClient cfg srv st = (Inr (), st1)
        \<and> find (\<lambda>cal. Some (cal_url cal) = calendarUrl a) (calendars st1) = Some cal
        \<and> newDate (parseDate rt) (startDate a) = None
        \<longrightarrow> handler cfg rt srv (js ''list_events'') (Some a) st
              = (error_result (Error (js ''Invalid start date: '' @ interp (startDate a))), st1)
            \<and> handler cfg rt srv (js ''create_event'') (Some a) st
              = (error_result (Error (js ''Invalid start date: '' @ interp (startDate a))), st1)"
    by (simp add: handler_after_init tool_switch_known list_events_start_invalid
          create_event_start_invalid)
  have c10: "initializeClient cfg srv st = (Inr (), st1)
        \<and> find (\<lambda>cal. Some (cal_url cal) = calendarUrl a) (calendars st1) = Some cal
        \<and> newDate (parseDate rt) (startDate a) = Some s
        \<and> newDate (parseDate rt) (endDate a) = None
        \<longrightarrow> handler cfg rt srv (js ''list_events'') (Some a) st
              = (error_result (Error (js ''Invalid end date: '' @ interp (endDate a))), st1)
            \<and> handler cfg rt srv (js ''create_event'') (Some a) st
              = (error_result (Error (js ''Invalid end date: '' @ interp (endDate a))), st1)"
    by (simp add: handler_after_init tool_switch_known list_events_end_invalid
          create_event_end_invalid)
  have c11: "initializeClient cfg srv st = (Inr (), st1)
        \<and> find (\<lambda>cal. Some (cal_url cal) = calendarUrl a) (calendars st1) = Some cal
        \<and> newDate (parseDate rt) (startDate a) = Some s
        \<and> newDate (parseDate rt) (endDate a) = Some e
        \<and> fetchCalendarObjects srv (log st1) cal (Some (startDate a, endDate a)) = Inl x
        \<longrightarrow> handler cfg rt srv (js ''list_events'') (Some a) st
            = (error_result x,
               issue (FetchCalendarObjects cal (Some (startDate a, endDate a))) st1)"
    by (simp add: handler_after_init tool_switch_known list_events_fetch_throws)
  have c12: "initializeClient cfg srv st = (Inr (), st1)
        \<and> find (\<lambda>cal. Some (cal_url cal) = calendarUrl a) (calendars st1) = Some cal
        \<and> newDate (parseDate rt) (startDate a) = Some s
        \<and> newDate (parseDate rt) (endDate a) = Some e \<and> s < e
        \<and> (\<forall>h c f i. createCalendarObject srv h c f i = Inl x)
        \<longrightarrow> fst (handler cfg rt srv (js ''create_event'') (Some a) st) = error_result x"
  proof
    assume h: "initializeClient cfg srv st = (Inr (), st1)
        \<and> find (\<lambda>cal. Some (cal_url cal) = calendarUrl a) (calendars st1) = Some cal
        \<and> newDate (parseDate rt) (startDate a) = Some s
        \<and> newDate (parseDate rt) (endDate a) = Some e \<and> s < e
        \<and> (\<forall>h c f i. createCalendarObject srv h c f i = Inl x)"
    then have init: "initializeClient cfg srv st = (Inr (), st1)" by simp
    from h have "fst (create_event rt srv a st1) = Inl x"
      using create_event_throws by blast
    then show "fst (handler cfg rt srv (js ''create_event'') (Some a) st) = error_result x"
      by (auto simp: handler_after_init[OF init] tool_switch_known split: prod.splits)
  qed
  have c13: "initializeClient cfg srv st = (Inr (), st1)
        \<and> k < length (calendars st1)
        \<and> (\<forall>j<k. misses srv (eventUrl a) st1 (calendars st1) j)
        \<and> fetched srv st1 (calendars st1) k = Inl x
        \<longrightarrow> handler cfg rt srv (js ''update_event'') (Some a) st
            = (error_result x,
               st1\<lparr>log := log st1 @ map fetch_request (take (Suc k) (calendars st1))\<rparr>)"
  proof
    assume h: "initializeClient cfg srv st = (Inr (), st1)
        \<and> k < length (calendars st1)
        \<and> (\<forall>j<k. misses srv (eventUrl a) st1 (calendars st1) j)
        \<and> fetched srv st1 (calendars st1) k = Inl x"
    then have init: "initializeClient cfg srv st = (Inr (), st1)"
      and 1: "k < length (calendars st1)"
      and 2: "\<forall>j<k. misses srv (eventUrl a) st1 (calendars st1) j"
      and 3: "fetched srv st1 (calendars st1) k = Inl x" by simp_all
    show "handler cfg rt srv (js ''update_event'') (Some a) st
            = (error_result x,
               st1\<lparr>log := log st1 @ map fetch_request (take (Suc k) (calendars st1))\<rparr>)"
      by (simp add: handler_after_init[OF init] tool_switch_known
            update_event_fetch_throws[OF 1 2 3])
  qed
  have c14: "initializeClient cfg srv st = (Inr (), st1)
        \<and> (\<forall>j<length (calendars st1). misses srv (eventUrl a) st1 (calendars st1) j)
        \<longrightarrow> handler cfg rt srv (js ''update_event'') (Some a) st
            = (error_result (Error (js ''Event not found: '' @ interp (eventUrl a))),
               st1\<lparr>log := log st1 @ map fetch_request (calendars st1)\<rparr>)"
  proof
    assume h: "initializeClient cfg srv st = (Inr (), st1)
        \<and> (\<forall>j<length (calendars st1). misses srv (eventUrl a) st1 (calendars st1) j)"
    then have init: "initializeClient cfg srv st = (Inr (), st1)" by simp
    from h have "locate srv (eventUrl a) (calendars st1) st1
      = (Inr None, st1\<lparr>log := log st1 @ map fetch_request (calendars st1)\<rparr>)"
      using locate_none_state by blast
    then have "update_event rt srv a st1
        = (Inl (Error (js ''Event not found: '' @ interp (eventUrl a))),
           st1\<lparr>log := log st1 @ map fetch_request (calendars st1)\<rparr>)"
      by (simp add: update_event_def)
    then show "handler cfg rt srv (js ''update_event'') (Some a) st
            = (error_result (Error (js ''Event not found: '' @ interp (eventUrl a))),
               st1\<lparr>log := log st1 @ map fetch_request (calendars st1)\<rparr>)"
      by (simp add: handler_after_init[OF init] tool_switch_known)
  qed
  have c15: "initializeClient cfg srv st = (Inr (), st1)
        \<and> k < length (calendars st1)
        \<and> (\<forall>j<k. misses srv (eventUrl a) st1 (calendars st1) j)
        \<and> fetched srv st1 (calendars st1) k = Inr events
        \<and> matching (eventUrl a) events = Some ev
        \<and> update_event_patch (parseDate rt) a (obj_data ev) = Inl x
        \<longrightarrow> handler cfg rt srv (js ''update_event'') (Some a) st
            = (error_result x,
               st1\<lparr>log := log st1 @ map fetch_request (take (Suc k) (calendars st1))\<rparr>)"
  proof
    assume h: "initializeClient cfg srv st = (Inr (), st1)
        \<and> k < length (calendars st1)
        \<and> (\<forall>j<k. misses srv (eventUrl a) st1 (calendars st1) j)
        \<and> fetched srv st1 (calendars st1) k = Inr events
        \<and> matching (eventUrl a) events = Some ev
        \<and> update_event_patch (parseDate rt) a (obj_data ev) = Inl x"
    then have init: "initializeClient cfg srv st = (Inr (), st1)"
      and 1: "k < length (calendars st1)"
      and 2: "\<forall>j<k. misses srv (eventUrl a) st1 (calendars st1) j"
      and 3: "fetched srv st1 (calendars st1) k = Inr events"
      and 4: "matching (eventUrl a) events = Some ev"
      and 5: "update_event_patch (parseDate rt) a (obj_data ev) = Inl x" by simp_all
    show "handler cfg rt srv (js ''update_event'') (Some a) st
            = (error_result x,
               st1\<lparr>log := log st1 @ map fetch_request (take (Suc k) (calendars st1))\<rparr>)"
      by (simp add: handler_after_init[OF init] tool_switch_known
            update_event_patch_throws[OF 1 2 3 4 5])
  qed
  have c16: "initializeClient cfg srv st = (Inr (), st1)
        \<and> k < length (calendars st1)
        \<and> (\<forall>j<k. misses srv (eventUrl a) st1 (calendars st1) j)
        \<and> fetched srv st1 (calendars st1) k = Inr events
        \<and> matching (eventUrl a) events = Some ev
        \<and> update_event_patch (parseDate rt) a (obj_data ev) = Inr ical
        \<and> updateCalendarObject srv (log st1 @ map fetch_request (take (Suc k) (calendars st1)))
             (eventUrl a) ical (obj_etag ev) = Inl x
        \<longrightarrow> handler cfg rt srv (js ''update_event'') (Some a) st
            = (error_result x,
               st1\<lparr>log := log st1 @ map fetch_request (take (Suc k) (calendars st1))
                                 @ [UpdateCalendarObject (eventUrl a) ical (obj_etag ev)]\<rparr>)"
  proof
    assume h: "initializeClient cfg srv st = (Inr (), st1)
        \<and> k < length (calendars st1)
        \<and> (\<forall>j<k. misses srv (eventUrl a) st1 (calendars st1) j)
        \<and> fetched srv st1 (calendars st1) k = Inr events
        \<and> matching (eventUrl a) events = Some ev
        \<and> update_event_patch (parseDate rt) a (obj_data ev) = Inr ical
        \<and> updateCalendarObject srv (log st1 @ map fetch_request (take (Suc k) (calendars st1)))
             (eventUrl a) ical (obj_etag ev) = Inl x"
    then have init: "initializeClient cfg srv st = (Inr (), st1)"
      and 1: "k < length (calendars st1)"
      and 2: "\<forall>j<k. misses srv (eventUrl a) st1 (calendars st1) j"
      and 3: "fetched srv st1 (calendars st1) k = Inr events"
      and 4: "matching (eventUrl a) events = Some ev"
      and 5: "update_event_patch (parseDate rt) a (obj_data ev) = Inr ical"
      and 6: "updateCalendarObject srv (log st1 @ map fetch_request (take (Suc k) (calendars st1)))
             (eventUrl a) ical (obj_etag ev) = Inl x" by simp_all
    show "handler cfg rt srv (js ''update_event'') (Some a) st
            = (error_result x,
               st1\<lparr>log := log st1 @ map fetch_request (take (Suc k) (calendars st1))
                                 @ [UpdateCalendarObject (eventUrl a) ical (obj_etag ev)]\<rparr>)"
      by (simp add: handler_after_init[OF init] tool_switch_known
            update_event_request_throws[OF 1 2 3 4 5 6])
  qed
  have c17: "initializeClient cfg srv st = (Inr (), st1)
        \<and> deleteCalendarObject srv (log st1) (eventUrl a) (etag a) = Inl x
        \<longrightarrow> handler cfg rt srv (js ''delete_event'') (Some a) st
            = (error_result x, issue (DeleteCalendarObject (eventUrl a) (etag a)) st1)"
    by (simp add: handler_after_init tool_switch_known delete_event_throws)
  have c18: "initializeClient cfg srv st = (Inr (), st1)
        \<and> deleteCalendarObject srv (log st1) (eventUrl a) (etag a) = Inr u
        \<longrightarrow> handler cfg rt srv (js ''delete_event'') (Some a) st
            = (\<lparr>content_text = js ''Event deleted successfully: '' @ interp (eventUrl a),
                isError = False\<rparr>,
               issue (DeleteCalendarObject (eventUrl a) (etag a)) st1)"
    by (simp add: handler_after_init tool_switch_known delete_event_done)
  from c1 c2 c3 c4 c5 c6 c7 c8 c9 c10 c11 c12 c13 c14 c15 c16 c17 c18 show ?thesis
    by (intro conjI)
qed


text \<open>
  In the example account: an unknown name in a fresh session; a handshake rejected with
  \<open>Invalid credentials\<close>; a delete request at which the capability throws the string
  \<open>gone\<close>; an update whose locator meets a fetch of B that throws \<open>503\<close>; an
  \<open>update_event\<close> without arguments; a listing with the start date \<open>soon\<close>; an update
  with the end date \<open>later\<close>; and a delete request that is accepted.
\<close>

theorem handler_catches_every_failure_witness:
  "handler example_config example_runtime example_dav (js ''frobnicate'') None initial_state
     = (\<lparr>content_text = js ''Error: Unknown tool: frobnicate'', isError = True\<rparr>,
        connected_state\<lparr>log := [CreateDAVClient (js ''user@fastmail.com'') (js ''0123456789abcdef''),
                                  FetchCalendars]\<rparr>)
   \<and> handler example_config example_runtime
        (example_dav\<lparr>createDAVClient := (\<lambda>h u p. Inl (Error (js ''Invalid credentials'')))\<rparr>)
        (js ''list_calendars'') None initial_state
     = (\<lparr>content_text = js ''Error: Invalid credentials'', isError = True\<rparr>,
        initial_state\<lparr>log := [CreateDAVClient (js ''user@fastmail.com'')
                                 (js ''0123456789abcdef'')]\<rparr>)
   \<and> handler example_config example_runtime
        (example_dav\<lparr>deleteCalendarObject := (\<lambda>h u e. Inl (Thrown (js ''gone'')))\<rparr>)
        (js ''delete_event'')
        (Some (no_args\<lparr>eventUrl := Some (js ''/cal/C/1.ics''), etag := Some (js ''v1'')\<rparr>))
        connected_state
     = (\<lparr>content_text = js ''Error: gone'', isError = True\<rparr>,
        connected_state\<lparr>log := [DeleteCalendarObject (Some (js ''/cal/C/1.ics''))
                                   (Some (js ''v1''))]\<rparr>)
   \<and> handler example_config example_runtime
        (example_dav\<lparr>fetchCalendarObjects := (\<lambda>h cal range.
           if cal = cal_named ''B'' then Inl (Error (js ''503'')) else Inr [])\<rparr>)
        (js ''update_event'') (Some (no_args\<lparr>eventUrl := Some (js ''/cal/C/1.ics'')\<rparr>))
        connected_state
     = (\<lparr>content_text = js ''Error: 503'', isError = True\<rparr>,
        connected_state\<lparr>log := [fetch_request (cal_named ''A''), fetch_request (cal_named ''B'')]\<rparr>)
   \<and> isError (fst (handler example_config example_runtime example_dav (js ''update_event'') None
        connected_state))
   \<and> handler example_config example_runtime example_dav (js ''list_events'')
        (Some (no_args\<lparr>calendarUrl := Some (js ''/cal/A''), startDate := Some (js ''soon'')\<rparr>))
        connected_state
     = (\<lparr>content_text = js ''Error: Invalid start date: soon'', isError = True\<rparr>,
        connected_state)
   \<and> handler example_config example_runtime example_dav (js ''update_event'')
        (Some (no_args\<lparr>eventUrl := Some (js ''/cal/C/1.ics''), endDate := Some (js ''later'')\<rparr>))
        connected_state
     = (\<lparr>content_text = js ''Error: Invalid end date: later'', isError = True\<rparr>,
        connected_state\<lparr>log := [fetch_request (cal_named ''A''), fetch_request (cal_named ''B''),
                                  fetch_request (cal_named ''C'')]\<rparr>)
   \<and> handler example_config example_runtime example_dav (js ''delete_event'')
        (Some (no_args\<lparr>eventUrl := Some (js ''/cal/C/1.ics''), etag := Some (js ''v1'')\<rparr>))
        connected_state
     = (\<lparr>content_text = js ''Event deleted successfully: /cal/C/1.ics'', isError = False\<rparr>,
        connected_state\<lparr>log := [DeleteCalendarObject (Some (js ''/cal/C/1.ics''))
                                   (Some (js ''v1''))]\<rparr>)"
proof -
  let ?st1 = "connected_state\<lparr>log := [CreateDAVClient (js ''user@fastmail.com'') (js ''0123456789abcdef''),
                                  FetchCalendars]\<rparr>"
  let ?bad = "example_dav\<lparr>createDAVClient := (\<lambda>h u p. Inl (Error (js ''Invalid credentials'')))\<rparr>"
  let ?nodel = "example_dav\<lparr>deleteCalendarObject := (\<lambda>h u e. Inl (Thrown (js ''gone'')))\<rparr>"
  let ?down = "example_dav\<lparr>fetchCalendarObjects := (\<lambda>h cal range.
           if cal = cal_named ''B'' then Inl (Error (js ''503'')) else Inr [])\<rparr>"
  let ?ad = "no_args\<lparr>eventUrl := Some (js ''/cal/C/1.ics''), etag := Some (js ''v1'')\<rparr>"
  let ?ab = "no_args\<lparr>eventUrl := Some (js ''/cal/C/1.ics'')\<rparr>"
  let ?al = "no_args\<lparr>calendarUrl := Some (js ''/cal/A''), startDate := Some (js ''soon'')\<rparr>"
  let ?ae = "no_args\<lparr>eventUrl := Some (js ''/cal/C/1.ics''), endDate := Some (js ''later'')\<rparr>"
  let ?cals = "calendars connected_state"
  have unk: "js ''frobnicate'' \<notin> {js ''list_calendars'', js ''list_events'', js ''create_event'',
      js ''update_event'', js ''delete_event''}"
    by (simp add: js_def)
  have init: "initializeClient example_config example_dav initial_state = (Inr (), ?st1)"
    by (simp add: initializeClient_def issue_def example_config_def example_dav_def
          initial_state_def connected_state_def)
  have none: "davClient initial_state = None"
    by (simp add: initial_state_def)
  have rej: "createDAVClient ?bad (log initial_state) (username example_config)
      (appPassword example_config) = Inl (Error (js ''Invalid credentials''))"
    by simp
  have conn: "\<And>srv. initializeClient example_config srv connected_state = (Inr (), connected_state)"
    by (rule initializeClient_again) (simp add: connected_state_def)
  have lg: "log connected_state = []"
    by (simp add: connected_state_def)
  have del: "deleteCalendarObject ?nodel (log connected_state) (eventUrl ?ad) (etag ?ad)
      = Inl (Thrown (js ''gone''))"
    by simp
  have del_ok: "deleteCalendarObject example_dav (log connected_state) (eventUrl ?ad) (etag ?ad)
      = Inr ()"
    by (simp add: example_dav_def)
  have len: "(1::nat) < length ?cals" "(2::nat) < length ?cals"
    by (simp_all add: connected_state_def)
  have before_b: "\<forall>j<1. misses ?down (eventUrl ?ab) connected_state ?cals j"
    by (simp add: example_eval no_args_def)
  have at_b: "fetched ?down connected_state ?cals 1 = Inl (Error (js ''503''))"
    by (simp add: example_eval)
  have known: "js ''update_event''
      \<in> {js ''list_events'', js ''create_event'', js ''update_event'', js ''delete_event''}"
    by simp
  have cal: "find (\<lambda>cal. Some (cal_url cal) = calendarUrl ?al) (calendars connected_state)
      = Some (cal_named ''A'')"
    by (simp add: no_args_def connected_state_def cal_named_def js_def)
  have soon: "newDate (parseDate example_runtime) (startDate ?al) = None"
    by (simp add: no_args_def newDate_def example_runtime_def js_def)
  have before_c: "\<forall>j<2. misses example_dav (eventUrl ?ae) connected_state ?cals j"
    by (simp add: all_less_2 example_eval no_args_def)
  have at_c: "fetched example_dav connected_state ?cals 2 = Inr [example_event]"
    by (simp add: example_eval)
  have hit: "matching (eventUrl ?ae) [example_event] = Some example_event"
    by (simp add: example_eval no_args_def)
  have later: "update_event_patch (parseDate example_runtime) ?ae (obj_data example_event)
      = Inl (Error (js ''Invalid end date: later''))"
    by (simp add: patch_eval newDate_def example_runtime_def)
  have two_fetches: "map fetch_request (take (Suc 1) ?cals)
      = [fetch_request (cal_named ''A''), fetch_request (cal_named ''B'')]"
    by (simp add: connected_state_def)
  have three_fetches: "map fetch_request (take (Suc 2) ?cals)
      = [fetch_request (cal_named ''A''), fetch_request (cal_named ''B''),
         fetch_request (cal_named ''C'')]"
    by (simp add: connected_state_def)
  have texts:
    "error_result (Error (js ''Invalid credentials''))
       = \<lparr>content_text = js ''Error: Invalid credentials'', isError = True\<rparr>"
    "error_result (Thrown (js ''gone'')) = \<lparr>content_text = js ''Error: gone'', isError = True\<rparr>"
    "error_result (Error (js ''503'')) = \<lparr>content_text = js ''Error: 503'', isError = True\<rparr>"
    "error_result (Error (js ''Invalid start date: '' @ interp (startDate ?al)))
       = \<lparr>content_text = js ''Error: Invalid start date: soon'', isError = True\<rparr>"
    "error_result (Error (js ''Invalid end date: later''))
       = \<lparr>content_text = js ''Error: Invalid end date: later'', isError = True\<rparr>"
    "js ''Error: Unknown tool: '' @ js ''frobnicate'' = js ''Error: Unknown tool: frobnicate''"
    "js ''Event deleted successfully: '' @ interp (eventUrl ?ad)
       = js ''Event deleted successfully: /cal/C/1.ics''"
    by (simp_all add: error_result_def no_args_def interp_def js_def)
  have dels: "issue (DeleteCalendarObject (eventUrl ?ad) (etag ?ad)) connected_state
      = connected_state\<lparr>log := [DeleteCalendarObject (Some (js ''/cal/C/1.ics''))
                                   (Some (js ''v1''))]\<rparr>"
    by (simp add: issue_def lg no_args_def)
  have hs: "initial_state\<lparr>log := log initial_state
       @ [CreateDAVClient (username example_config) (appPassword example_config)]\<rparr>
      = initial_state\<lparr>log := [CreateDAVClient (js ''user@fastmail.com'')
                                 (js ''0123456789abcdef'')]\<rparr>"
    by (simp add: initial_state_def example_config_def)
  have w1: "handler example_config example_runtime example_dav (js ''frobnicate'') None initial_state
     = (\<lparr>content_text = js ''Error: Unknown tool: '' @ js ''frobnicate'', isError = True\<rparr>, ?st1)"
    by (rule handler_catches_every_failure[where cfg = example_config and rt = example_runtime
      and srv = example_dav and name = "js ''frobnicate''" and args = None
      and st = initial_state and ?st1.0 = ?st1,
          THEN conjunct2, THEN conjunct2, THEN conjunct2, THEN conjunct2, THEN conjunct1,
          THEN mp])
       (intro conjI; fact)
  have w2: "handler example_config example_runtime ?bad (js ''list_calendars'') None initial_state
     = (error_result (Error (js ''Invalid credentials'')),
        initial_state\<lparr>log := log initial_state
          @ [CreateDAVClient (username example_config) (appPassword example_config)]\<rparr>)"
    by (rule handler_catches_every_failure[where cfg = example_config and rt = example_runtime
      and srv = ?bad and name = "js ''list_calendars''" and args = None
      and st = initial_state and x = "Error (js ''Invalid credentials'')",
          THEN conjunct2, THEN conjunct2, THEN conjunct2, THEN conjunct2, THEN conjunct2,
          THEN conjunct1, THEN mp])
       (intro conjI; fact)
  have w3: "handler example_config example_runtime ?nodel (js ''delete_event'') (Some ?ad)
        connected_state
     = (error_result (Thrown (js ''gone'')),
        issue (DeleteCalendarObject (eventUrl ?ad) (etag ?ad)) connected_state)"
    by (rule handler_catches_every_failure[where cfg = example_config and rt = example_runtime
      and srv = ?nodel and st = connected_state and ?st1.0 = connected_state and a = ?ad
      and x = "Thrown (js ''gone'')",
          THEN conjunct2, THEN conjunct2, THEN conjunct2, THEN conjunct2, THEN conjunct2,
          THEN conjunct2, THEN conjunct2, THEN conjunct2, THEN conjunct2, THEN conjunct2,
          THEN conjunct2, THEN conjunct2, THEN conjunct2, THEN conjunct2, THEN conjunct2,
          THEN conjunct2, THEN conjunct1, THEN mp])
       (intro conjI; fact)
  have w4: "handler example_config example_runtime ?down (js ''update_event'') (Some ?ab)
        connected_state
     = (error_result (Error (js ''503'')),
        connected_state\<lparr>log := log connected_state
          @ map fetch_request (take (Suc 1) ?cals)\<rparr>)"
    by (rule handler_catches_every_failure[where cfg = example_config and rt = example_runtime
      and srv = ?down and st = connected_state and ?st1.0 = connected_state and a = ?ab
      and k = 1 and x = "Error (js ''503'')",
          THEN conjunct2, THEN conjunct2, THEN conjunct2, THEN conjunct2, THEN conjunct2,
          THEN conjunct2, THEN conjunct2, THEN conjunct2, THEN conjunct2, THEN conjunct2,
          THEN conjunct2, THEN conjunct2, THEN conjunct1, THEN mp])
       (intro conjI; fact)
  have w5: "isError (fst (handler example_config example_runtime example_dav (js ''update_event'')
        None connected_state))"
    by (rule handler_catches_every_failure[where cfg = example_config and rt = example_runtime
      and srv = example_dav and name = "js ''update_event''" and st = connected_state
      and ?st1.0 = connected_state,
          THEN conjunct2, THEN conjunct2, THEN conjunct2, THEN conjunct2, THEN conjunct2,
          THEN conjunct2, THEN conjunct2, THEN conjunct1, THEN mp, THEN conjunct1])
       (intro conjI; fact)
  have w6: "handler example_config example_runtime example_dav (js ''list_events'') (Some ?al)
        connected_state
     = (error_result (Error (js ''Invalid start date: '' @ interp (startDate ?al))),
        connected_state)"
    by (rule handler_catches_every_failure[where cfg = example_config and rt = example_runtime
      and srv = example_dav and st = connected_state and ?st1.0 = connected_state and a = ?al
      and cal = "cal_named ''A''",
          THEN conjunct2, THEN conjunct2, THEN conjunct2, THEN conjunct2, THEN conjunct2,
          THEN conjunct2, THEN conjunct2, THEN conjunct2, THEN conjunct1, THEN mp,
          THEN conjunct1])
       (intro conjI; fact)
  have w7: "handler example_config example_runtime example_dav (js ''update_event'') (Some ?ae)
        connected_state
     = (error_result (Error (js ''Invalid end date: later'')),
        connected_state\<lparr>log := log connected_state
          @ map fetch_request (take (Suc 2) ?cals)\<rparr>)"
    by (rule handler_catches_every_failure[where cfg = example_config and rt = example_runtime
      and srv = example_dav and st = connected_state and ?st1.0 = connected_state and a = ?ae
      and k = 2 and events = "[example_event]" and ev = example_event
      and x = "Error (js ''Invalid end date: later'')",
          THEN conjunct2, THEN conjunct2, THEN conjunct2, THEN conjunct2, THEN conjunct2,
          THEN conjunct2, THEN conjunct2, THEN conjunct2, THEN conjunct2, THEN conjunct2,
          THEN conjunct2, THEN conjunct2, THEN conjunct2, THEN conjunct2, THEN conjunct1,
          THEN mp])
       (intro conjI; fact)
  have w8: "handler example_config example_runtime example_dav (js ''delete_event'') (Some ?ad)
        connected_state
     = (\<lparr>content_text = js ''Event deleted successfully: '' @ interp (eventUrl ?ad),
         isError = False\<rparr>,
        issue (DeleteCalendarObject (eventUrl ?ad) (etag ?ad)) connected_state)"
    by (rule handler_catches_every_failure[where cfg = example_config and rt = example_runtime
      and srv = example_dav and st = connected_state and ?st1.0 = connected_state and a = ?ad
      and u = "()",
          THEN conjunct2, THEN conjunct2, THEN conjunct2, THEN conjunct2, THEN conjunct2,
          THEN conjunct2, THEN conjunct2, THEN conjunct2, THEN conjunct2, THEN conjunct2,
          THEN conjunct2, THEN conjunct2, THEN conjunct2, THEN conjunct2, THEN conjunct2,
          THEN conjunct2, THEN conjunct2, THEN mp])
       (intro conjI; fact)
  from w1 w2 w3 w4 w5 w6 w7 w8 show ?thesis
    by (simp only: texts dels hs lg two_fetches three_fetches append_Nil)
qed

text \<open>
  Claim C5 says that, for every operation, a date that does not parse (and for
  \<open>create_event\<close> an end not after the start) raises the validation error before any
  network call of the operation, and in particular that \<open>update_event\<close> with a malformed
  \<open>startDate\<close> or \<open>endDate\<close> fails before any calendar fetch. In \<open>update_event\<close> the dates
  are read inside the patch block, which comes after the locator: with the event in
  calendar C, the call with the start date \<open>soon\<close> fails with \<open>Invalid start date\<close> only
  after the fetches of A, B and C. And the patch block reads a date under \<open>if (startDate)\<close>:
  the empty string, which does not parse either, is not validated at all, and the call
  with it issues the update request and succeeds.
\<close>

theorem update_event_validates_after_fetch:
  "newDate (parseDate example_runtime) (Some (js ''soon'')) = None
   \<and> handler example_config example_runtime example_dav (js ''update_event'')
       (Some (no_args\<lparr>eventUrl := Some (js ''/cal/C/1.ics''), startDate := Some (js ''soon'')\<rparr>))
       connected_state
     = (\<lparr>content_text = js ''Error: Invalid start date: soon'', isError = True\<rparr>,
        connected_state\<lparr>log := [FetchCalendarObjects (cal_named ''A'') None,
                                  FetchCalendarObjects (cal_named ''B'') None,
                                  FetchCalendarObjects (cal_named ''C'') None]\<rparr>)
   \<and> newDate (parseDate example_runtime) (Some []) = None
   \<and> handler example_config example_runtime example_dav (js ''update_event'')
       (Some (no_args\<lparr>eventUrl := Some (js ''/cal/C/1.ics''), startDate := Some []\<rparr>))
       connected_state
     = (\<lparr>content_text = js ''Event updated successfully: /cal/C/1.ics'', isError = False\<rparr>,
        connected_state\<lparr>log := [FetchCalendarObjects (cal_named ''A'') None,
                                  FetchCalendarObjects (cal_named ''B'') None,
                                  FetchCalendarObjects (cal_named ''C'') None,
                                  UpdateCalendarObject (Some (js ''/cal/C/1.ics''))
                                    (js ''SUMMARY:old'' @ crlf) (js ''v1'')]\<rparr>)"
  by (simp add: run_eval)

text \<open>
  Claim C5 as amended. Every call begins with the initialization, which on first use
  issues the handshake and the calendar listing. After it, \<open>list_events\<close> and
  \<open>create_event\<close> reject a start or end date that does not parse, and \<open>create_event\<close> an
  end not after the start, with an error result and in the state the initialization left:
  no request on calendar objects is issued. With a known calendar the error is the
  validation error itself: \<open>Invalid start date\<close> with the value given, else
  \<open>Invalid end date\<close> with the value given, else for \<open>create_event\<close>
  \<open>End date must be after start date\<close>. \<open>update_event\<close> reads its dates after its
  locator and before its update request: once the locator has found the event in the
  calendar at position \<open>k\<close>, a non-empty start date that does not parse gives
  \<open>Invalid start date\<close> with the value given, and otherwise a non-empty end date that
  does not parse gives \<open>Invalid end date\<close> with the value given, in the state reached
  after the fetches of the calendars up to \<open>k\<close>; and whatever the locator answers, the
  call then ends in an error result without any write request.
\<close>

theorem validation_precedes_object_requests:
  "(initializeClient cfg srv st = (Inr (), st1)
      \<and> (newDate (parseDate rt) (startDate args) = None
         \<or> newDate (parseDate rt) (endDate args) = None)
    \<longrightarrow> isError (fst (handler cfg rt srv (js ''list_events'') (Some args) st))
        \<and> snd (handler cfg rt srv (js ''list_events'') (Some args) st) = st1)
   \<and> (initializeClient cfg srv st = (Inr (), st1)
      \<and> (newDate (parseDate rt) (startDate args) = None
         \<or> newDate (parseDate rt) (endDate args) = None
         \<or> (\<exists>s e. newDate (parseDate rt) (startDate args) = Some s
                \<and> newDate (parseDate rt) (endDate args) = Some e \<and> e \<le> s))
    \<longrightarrow> isError (fst (handler cfg rt srv (js ''create_event'') (Some args) st))
        \<and> snd (handler cfg rt srv (js ''create_event'') (Some args) st) = st1)
   \<and> (initializeClient cfg srv st = (Inr (), st1)
      \<and> find (\<lambda>cal. Some (cal_url cal) = calendarUrl args) (calendars st1) = Some cal
      \<and> newDate (parseDate rt) (startDate args) = None
    \<longrightarrow> handler cfg rt srv (js ''list_events'') (Some args) st
          = (\<lparr>content_text = js ''Error: Invalid start date: '' @ interp (startDate args),
              isError = True\<rparr>, st1)
        \<and> handler cfg rt srv (js ''create_event'') (Some args) st
          = (\<lparr>content_text = js ''Error: Invalid start date: '' @ interp (startDate args),
              isError = True\<rparr>, st1))
   \<and> (initializeClient cfg srv st = (Inr (), st1)
      \<and> find (\<lambda>cal. Some (cal_url cal) = calendarUrl args) (calendars st1) = Some cal
      \<and> newDate (parseDate rt) (startDate args) = Some s
      \<and> newDate (parseDate rt) (endDate args) = None
    \<longrightarrow> handler cfg rt srv (js ''list_events'') (Some args) st
          = (\<lparr>content_text = js ''Error: Invalid end date: '' @ interp (endDate args),
              isError = True\<rparr>, st1)
        \<and> handler cfg rt srv (js ''create_event'') (Some args) st
          = (\<lparr>content_text = js ''Error: Invalid end date: '' @ interp (endDate args),
              isError = True\<rparr>, st1))
   \<and> (initializeClient cfg srv st = (Inr (), st1)
      \<and> find (\<lambda>cal. Some (cal_url cal) = calendarUrl args) (calendars st1) = Some cal
      \<and> newDate (parseDate rt) (startDate args) = Some s
      \<and> newDate (parseDate rt) (endDate args) = Some e \<and> e \<le> s
    \<longrightarrow> handler cfg rt srv (js ''create_event'') (Some args) st
        = (\<lparr>content_text = js ''Error: End date must be after start date'', isError = True\<rparr>, st1))
   \<and> (initializeClient cfg srv st = (Inr (), st1)
      \<and> k < length (calendars st1)
      \<and> (\<forall>j<k. misses srv (eventUrl args) st1 (calendars st1) j)
      \<and> fetched srv st1 (calendars st1) k = Inr events
      \<and> matching (eventUrl args) events = Some ev
      \<and> truthy (startDate args) \<and> newDate (parseDate rt) (startDate args) = None
    \<longrightarrow> handler cfg rt srv (js ''update_event'') (Some args) st
        = (\<lparr>content_text = js ''Error: Invalid start date: '' @ interp (startDate args),
            isError = True\<rparr>,
           st1\<lparr>log := log st1 @ map fetch_request (take (Suc k) (calendars st1))\<rparr>))
   \<and> (initializeClient cfg srv st = (Inr (), st1)
      \<and> k < length (calendars st1)
      \<and> (\<forall>j<k. misses srv (eventUrl args) st1 (calendars st1) j)
      \<and> fetched srv st1 (calendars st1) k = Inr events
      \<and> matching (eventUrl args) events = Some ev
      \<and> \<not> (truthy (startDate args) \<and> newDate (parseDate rt) (startDate args) = None)
      \<and> truthy (endDate args) \<and> newDate (parseDate rt) (endDate args) = None
    \<longrightarrow> handler cfg rt srv (js ''update_event'') (Some args) st
        = (\<lparr>content_text = js ''Error: Invalid end date: '' @ interp (endDate args),
            isError = True\<rparr>,
           st1\<lparr>log := log st1 @ map fetch_request (take (Suc k) (calendars st1))\<rparr>))
   \<and> ((truthy (startDate args) \<and> newDate (parseDate rt) (startDate args) = None)
       \<or> (truthy (endDate args) \<and> newDate (parseDate rt) (endDate args) = None)
    \<longrightarrow> isError (fst (handler cfg rt srv (js ''update_event'') (Some args) st))
        \<and> filter is_write (log (snd (handler cfg rt srv (js ''update_event'') (Some args) st)))
          = filter is_write (log st))"
proof -
  have msg: "\<And>m. error_result (Error m) = \<lparr>content_text = js ''Error: '' @ m, isError = True\<rparr>"
    by (simp add: error_result_def)
  have app: "\<And>v. js ''Error: '' @ js ''Invalid start date: '' @ v = js ''Error: Invalid start date: '' @ v"
    "\<And>v. js ''Error: '' @ js ''Invalid end date: '' @ v = js ''Error: Invalid end date: '' @ v"
    "js ''Error: '' @ js ''End date must be after start date''
       = js ''Error: End date must be after start date''"
    by (simp_all add: js_def)
  have d1: "initializeClient cfg srv st = (Inr (), st1)
      \<and> (newDate (parseDate rt) (startDate args) = None
         \<or> newDate (parseDate rt) (endDate args) = None)
    \<longrightarrow> isError (fst (handler cfg rt srv (js ''list_events'') (Some args) st))
        \<and> snd (handler cfg rt srv (js ''list_events'') (Some args) st) = st1"
  proof
    assume a: "initializeClient cfg srv st = (Inr (), st1)
      \<and> (newDate (parseDate rt) (startDate args) = None
         \<or> newDate (parseDate rt) (endDate args) = None)"
    then have init: "initializeClient cfg srv st = (Inr (), st1)" by simp
    from a list_events_invalid[of rt args srv st1]
    have "isl (fst (list_events rt srv args st1)) \<and> snd (list_events rt srv args st1) = st1"
      by blast
    then show "isError (fst (handler cfg rt srv (js ''list_events'') (Some args) st))
        \<and> snd (handler cfg rt srv (js ''list_events'') (Some args) st) = st1"
      by (auto simp: handler_list_events[OF init] split: prod.splits sum.splits)
  qed
  have d2: "initializeClient cfg srv st = (Inr (), st1)
      \<and> (newDate (parseDate rt) (startDate args) = None
         \<or> newDate (parseDate rt) (endDate args) = None
         \<or> (\<exists>s e. newDate (parseDate rt) (startDate args) = Some s
                \<and> newDate (parseDate rt) (endDate args) = Some e \<and> e \<le> s))
    \<longrightarrow> isError (fst (handler cfg rt srv (js ''create_event'') (Some args) st))
        \<and> snd (handler cfg rt srv (js ''create_event'') (Some args) st) = st1"
  proof
    assume a: "initializeClient cfg srv st = (Inr (), st1)
      \<and> (newDate (parseDate rt) (startDate args) = None
         \<or> newDate (parseDate rt) (endDate args) = None
         \<or> (\<exists>s e. newDate (parseDate rt) (startDate args) = Some s
                \<and> newDate (parseDate rt) (endDate args) = Some e \<and> e \<le> s))"
    then have init: "initializeClient cfg srv st = (Inr (), st1)" by simp
    from a create_event_invalid[of rt args srv st1]
    have "isl (fst (create_event rt srv args st1)) \<and> snd (create_event rt srv args st1) = st1"
      by blast
    then show "isError (fst (handler cfg rt srv (js ''create_event'') (Some args) st))
        \<and> snd (handler cfg rt srv (js ''create_event'') (Some args) st) = st1"
      by (auto simp: handler_create_event[OF init] split: prod.splits sum.splits)
  qed
  have d3: "initializeClient cfg srv st = (Inr (), st1)
      \<and> find (\<lambda>cal. Some (cal_url cal) = calendarUrl args) (calendars st1) = Some cal
      \<and> newDate (parseDate rt) (startDate args) = None
    \<longrightarrow> handler cfg rt srv (js ''list_events'') (Some args) st
          = (\<lparr>content_text = js ''Error: Invalid start date: '' @ interp (startDate args),
              isError = True\<rparr>, st1)
        \<and> handler cfg rt srv (js ''create_event'') (Some args) st
          = (\<lparr>content_text = js ''Error: Invalid start date: '' @ interp (startDate args),
              isError = True\<rparr>, st1)"
    by (simp add: handler_after_init tool_switch_known list_events_start_invalid
          create_event_start_invalid msg app)
  have d4: "initializeClient cfg srv st = (Inr (), st1)
      \<and> find (\<lambda>cal. Some (cal_url cal) = calendarUrl args) (calendars st1) = Some cal
      \<and> newDate (parseDate rt) (startDate args) = Some s
      \<and> newDate (parseDate rt) (endDate args) = None
    \<longrightarrow> handler cfg rt srv (js ''list_events'') (Some args) st
          = (\<lparr>content_text = js ''Error: Invalid end date: '' @ interp (endDate args),
              isError = True\<rparr>, st1)
        \<and> handler cfg rt srv (js ''create_event'') (Some args) st
          = (\<lparr>content_text = js ''Error: Invalid end date: '' @ interp (endDate args),
              isError = True\<rparr>, st1)"
    by (simp add: handler_after_init tool_switch_known list_events_end_invalid
          create_event_end_invalid msg app)
  have d5: "initializeClient cfg srv st = (Inr (), st1)
      \<and> find (\<lambda>cal. Some (cal_url cal) = calendarUrl args) (calendars st1) = Some cal
      \<and> newDate (parseDate rt) (startDate args) = Some s
      \<and> newDate (parseDate rt) (endDate args) = Some e \<and> e \<le> s
    \<longrightarrow> handler cfg rt srv (js ''create_event'') (Some args) st
        = (\<lparr>content_text = js ''Error: End date must be after start date'', isError = True\<rparr>, st1)"
    by (simp add: handler_after_init tool_switch_known create_event_end_before_start msg app)
  have d6: "initializeClient cfg srv st = (Inr (), st1)
      \<and> k < length (calendars st1)
      \<and> (\<forall>j<k. misses srv (eventUrl args) st1 (calendars st1) j)
      \<and> fetched srv st1 (calendars st1) k = Inr events
      \<and> matching (eventUrl args) events = Some ev
      \<and> truthy (startDate args) \<and> newDate (parseDate rt) (startDate args) = None
    \<longrightarrow> handler cfg rt srv (js ''update_event'') (Some args) st
        = (\<lparr>content_text = js ''Error: Invalid start date: '' @ interp (startDate args),
            isError = True\<rparr>,
           st1\<lparr>log := log st1 @ map fetch_request (take (Suc k) (calendars st1))\<rparr>)"
  proof
    assume h: "initializeClient cfg srv st = (Inr (), st1)
      \<and> k < length (calendars st1)
      \<and> (\<forall>j<k. misses srv (eventUrl args) st1 (calendars st1) j)
      \<and> fetched srv st1 (calendars st1) k = Inr events
      \<and> matching (eventUrl args) events = Some ev
      \<and> truthy (startDate args) \<and> newDate (parseDate rt) (startDate args) = None"
    then have init: "initializeClient cfg srv st = (Inr (), st1)"
      and 1: "k < length (calendars st1)"
      and 2: "\<forall>j<k. misses srv (eventUrl args) st1 (calendars st1) j"
      and 3: "fetched srv st1 (calendars st1) k = Inr events"
      and 4: "matching (eventUrl args) events = Some ev"
      and 5: "truthy (startDate args)"
      and 6: "newDate (parseDate rt) (startDate args) = None" by simp_all
    note p = update_event_start_invalid[OF 5 6, of "obj_data ev"]
    show "handler cfg rt srv (js ''update_event'') (Some args) st
        = (\<lparr>content_text = js ''Error: Invalid start date: '' @ interp (startDate args),
            isError = True\<rparr>,
           st1\<lparr>log := log st1 @ map fetch_request (take (Suc k) (calendars st1))\<rparr>)"
      by (simp add: handler_after_init[OF init] tool_switch_known
            update_event_patch_throws[OF 1 2 3 4 p] msg app)
  qed
  have d7: "initializeClient cfg srv st = (Inr (), st1)
      \<and> k < length (calendars st1)
      \<and> (\<forall>j<k. misses srv (eventUrl args) st1 (calendars st1) j)
      \<and> fetched srv st1 (calendars st1) k = Inr events
      \<and> matching (eventUrl args) events = Some ev
      \<and> \<not> (truthy (startDate args) \<and> newDate (parseDate rt) (startDate args) = None)
      \<and> truthy (endDate args) \<and> newDate (parseDate rt) (endDate args) = None
    \<longrightarrow> handler cfg rt srv (js ''update_event'') (Some args) st
        = (\<lparr>content_text = js ''Error: Invalid end date: '' @ interp (endDate args),
            isError = True\<rparr>,
           st1\<lparr>log := log st1 @ map fetch_request (take (Suc k) (calendars st1))\<rparr>)"
  proof
    assume h: "initializeClient cfg srv st = (Inr (), st1)
      \<and> k < length (calendars st1)
      \<and> (\<forall>j<k. misses srv (eventUrl args) st1 (calendars st1) j)
      \<and> fetched srv st1 (calendars st1) k = Inr events
      \<and> matching (eventUrl args) events = Some ev
      \<and> \<not> (truthy (startDate args) \<and> newDate (parseDate rt) (startDate args) = None)
      \<and> truthy (endDate args) \<and> newDate (parseDate rt) (endDate args) = None"
    then have init: "initializeClient cfg srv st = (Inr (), st1)"
      and 1: "k < length (calendars st1)"
      and 2: "\<forall>j<k. misses srv (eventUrl args) st1 (calendars st1) j"
      and 3: "fetched srv st1 (calendars st1) k = Inr events"
      and 4: "matching (eventUrl args) events = Some ev"
      and 5: "\<not> (truthy (startDate args) \<and> newDate (parseDate rt) (startDate args) = None)"
      and 6: "truthy (endDate args)"
      and 7: "newDate (parseDate rt) (endDate args) = None" by simp_all
    note p = update_event_end_invalid[OF 5 6 7, of "obj_data ev"]
    show "handler cfg rt srv (js ''update_event'') (Some args) st
        = (\<lparr>content_text = js ''Error: Invalid end date: '' @ interp (endDate args),
            isError = True\<rparr>,
           st1\<lparr>log := log st1 @ map fetch_request (take (Suc k) (calendars st1))\<rparr>)"
      by (simp add: handler_after_init[OF init] tool_switch_known
            update_event_patch_throws[OF 1 2 3 4 p] msg app)
  qed
  have d8: "(truthy (startDate args) \<and> newDate (parseDate rt) (startDate args) = None)
       \<or> (truthy (endDate args) \<and> newDate (parseDate rt) (endDate args) = None)
    \<longrightarrow> isError (fst (handler cfg rt srv (js ''update_event'') (Some args) st))
        \<and> filter is_write (log (snd (handler cfg rt srv (js ''update_event'') (Some args) st)))
          = filter is_write (log st)"
  proof
    assume bad: "(truthy (startDate args) \<and> newDate (parseDate rt) (startDate args) = None)
       \<or> (truthy (endDate args) \<and> newDate (parseDate rt) (endDate args) = None)"
    obtain ir st0 where init: "initializeClient cfg srv st = (ir, st0)"
      by (cases "initializeClient cfg srv st") auto
    note w1 = initializeClient_writes[OF init]
    show "isError (fst (handler cfg rt srv (js ''update_event'') (Some args) st))
        \<and> filter is_write (log (snd (handler cfg rt srv (js ''update_event'') (Some args) st)))
          = filter is_write (log st)"
    proof (cases ir)
      case (Inl x)
      with init w1 show ?thesis by (simp add: handler_def try_block_def)
    next
      case (Inr u)
      obtain r st2 where upd: "update_event rt srv args st0 = (r, st2)"
        by (cases "update_event rt srv args st0") auto
      from update_event_invalid_date[OF bad upd] obtain x where
        "r = Inl x" and "filter is_write (log st2) = filter is_write (log st0)"
        by (cases r) auto
      with init Inr upd w1 show ?thesis
        by (simp add: handler_def try_block_def tool_switch_def tool_names_distinct destructure_def)
    qed
  qed
  from d1 d2 d3 d4 d5 d6 d7 d8 show ?thesis
    by (intro conjI)
qed


text \<open>
  In a fresh session: \<open>create_event\<close> in calendar A with the end an hour before the start,
  and \<open>list_events\<close> with the end date \<open>later\<close>; both calls end right after the two
  requests of the initialization. In a connected session with the event in calendar C:
  \<open>update_event\<close> with the start date \<open>soon\<close>, and with a readable start and the end
  date \<open>later\<close>, fail after the fetches of A, B and C; and \<open>update_event\<close> of an event
  that no calendar holds, with the start date \<open>soon\<close>, fails and writes nothing.
\<close>

theorem validation_precedes_object_requests_witness:
  "handler example_config example_runtime example_dav (js ''create_event'')
     (Some (no_args\<lparr>calendarUrl := Some (js ''/cal/A''), summary := Some (js ''Lunch''),
                     startDate := Some (js ''2024-12-15T11:00:00Z''),
                     endDate := Some (js ''2024-12-15T10:00:00Z'')\<rparr>)) initial_state
   = (\<lparr>content_text = js ''Error: End date must be after start date'', isError = True\<rparr>,
      connected_state\<lparr>log := [CreateDAVClient (js ''user@fastmail.com'') (js ''0123456789abcdef''),
                                FetchCalendars]\<rparr>)
   \<and> handler example_config example_runtime example_dav (js ''list_events'')
     (Some (no_args\<lparr>calendarUrl := Some (js ''/cal/A''),
                     startDate := Some (js ''2024-12-15T10:00:00Z''),
                     endDate := Some (js ''later'')\<rparr>)) initial_state
   = (\<lparr>content_text = js ''Error: Invalid end date: later'', isError = True\<rparr>,
      connected_state\<lparr>log := [CreateDAVClient (js ''user@fastmail.com'') (js ''0123456789abcdef''),
                                FetchCalendars]\<rparr>)
   \<and> handler example_config example_runtime example_dav (js ''update_event'')
     (Some (no_args\<lparr>eventUrl := Some (js ''/cal/C/1.ics''), summary := Some (js ''new''),
                     startDate := Some (js ''soon'')\<rparr>)) connected_state
   = (\<lparr>content_text = js ''Error: Invalid start date: soon'', isError = True\<rparr>,
      connected_state\<lparr>log := [fetch_request (cal_named ''A''), fetch_request (cal_named ''B''),
                                fetch_request (cal_named ''C'')]\<rparr>)
   \<and> handler example_config example_runtime example_dav (js ''update_event'')
     (Some (no_args\<lparr>eventUrl := Some (js ''/cal/C/1.ics''),
                     startDate := Some (js ''2024-12-15T10:00:00Z''),
                     endDate := Some (js ''later'')\<rparr>)) connected_state
   = (\<lparr>content_text = js ''Error: Invalid end date: later'', isError = True\<rparr>,
      connected_state\<lparr>log := [fetch_request (cal_named ''A''), fetch_request (cal_named ''B''),
                                fetch_request (cal_named ''C'')]\<rparr>)
   \<and> isError (fst (handler example_config example_runtime example_dav (js ''update_event'')
     (Some (no_args\<lparr>eventUrl := Some (js ''/cal/Z/9.ics''), startDate := Some (js ''soon'')\<rparr>))
     connected_state))
   \<and> filter is_write (log (snd (handler example_config example_runtime example_dav
     (js ''update_event'')
     (Some (no_args\<lparr>eventUrl := Some (js ''/cal/Z/9.ics''), startDate := Some (js ''soon'')\<rparr>))
     connected_state))) = []"
proof -
  let ?st1 = "connected_state\<lparr>log := [CreateDAVClient (js ''user@fastmail.com'') (js ''0123456789abcdef''),
                                FetchCalendars]\<rparr>"
  let ?a1 = "no_args\<lparr>calendarUrl := Some (js ''/cal/A''), summary := Some (js ''Lunch''),
                     startDate := Some (js ''2024-12-15T11:00:00Z''),
                     endDate := Some (js ''2024-12-15T10:00:00Z'')\<rparr>"
  let ?a2 = "no_args\<lparr>calendarUrl := Some (js ''/cal/A''),
                     startDate := Some (js ''2024-12-15T10:00:00Z''),
                     endDate := Some (js ''later'')\<rparr>"
  let ?a3 = "no_args\<lparr>eventUrl := Some (js ''/cal/C/1.ics''), summary := Some (js ''new''),
                     startDate := Some (js ''soon'')\<rparr>"
  let ?a4 = "no_args\<lparr>eventUrl := Some (js ''/cal/C/1.ics''),
                     startDate := Some (js ''2024-12-15T10:00:00Z''),
                     endDate := Some (js ''later'')\<rparr>"
  let ?a5 = "no_args\<lparr>eventUrl := Some (js ''/cal/Z/9.ics''), startDate := Some (js ''soon'')\<rparr>"
  let ?cals = "calendars connected_state"
  have init: "initializeClient example_config example_dav initial_state = (Inr (), ?st1)"
    by (simp add: initializeClient_def issue_def example_config_def example_dav_def
          initial_state_def connected_state_def)
  have conn: "initializeClient example_config example_dav connected_state
      = (Inr (), connected_state)"
    by (rule initializeClient_again) (simp add: connected_state_def)
  have cal1: "find (\<lambda>cal. Some (cal_url cal) = calendarUrl ?a1) (calendars ?st1)
      = Some (cal_named ''A'')"
    by (simp add: no_args_def connected_state_def cal_named_def js_def)
  have s1: "newDate (parseDate example_runtime) (startDate ?a1) = Some 1734260400000"
    by (simp add: no_args_def newDate_def example_runtime_def js_def)
  have e1: "newDate (parseDate example_runtime) (endDate ?a1) = Some 1734256800000"
    by (simp add: no_args_def newDate_def example_runtime_def js_def)
  have le: "(1734256800000::int) \<le> 1734260400000" by simp
  have cal2: "find (\<lambda>cal. Some (cal_url cal) = calendarUrl ?a2) (calendars ?st1)
      = Some (cal_named ''A'')"
    by (simp add: no_args_def connected_state_def cal_named_def js_def)
  have s2: "newDate (parseDate example_runtime) (startDate ?a2) = Some 1734256800000"
    by (simp add: no_args_def newDate_def example_runtime_def js_def)
  have e2: "newDate (parseDate example_runtime) (endDate ?a2) = None"
    by (simp add: no_args_def newDate_def example_runtime_def js_def)
  have len: "(2::nat) < length ?cals"
    by (simp add: connected_state_def)
  have before3: "\<forall>j<2. misses example_dav (eventUrl ?a3) connected_state ?cals j"
    by (simp add: all_less_2 example_eval no_args_def)
  have before4: "\<forall>j<2. misses example_dav (eventUrl ?a4) connected_state ?cals j"
    by (simp add: all_less_2 example_eval no_args_def)
  have at_c: "fetched example_dav connected_state ?cals 2 = Inr [example_event]"
    by (simp add: example_eval)
  have hit3: "matching (eventUrl ?a3) [example_event] = Some example_event"
    by (simp add: example_eval no_args_def)
  have hit4: "matching (eventUrl ?a4) [example_event] = Some example_event"
    by (simp add: example_eval no_args_def)
  have t3: "truthy (startDate ?a3)"
    by (simp add: no_args_def truthy_def js_def)
  have s3: "newDate (parseDate example_runtime) (startDate ?a3) = None"
    by (simp add: no_args_def newDate_def example_runtime_def js_def)
  have s4: "\<not> (truthy (startDate ?a4) \<and> newDate (parseDate example_runtime) (startDate ?a4) = None)"
    by (simp add: no_args_def newDate_def example_runtime_def js_def)
  have t4: "truthy (endDate ?a4)"
    by (simp add: no_args_def truthy_def js_def)
  have e4: "newDate (parseDate example_runtime) (endDate ?a4) = None"
    by (simp add: no_args_def newDate_def example_runtime_def js_def)
  have bad5: "(truthy (startDate ?a5) \<and> newDate (parseDate example_runtime) (startDate ?a5) = None)
      \<or> (truthy (endDate ?a5) \<and> newDate (parseDate example_runtime) (endDate ?a5) = None)"
    by (simp add: no_args_def truthy_def newDate_def example_runtime_def js_def)
  have lg: "log connected_state = []"
    by (simp add: connected_state_def)
  have three_fetches: "map fetch_request (take (Suc 2) ?cals)
      = [fetch_request (cal_named ''A''), fetch_request (cal_named ''B''),
         fetch_request (cal_named ''C'')]"
    by (simp add: connected_state_def)
  have texts:
    "js ''Error: Invalid end date: '' @ interp (endDate ?a2) = js ''Error: Invalid end date: later''"
    "js ''Error: Invalid start date: '' @ interp (startDate ?a3)
       = js ''Error: Invalid start date: soon''"
    "js ''Error: Invalid end date: '' @ interp (endDate ?a4) = js ''Error: Invalid end date: later''"
    by (simp_all add: no_args_def interp_def js_def)
  have one: "handler example_config example_runtime example_dav (js ''create_event'') (Some ?a1)
      initial_state
    = (\<lparr>content_text = js ''Error: End date must be after start date'', isError = True\<rparr>, ?st1)"
    by (rule validation_precedes_object_requests[where cfg = example_config
          and rt = example_runtime and srv = example_dav and st = initial_state
          and ?st1.0 = ?st1 and args = ?a1 and cal = "cal_named ''A''"
          and s = 1734260400000 and e = 1734256800000,
          THEN conjunct2, THEN conjunct2, THEN conjunct2, THEN conjunct2, THEN conjunct1,
          THEN mp])
       (intro conjI; fact)
  have two: "handler example_config example_runtime example_dav (js ''list_events'') (Some ?a2)
      initial_state
    = (\<lparr>content_text = js ''Error: Invalid end date: '' @ interp (endDate ?a2), isError = True\<rparr>,
       ?st1)"
    by (rule validation_precedes_object_requests[where cfg = example_config
          and rt = example_runtime and srv = example_dav and st = initial_state
          and ?st1.0 = ?st1 and args = ?a2 and cal = "cal_named ''A''"
          and s = 1734256800000,
          THEN conjunct2, THEN conjunct2, THEN conjunct2, THEN conjunct1, THEN mp,
          THEN conjunct1])
       (intro conjI; fact)
  have three: "handler example_config example_runtime example_dav (js ''update_event'') (Some ?a3)
      connected_state
    = (\<lparr>content_text = js ''Error: Invalid start date: '' @ interp (startDate ?a3),
        isError = True\<rparr>,
       connected_state\<lparr>log := log connected_state @ map fetch_request (take (Suc 2) ?cals)\<rparr>)"
    by (rule validation_precedes_object_requests[where cfg = example_config
          and rt = example_runtime and srv = example_dav and st = connected_state
          and ?st1.0 = connected_state and args = ?a3 and k = 2
          and events = "[example_event]" and ev = example_event,
          THEN conjunct2, THEN conjunct2, THEN conjunct2, THEN conjunct2, THEN conjunct2,
          THEN conjunct1, THEN mp])
       (intro conjI; fact)
  have four: "handler example_config example_runtime example_dav (js ''update_event'') (Some ?a4)
      connected_state
    = (\<lparr>content_text = js ''Error: Invalid end date: '' @ interp (endDate ?a4),
        isError = True\<rparr>,
       connected_state\<lparr>log := log connected_state @ map fetch_request (take (Suc 2) ?cals)\<rparr>)"
    by (rule validation_precedes_object_requests[where cfg = example_config
          and rt = example_runtime and srv = example_dav and st = connected_state
          and ?st1.0 = connected_state and args = ?a4 and k = 2
          and events = "[example_event]" and ev = example_event,
          THEN conjunct2, THEN conjunct2, THEN conjunct2, THEN conjunct2, THEN conjunct2,
          THEN conjunct2, THEN conjunct1, THEN mp])
       (intro conjI; fact)
  have five: "isError (fst (handler example_config example_runtime example_dav
        (js ''update_event'') (Some ?a5) connected_state))
      \<and> filter is_write (log (snd (handler example_config example_runtime example_dav
        (js ''update_event'') (Some ?a5) connected_state))) = filter is_write (log connected_state)"
    by (rule validation_precedes_object_requests[where cfg = example_config
          and rt = example_runtime and srv = example_dav and st = connected_state
          and args = ?a5,
          THEN conjunct2, THEN conjunct2, THEN conjunct2, THEN conjunct2, THEN conjunct2,
          THEN conjunct2, THEN conjunct2, THEN mp])
       (fact bad5)
  from one two three four five show ?thesis
    by (simp only: texts lg three_fetches append_Nil filter.simps)
qed

section \<open>What an initialization stores, and when\<close>

lemma initializeClient_stores:
  "davClient st = None \<Longrightarrow> initializeClient cfg srv st = (Inr (), st1)
   \<Longrightarrow> fetchCalendars srv (log st @ [CreateDAVClient (username cfg) (appPassword cfg)])
       = Inr (calendars st1)"
  by (auto simp: initializeClient_def issue_def Let_def split: sum.splits)

lemma run_late_entrant:
  assumes "davClient st = None"
    and "createDAVClient srv (log st) (username cfg) (appPassword cfg) = Inr c"
  shows "run cfg srv [0, 0, 1] ([Entry, Entry], st)
     = ([AwaitFetch (fetchCalendars srv
                       (log st @ [CreateDAVClient (username cfg) (appPassword cfg)])),
         Returned],
        st\<lparr>davClient := Some c,
            log := log st @ [CreateDAVClient (username cfg) (appPassword cfg), FetchCalendars]\<rparr>)"
  using assms by (simp add: init_step_def issue_def)

lemma run_both_succeed:
  assumes "davClient st = None"
    and "createDAVClient srv (log st) (username cfg) (appPassword cfg) = Inr c0"
    and "createDAVClient srv (log st @ [CreateDAVClient (username cfg) (appPassword cfg)])
           (username cfg) (appPassword cfg) = Inr c1"
    and "fetchCalendars srv (log st @ [CreateDAVClient (username cfg) (appPassword cfg),
           CreateDAVClient (username cfg) (appPassword cfg)]) = Inr cs0"
    and "fetchCalendars srv (log st @ [CreateDAVClient (username cfg) (appPassword cfg),
           CreateDAVClient (username cfg) (appPassword cfg), FetchCalendars]) = Inr cs1"
  shows "run cfg srv [0, 1, 0, 1, 0] ([Entry, Entry], st)
     = ([Returned, AwaitFetch (Inr cs1)],
        st\<lparr>davClient := Some c1, calendars := cs0,
            log := log st @ [CreateDAVClient (username cfg) (appPassword cfg),
                             CreateDAVClient (username cfg) (appPassword cfg),
                             FetchCalendars, FetchCalendars]\<rparr>)"
    and "run cfg srv [0, 1, 0, 1, 0, 1] ([Entry, Entry], st)
     = ([Returned, Returned],
        st\<lparr>davClient := Some c1, calendars := cs1,
            log := log st @ [CreateDAVClient (username cfg) (appPassword cfg),
                             CreateDAVClient (username cfg) (appPassword cfg),
                             FetchCalendars, FetchCalendars]\<rparr>)"
  using assms by (simp_all add: init_step_def issue_def)

text \<open>
  Claim C9 says that two tool calls which both trigger the first initialization perform
  exactly one handshake, the second caller waiting for the result of the first, and that
  both observe the same calendar list. Nothing in \<open>initializeClient\<close> records that a
  handshake is under way: \<open>davClient\<close> is assigned only when the handshake has settled.
  With the two calls resumed in turn, each finds \<open>davClient\<close> still \<open>null\<close>, and two
  handshakes are on the log when both have returned. And when the second call enters after
  the handshake of the first has settled, it finds \<open>davClient\<close> set and returns at once,
  without waiting for anything: the calendar list is then still empty, while the first
  caller, resumed once more, returns with the four calendars stored.
\<close>

theorem interleaved_calls_handshake_twice:
  "run example_config example_dav [0, 1, 0, 1, 0, 1] ([Entry, Entry], initial_state)
     = ([Returned, Returned],
        connected_state\<lparr>log := [CreateDAVClient (js ''user@fastmail.com'') (js ''0123456789abcdef''),
                                  CreateDAVClient (js ''user@fastmail.com'') (js ''0123456789abcdef''),
                                  FetchCalendars, FetchCalendars]\<rparr>)
   \<and> handshakes (snd (run example_config example_dav [0, 1, 0, 1, 0, 1]
                        ([Entry, Entry], initial_state))) = 2
   \<and> run example_config example_dav [0, 0, 1] ([Entry, Entry], initial_state)
     = ([AwaitFetch (Inr [cal_named ''A'', cal_named ''B'', cal_named ''C'', cal_named ''D'']),
         Returned],
        \<lparr>davClient = Some DAVClient, calendars = [],
         log = [CreateDAVClient (js ''user@fastmail.com'') (js ''0123456789abcdef''),
                FetchCalendars]\<rparr>)
   \<and> run example_config example_dav [0, 0, 1, 0] ([Entry, Entry], initial_state)
     = ([Returned, Returned],
        \<lparr>davClient = Some DAVClient,
         calendars = [cal_named ''A'', cal_named ''B'', cal_named ''C'', cal_named ''D''],
         log = [CreateDAVClient (js ''user@fastmail.com'') (js ''0123456789abcdef''),
                FetchCalendars]\<rparr>)"
  by (simp add: init_step_def example_config_def example_dav_def initial_state_def
        connected_state_def issue_def handshakes_def)

text \<open>
  Claim C9 as amended. The initialization is guarded by the test of \<open>davClient\<close> alone,
  which is assigned when the handshake settles, before the calendar listing is requested.
  A call that finds it set performs no request and changes nothing. A first initialization
  that succeeds performs one handshake and stores the calendar list that its listing
  request fetched; a call made in the state it returned changes nothing, so it sees that
  list. One call resumed three times does what \<open>initializeClient\<close> does. Two calls that
  both enter while \<open>davClient\<close> is \<open>null\<close> perform one handshake each, however they are
  resumed afterwards; resumed in turn with every request accepted, each stores the list
  its own listing request fetched, the first caller returning with its own list stored and
  the second then storing its own over it. A call that enters after the handshake of the
  first has settled, and before the first has stored its list, performs no request and
  returns at once, the calendar list being still what it was before the first call.
\<close>

theorem initialization_guard:
  "(davClient st \<noteq> None \<longrightarrow> initializeClient cfg srv st = (Inr (), st))
   \<and> (davClient st = None \<and> initializeClient cfg srv st = (Inr (), st1)
      \<longrightarrow> handshakes st1 = Suc (handshakes st) \<and> initializeClient cfg srv st1 = (Inr (), st1))
   \<and> snd (run cfg srv [0, 0, 0] ([Entry], st)) = snd (initializeClient cfg srv st)
   \<and> (fst (run cfg srv [0, 0, 0] ([Entry], st)) = [Returned])
     = (fst (initializeClient cfg srv st) = Inr ())
   \<and> (davClient st = None
      \<longrightarrow> handshakes (snd (run cfg srv (0 # 1 # sched) ([Entry, Entry], st))) = handshakes st + 2)
   \<and> (davClient st = None \<and> initializeClient cfg srv st = (Inr (), st1)
      \<longrightarrow> fetchCalendars srv (log st @ [CreateDAVClient (username cfg) (appPassword cfg)])
          = Inr (calendars st1))
   \<and> (davClient st = None
      \<and> createDAVClient srv (log st) (username cfg) (appPassword cfg) = Inr c0
      \<and> createDAVClient srv (log st @ [CreateDAVClient (username cfg) (appPassword cfg)])
           (username cfg) (appPassword cfg) = Inr c1
      \<and> fetchCalendars srv (log st @ [CreateDAVClient (username cfg) (appPassword cfg),
           CreateDAVClient (username cfg) (appPassword cfg)]) = Inr cs0
      \<and> fetchCalendars srv (log st @ [CreateDAVClient (username cfg) (appPassword cfg),
           CreateDAVClient (username cfg) (appPassword cfg), FetchCalendars]) = Inr cs1
      \<longrightarrow> run cfg srv [0, 1, 0, 1, 0] ([Entry, Entry], st)
          = ([Returned, AwaitFetch (Inr cs1)],
             st\<lparr>davClient := Some c1, calendars := cs0,
                 log := log st @ [CreateDAVClient (username cfg) (appPassword cfg),
                                  CreateDAVClient (username cfg) (appPassword cfg),
                                  FetchCalendars, FetchCalendars]\<rparr>)
        \<and> run cfg srv [0, 1, 0, 1, 0, 1] ([Entry, Entry], st)
          = ([Returned, Returned],
             st\<lparr>davClient := Some c1, calendars := cs1,
                 log := log st @ [CreateDAVClient (username cfg) (appPassword cfg),
                                  CreateDAVClient (username cfg) (appPassword cfg),
                                  FetchCalendars, FetchCalendars]\<rparr>))
   \<and> (davClient st = None
      \<and> createDAVClient srv (log st) (username cfg) (appPassword cfg) = Inr c0
      \<longrightarrow> run cfg srv [0, 0, 1] ([Entry, Entry], st)
          = ([AwaitFetch (fetchCalendars srv
                            (log st @ [CreateDAVClient (username cfg) (appPassword cfg)])),
              Returned],
             st\<lparr>davClient := Some c0,
                 log := log st @ [CreateDAVClient (username cfg) (appPassword cfg),
                                  FetchCalendars]\<rparr>))"
proof -
  have g1: "davClient st \<noteq> None \<longrightarrow> initializeClient cfg srv st = (Inr (), st)"
    by (simp add: initializeClient_again)
  have g2: "davClient st = None \<and> initializeClient cfg srv st = (Inr (), st1)
      \<longrightarrow> handshakes st1 = Suc (handshakes st) \<and> initializeClient cfg srv st1 = (Inr (), st1)"
  proof
    assume a: "davClient st = None \<and> initializeClient cfg srv st = (Inr (), st1)"
    then have x: "davClient st = None" and y: "initializeClient cfg srv st = (Inr (), st1)"
      by simp_all
    have f: "handshakes st1 = Suc (handshakes st) \<and> davClient st1 \<noteq> None"
      by (rule initializeClient_first[OF x y])
    then have "davClient st1 \<noteq> None" by simp
    then have "initializeClient cfg srv st1 = (Inr (), st1)"
      by (rule initializeClient_again)
    with f show "handshakes st1 = Suc (handshakes st)
        \<and> initializeClient cfg srv st1 = (Inr (), st1)" by simp
  qed
  have g3: "snd (run cfg srv [0, 0, 0] ([Entry], st)) = snd (initializeClient cfg srv st)"
    using run_alone by blast
  have g4: "(fst (run cfg srv [0, 0, 0] ([Entry], st)) = [Returned])
     = (fst (initializeClient cfg srv st) = Inr ())"
    using run_alone by blast
  have g5: "davClient st = None
      \<longrightarrow> handshakes (snd (run cfg srv (0 # 1 # sched) ([Entry, Entry], st))) = handshakes st + 2"
    using run_both_enter by blast
  have g6: "davClient st = None \<and> initializeClient cfg srv st = (Inr (), st1)
      \<longrightarrow> fetchCalendars srv (log st @ [CreateDAVClient (username cfg) (appPassword cfg)])
          = Inr (calendars st1)"
    using initializeClient_stores by blast
  have g7: "davClient st = None
      \<and> createDAVClient srv (log st) (username cfg) (appPassword cfg) = Inr c0
      \<and> createDAVClient srv (log st @ [CreateDAVClient (username cfg) (appPassword cfg)])
           (username cfg) (appPassword cfg) = Inr c1
      \<and> fetchCalendars srv (log st @ [CreateDAVClient (username cfg) (appPassword cfg),
           CreateDAVClient (username cfg) (appPassword cfg)]) = Inr cs0
      \<and> fetchCalendars srv (log st @ [CreateDAVClient (username cfg) (appPassword cfg),
           CreateDAVClient (username cfg) (appPassword cfg), FetchCalendars]) = Inr cs1
      \<longrightarrow> run cfg srv [0, 1, 0, 1, 0] ([Entry, Entry], st)
          = ([Returned, AwaitFetch (Inr cs1)],
             st\<lparr>davClient := Some c1, calendars := cs0,
                 log := log st @ [CreateDAVClient (username cfg) (appPassword cfg),
                                  CreateDAVClient (username cfg) (appPassword cfg),
                                  FetchCalendars, FetchCalendars]\<rparr>)
        \<and> run cfg srv [0, 1, 0, 1, 0, 1] ([Entry, Entry], st)
          = ([Returned, Returned],
             st\<lparr>davClient := Some c1, calendars := cs1,
                 log := log st @ [CreateDAVClient (username cfg) (appPassword cfg),
                                  CreateDAVClient (username cfg) (appPassword cfg),
                                  FetchCalendars, FetchCalendars]\<rparr>)"
    using run_both_succeed[of st srv cfg c0 c1 cs0 cs1] by blast
  have g8: "davClient st = None
      \<and> createDAVClient srv (log st) (username cfg) (appPassword cfg) = Inr c0
      \<longrightarrow> run cfg srv [0, 0, 1] ([Entry, Entry], st)
          = ([AwaitFetch (fetchCalendars srv
                            (log st @ [CreateDAVClient (username cfg) (appPassword cfg)])),
              Returned],
             st\<lparr>davClient := Some c0,
                 log := log st @ [CreateDAVClient (username cfg) (appPassword cfg),
                                  FetchCalendars]\<rparr>)"
    using run_late_entrant[of st srv cfg c0] by blast
  from g1 g2 g3 g4 g5 g6 g7 g8 show ?thesis
    by (intro conjI)
qed


text \<open>
  In the example account: the first call performs the one handshake and stores the four
  calendars that its listing fetched, and a second call after it changes nothing; entered
  together, two calls leave two handshakes whatever follows. With a server whose listing
  grows from one calendar to two between the two listing requests, the two calls resumed
  in turn store first the one calendar, then the two. And a call that enters after the
  handshake of the first has settled returns while the calendar list is still empty.
\<close>

theorem initialization_guard_witness:
  "initializeClient example_config example_dav initial_state
     = (Inr (), connected_state\<lparr>log := [CreateDAVClient (js ''user@fastmail.com'')
                                           (js ''0123456789abcdef''), FetchCalendars]\<rparr>)
   \<and> initializeClient example_config example_dav
       (connected_state\<lparr>log := [CreateDAVClient (js ''user@fastmail.com'')
                                  (js ''0123456789abcdef''), FetchCalendars]\<rparr>)
     = (Inr (), connected_state\<lparr>log := [CreateDAVClient (js ''user@fastmail.com'')
                                           (js ''0123456789abcdef''), FetchCalendars]\<rparr>)
   \<and> handshakes (connected_state\<lparr>log := [CreateDAVClient (js ''user@fastmail.com'')
                                           (js ''0123456789abcdef''), FetchCalendars]\<rparr>) = 1
   \<and> handshakes (snd (run example_config example_dav [0, 1, 1, 1, 0, 0]
                        ([Entry, Entry], initial_state))) = 2
   \<and> fetchCalendars example_dav
        [CreateDAVClient (js ''user@fastmail.com'') (js ''0123456789abcdef'')]
     = Inr (calendars (connected_state\<lparr>log := [CreateDAVClient (js ''user@fastmail.com'')
                                           (js ''0123456789abcdef''), FetchCalendars]\<rparr>))
   \<and> run example_config
        (example_dav\<lparr>fetchCalendars := (\<lambda>h. if length h = 2 then Inr [cal_named ''A'']
                                             else Inr [cal_named ''A'', cal_named ''B''])\<rparr>)
        [0, 1, 0, 1, 0] ([Entry, Entry], initial_state)
     = ([Returned, AwaitFetch (Inr [cal_named ''A'', cal_named ''B''])],
        \<lparr>davClient = Some DAVClient, calendars = [cal_named ''A''],
         log = [CreateDAVClient (js ''user@fastmail.com'') (js ''0123456789abcdef''),
                CreateDAVClient (js ''user@fastmail.com'') (js ''0123456789abcdef''),
                FetchCalendars, FetchCalendars]\<rparr>)
   \<and> run example_config
        (example_dav\<lparr>fetchCalendars := (\<lambda>h. if length h = 2 then Inr [cal_named ''A'']
                                             else Inr [cal_named ''A'', cal_named ''B''])\<rparr>)
        [0, 1, 0, 1, 0, 1] ([Entry, Entry], initial_state)
     = ([Returned, Returned],
        \<lparr>davClient = Some DAVClient, calendars = [cal_named ''A'', cal_named ''B''],
         log = [CreateDAVClient (js ''user@fastmail.com'') (js ''0123456789abcdef''),
                CreateDAVClient (js ''user@fastmail.com'') (js ''0123456789abcdef''),
                FetchCalendars, FetchCalendars]\<rparr>)
   \<and> run example_config
        (example_dav\<lparr>fetchCalendars := (\<lambda>h. if length h = 2 then Inr [cal_named ''A'']
                                             else Inr [cal_named ''A'', cal_named ''B''])\<rparr>)
        [0, 0, 1] ([Entry, Entry], initial_state)
     = ([AwaitFetch (Inr [cal_named ''A'', cal_named ''B'']), Returned],
        \<lparr>davClient = Some DAVClient, calendars = [],
         log = [CreateDAVClient (js ''user@fastmail.com'') (js ''0123456789abcdef''),
                FetchCalendars]\<rparr>)"
proof -
  let ?st1 = "connected_state\<lparr>log := [CreateDAVClient (js ''user@fastmail.com'')
                                           (js ''0123456789abcdef''), FetchCalendars]\<rparr>"
  let ?h = "CreateDAVClient (username example_config) (appPassword example_config)"
  let ?vary = "example_dav\<lparr>fetchCalendars := (\<lambda>h. if length h = 2 then Inr [cal_named ''A'']
                                             else Inr [cal_named ''A'', cal_named ''B''])\<rparr>"
  have init: "initializeClient example_config example_dav initial_state = (Inr (), ?st1)"
    by (simp add: initializeClient_def issue_def example_config_def example_dav_def
          initial_state_def connected_state_def)
  have none: "davClient initial_state = None"
    by (simp add: initial_state_def)
  have h0: "handshakes initial_state = 0"
    by (simp add: handshakes_def initial_state_def)
  have c0: "createDAVClient ?vary (log initial_state) (username example_config)
      (appPassword example_config) = Inr DAVClient"
    by (simp add: example_dav_def)
  have c1: "createDAVClient ?vary (log initial_state @ [?h]) (username example_config)
      (appPassword example_config) = Inr DAVClient"
    by (simp add: example_dav_def)
  have f0: "fetchCalendars ?vary (log initial_state @ [?h, ?h]) = Inr [cal_named ''A'']"
    by (simp add: initial_state_def)
  have f1: "fetchCalendars ?vary (log initial_state @ [?h, ?h, FetchCalendars])
      = Inr [cal_named ''A'', cal_named ''B'']"
    by (simp add: initial_state_def)
  have f2: "fetchCalendars ?vary (log initial_state @ [?h])
      = Inr [cal_named ''A'', cal_named ''B'']"
    by (simp add: initial_state_def)
  have a: "handshakes ?st1 = Suc (handshakes initial_state)
      \<and> initializeClient example_config example_dav ?st1 = (Inr (), ?st1)"
    by (rule initialization_guard[where cfg = example_config and srv = example_dav
          and st = initial_state and ?st1.0 = ?st1,
          THEN conjunct2, THEN conjunct1, THEN mp])
       (intro conjI; fact)
  have b: "handshakes (snd (run example_config example_dav (0 # 1 # [1, 1, 0, 0])
                        ([Entry, Entry], initial_state))) = handshakes initial_state + 2"
    by (rule initialization_guard[where cfg = example_config and srv = example_dav
          and st = initial_state and sched = "[1, 1, 0, 0]",
          THEN conjunct2, THEN conjunct2, THEN conjunct2, THEN conjunct2, THEN conjunct1,
          THEN mp])
       (fact none)
  have c: "fetchCalendars example_dav (log initial_state @ [?h]) = Inr (calendars ?st1)"
    by (rule initialization_guard[where cfg = example_config and srv = example_dav
          and st = initial_state and ?st1.0 = ?st1,
          THEN conjunct2, THEN conjunct2, THEN conjunct2, THEN conjunct2, THEN conjunct2,
          THEN conjunct1, THEN mp])
       (intro conjI; fact)
  have d: "run example_config ?vary [0, 1, 0, 1, 0] ([Entry, Entry], initial_state)
          = ([Returned, AwaitFetch (Inr [cal_named ''A'', cal_named ''B''])],
             initial_state\<lparr>davClient := Some DAVClient, calendars := [cal_named ''A''],
                 log := log initial_state @ [?h, ?h, FetchCalendars, FetchCalendars]\<rparr>)
        \<and> run example_config ?vary [0, 1, 0, 1, 0, 1] ([Entry, Entry], initial_state)
          = ([Returned, Returned],
             initial_state\<lparr>davClient := Some DAVClient,
                 calendars := [cal_named ''A'', cal_named ''B''],
                 log := log initial_state @ [?h, ?h, FetchCalendars, FetchCalendars]\<rparr>)"
    by (rule initialization_guard[where cfg = example_config and srv = ?vary
          and st = initial_state and ?c0.0 = DAVClient and ?c1.0 = DAVClient
          and ?cs0.0 = "[cal_named ''A'']" and ?cs1.0 = "[cal_named ''A'', cal_named ''B'']",
          THEN conjunct2, THEN conjunct2, THEN conjunct2, THEN conjunct2, THEN conjunct2,
          THEN conjunct2, THEN conjunct1, THEN mp])
       (intro conjI; fact)
  have e: "run example_config ?vary [0, 0, 1] ([Entry, Entry], initial_state)
          = ([AwaitFetch (fetchCalendars ?vary (log initial_state @ [?h])), Returned],
             initial_state\<lparr>davClient := Some DAVClient,
                 log := log initial_state @ [?h, FetchCalendars]\<rparr>)"
    by (rule initialization_guard[where cfg = example_config and srv = ?vary
          and st = initial_state and ?c0.0 = DAVClient,
          THEN conjunct2, THEN conjunct2, THEN conjunct2, THEN conjunct2, THEN conjunct2,
          THEN conjunct2, THEN conjunct2, THEN mp])
       (intro conjI; fact)
  have states:
    "initial_state\<lparr>davClient := Some DAVClient, calendars := [cal_named ''A''],
         log := log initial_state @ [?h, ?h, FetchCalendars, FetchCalendars]\<rparr>
      = \<lparr>davClient = Some DAVClient, calendars = [cal_named ''A''],
         log = [CreateDAVClient (js ''user@fastmail.com'') (js ''0123456789abcdef''),
                CreateDAVClient (js ''user@fastmail.com'') (js ''0123456789abcdef''),
                FetchCalendars, FetchCalendars]\<rparr>"
    "initial_state\<lparr>davClient := Some DAVClient, calendars := [cal_named ''A'', cal_named ''B''],
         log := log initial_state @ [?h, ?h, FetchCalendars, FetchCalendars]\<rparr>
      = \<lparr>davClient = Some DAVClient, calendars = [cal_named ''A'', cal_named ''B''],
         log = [CreateDAVClient (js ''user@fastmail.com'') (js ''0123456789abcdef''),
                CreateDAVClient (js ''user@fastmail.com'') (js ''0123456789abcdef''),
                FetchCalendars, FetchCalendars]\<rparr>"
    "initial_state\<lparr>davClient := Some DAVClient,
         log := log initial_state @ [?h, FetchCalendars]\<rparr>
      = \<lparr>davClient = Some DAVClient, calendars = [],
         log = [CreateDAVClient (js ''user@fastmail.com'') (js ''0123456789abcdef''),
                FetchCalendars]\<rparr>"
    "log initial_state @ [?h]
      = [CreateDAVClient (js ''user@fastmail.com'') (js ''0123456789abcdef'')]"
    by (simp_all add: initial_state_def example_config_def)
  from a h0 have a1: "handshakes ?st1 = 1" by simp
  from a have a2: "initializeClient example_config example_dav ?st1 = (Inr (), ?st1)" by simp
  from b h0 have b1: "handshakes (snd (run example_config example_dav [0, 1, 1, 1, 0, 0]
                        ([Entry, Entry], initial_state))) = 2"
    by (simp only: add_0)
  note stored = c[unfolded states(4)]
  note d1 = d[THEN conjunct1, unfolded states(1)]
  note d2 = d[THEN conjunct2, unfolded states(2)]
  note e1 = e[unfolded f2 states(3)]
  show ?thesis
    by (intro conjI) (fact init a2 a1 b1 stored d1 d2 e1)+
qed

end
